theory Spec2Isabelle
  imports Complex_Main
begin

section \<open>JavaScript values shared by the services\<close>

text \<open>
  A thrown JavaScript error is a value: the constructor is the error's class
  (\<open>error.name\<close>), the argument its \<open>message\<close>.
\<close>

datatype js_error =
    Error string
  | TypeError string
  | NotFoundError string
  | ForbiddenError string

fun message :: "js_error \<Rightarrow> string" where
  "message (Error m) = m"
| "message (TypeError m) = m"
| "message (NotFoundError m) = m"
| "message (ForbiddenError m) = m"

definition bindE :: "'e + 'a \<Rightarrow> ('a \<Rightarrow> 'e + 'b) \<Rightarrow> 'e + 'b" where
  "bindE m f = (case m of Inl e \<Rightarrow> Inl e | Inr x \<Rightarrow> f x)"

text \<open>\<open>String.prototype.includes\<close> on byte strings.\<close>

fun startsWith :: "string \<Rightarrow> string \<Rightarrow> bool" where
  "startsWith s [] = True"
| "startsWith [] (p # ps) = False"
| "startsWith (c # cs) (p # ps) = (c = p \<and> startsWith cs ps)"

fun str_includes :: "string \<Rightarrow> string \<Rightarrow> bool" where
  "str_includes [] pat = (pat = [])"
| "str_includes (c # cs) pat = (startsWith (c # cs) pat \<or> str_includes cs pat)"

text \<open>Decimal printing of a number inside a template string.\<close>

definition digit :: "nat \<Rightarrow> char" where
  "digit d = (if d = 0 then CHR ''0'' else if d = 1 then CHR ''1''
     else if d = 2 then CHR ''2'' else if d = 3 then CHR ''3''
     else if d = 4 then CHR ''4'' else if d = 5 then CHR ''5''
     else if d = 6 then CHR ''6'' else if d = 7 then CHR ''7''
     else if d = 8 then CHR ''8'' else CHR ''9'')"

fun string_of_nat :: "nat \<Rightarrow> string" where
  "string_of_nat n =
     (if n < 10 then [digit n] else string_of_nat (n div 10) @ [digit (n mod 10)])"

declare string_of_nat.simps [simp del]

datatype jsval = JNum rat | JStr string | JBool bool | JStrs "string list" | JUndefined

section \<open>The ledger behind \<open>blockchainService.js\<close>\<close>

text \<open>
  The two contracts are reached through ethers; \<open>blockchainService.js\<close> holds only
  their ABI (lines 5-29). The tuples below are the return tuples of that ABI, with
  \<open>uint256\<close> and \<open>uint8\<close> as naturals and \<open>address\<close> as its hex string.
\<close>

record raw_project =
  rp_id :: nat
  rp_producer :: string
  rp_name :: string
  rp_description :: string
  rp_totalSubsidyAmount :: nat
  rp_disbursedAmount :: nat
  rp_createdAt :: nat
  rp_status :: nat

record raw_milestone =
  rm_id :: nat
  rm_projectId :: nat
  rm_description :: string
  rm_subsidyAmount :: nat
  rm_targetValue :: nat
  rm_actualValue :: nat
  rm_verificationSource :: string
  rm_deadline :: nat
  rm_status :: nat
  rm_verifiedAt :: nat
  rm_verifiedBy :: string
  rm_paid :: bool

text \<open>
  Modelled from the spec: a measurement reading of a named source (section 4.3), as
  the oracle contract, which is not among the sources, holds it: source, timestamp in
  seconds, value.
\<close>

type_synonym reading = "string \<times> nat \<times> nat"

text \<open>
  Modelled from the spec: the state of the two contracts, which are not among the
  sources. It holds the projects and milestones of section 3 by id, the number of
  milestones created so far, the readings submitted to the oracle, the time of the
  current block in seconds, and whether the chain can be reached (section 6: every
  call may fail with \<open>Unavailable\<close>).
\<close>

record ledger =
  projects :: "nat \<rightharpoonup> raw_project"
  milestones :: "nat \<rightharpoonup> raw_milestone"
  milestoneCount :: nat
  readings :: "reading list"
  block_time :: nat
  reachable :: bool

text \<open>
  Modelled from the spec: the error conditions of section 7 that a ledger call can
  end with.
\<close>

datatype condition = NotFound | Conflict | InvalidArgument | Unavailable

text \<open>
  Modelled from the spec: the error a contract call rejects with. The contracts'
  revert strings are not in the sources; the message starts with the name of the
  spec's error condition (section 7), and the one of \<open>NotFound\<close> carries the phrase
  \<open>does not exist\<close> that the routes of \<open>milestones.js\<close> search for.
\<close>

definition revert :: "condition \<Rightarrow> js_error" where
  "revert c = Error (case c of
       NotFound \<Rightarrow> ''NotFound: does not exist''
     | Conflict \<Rightarrow> ''Conflict''
     | InvalidArgument \<Rightarrow> ''InvalidArgument''
     | Unavailable \<Rightarrow> ''Unavailable'')"

text \<open>
  Modelled from the spec: \<open>LedgerGateway.getProject\<close> (section 6), whose contract is
  not among the sources, returns the stored project and may fail with \<open>Unavailable\<close>
  or \<open>NotFound\<close>.
\<close>

definition contract_getProject :: "ledger \<Rightarrow> nat \<Rightarrow> js_error + raw_project" where
  "contract_getProject l projectId =
     (if \<not> reachable l then Inl (revert Unavailable)
      else case projects l projectId of
             None \<Rightarrow> Inl (revert NotFound)
           | Some p \<Rightarrow> Inr p)"

text \<open>
  Modelled from the spec: \<open>LedgerGateway.getMilestone\<close> (section 6), whose contract is
  not among the sources, returns the stored milestone and may fail with \<open>Unavailable\<close>
  or \<open>NotFound\<close>.
\<close>

definition contract_getMilestone :: "ledger \<Rightarrow> nat \<Rightarrow> js_error + raw_milestone" where
  "contract_getMilestone l milestoneId =
     (if \<not> reachable l then Inl (revert Unavailable)
      else case milestones l milestoneId of
             None \<Rightarrow> Inl (revert NotFound)
           | Some m \<Rightarrow> Inr m)"

text \<open>
  Modelled from the spec: the contract's \<open>verifyMilestone\<close> is not among the sources.
  \<open>verify(milestoneId, actualValue, success)\<close> of section 4.2 requires that the milestone exists and is Pending (status code 0), records
  actualValue, verifiedAt and verifiedBy, and sets the status to Verified (1) if
  success, else Failed (2); on a milestone that is no longer Pending it fails with
  \<open>Conflict\<close>. On success it emits a disbursement request. The receipt lists the
  events the call emits, under their names in the ABI.
\<close>

definition contract_verifyMilestone ::
    "ledger \<Rightarrow> string \<Rightarrow> nat \<Rightarrow> nat \<Rightarrow> bool \<Rightarrow> js_error + (string list \<times> ledger)" where
  "contract_verifyMilestone l sender milestoneId actualValue success =
     (if \<not> reachable l then Inl (revert Unavailable)
      else case milestones l milestoneId of
             None \<Rightarrow> Inl (revert NotFound)
           | Some m \<Rightarrow>
               if rm_status m \<noteq> 0 then Inl (revert Conflict)
               else Inr (''MilestoneVerified'' # (if success then [''SubsidyDisbursed''] else []),
                     l\<lparr>milestones := (milestones l)(milestoneId \<mapsto>
                          m\<lparr>rm_actualValue := actualValue,
                            rm_status := (if success then 1 else 2),
                            rm_verifiedAt := block_time l,
                            rm_verifiedBy := sender\<rparr>)\<rparr>))"

text \<open>
  Modelled from the spec: the contract's \<open>addMilestone\<close> is not among the sources.
  \<open>createMilestone\<close> of section 4.2 requires an existing
  project that is neither Completed (2) nor Cancelled (4), a deadline strictly after
  the current time and a positive subsidy amount; it fails with \<open>NotFound\<close> if the
  project is missing, \<open>InvalidArgument\<close> otherwise, and returns the new milestone,
  Pending. Milestone ids count up from 1.
\<close>

definition contract_addMilestone ::
    "ledger \<Rightarrow> nat \<Rightarrow> string \<Rightarrow> nat \<Rightarrow> nat \<Rightarrow> string \<Rightarrow> nat \<Rightarrow> js_error + (nat \<times> ledger)" where
  "contract_addMilestone l projectId description subsidyAmount targetValue verificationSource deadline =
     (if \<not> reachable l then Inl (revert Unavailable)
      else case projects l projectId of
             None \<Rightarrow> Inl (revert NotFound)
           | Some p \<Rightarrow>
               if rp_status p = 2 \<or> rp_status p = 4 \<or> deadline \<le> block_time l \<or> subsidyAmount = 0
               then Inl (revert InvalidArgument)
               else let milestoneId = milestoneCount l + 1 in
                 Inr (milestoneId,
                   l\<lparr>milestoneCount := milestoneId,
                     milestones := (milestones l)(milestoneId \<mapsto>
                       \<lparr>rm_id = milestoneId, rm_projectId = projectId,
                        rm_description = description, rm_subsidyAmount = subsidyAmount,
                        rm_targetValue = targetValue, rm_actualValue = 0,
                        rm_verificationSource = verificationSource, rm_deadline = deadline,
                        rm_status = 0, rm_verifiedAt = 0,
                        rm_verifiedBy = ''0x0000000000000000000000000000000000000000'',
                        rm_paid = False\<rparr>)\<rparr>))"

text \<open>
  Modelled from the spec: the window \<open>[fromDate, toDate)\<close> of section 4.3, which the
  oracle contract, not among the sources, applies to the readings of a source.
\<close>

definition in_window :: "string \<Rightarrow> nat \<Rightarrow> nat \<Rightarrow> reading \<Rightarrow> bool" where
  "in_window source fromTimestamp toTimestamp r =
     (case r of (src, t, v) \<Rightarrow> src = source \<and> fromTimestamp \<le> t \<and> t < toTimestamp)"

text \<open>
  Modelled from the spec: the oracle contract's \<open>getAggregateValue\<close> is not among the
  sources. \<open>aggregate(source, fromDate, toDate)\<close> of section 4.3 returns totalValue and
  dataPointCount over the readings of the named source within \<open>[fromDate, toDate)\<close>.
\<close>

definition contract_getAggregateValue ::
    "ledger \<Rightarrow> string \<Rightarrow> nat \<Rightarrow> nat \<Rightarrow> js_error + (nat \<times> nat)" where
  "contract_getAggregateValue l source fromTimestamp toTimestamp =
     (if \<not> reachable l then Inl (revert Unavailable)
      else let pts = filter (in_window source fromTimestamp toTimestamp) (readings l) in
        Inr (sum_list (map (\<lambda>r. snd (snd r)) pts), length pts))"

section \<open>\<open>services/blockchainService.js\<close>\<close>

record audit_entry =
  au_action :: string
  au_userId :: "nat option"
  au_details :: "(string \<times> jsval) list"

text \<open>
  The process state the routes work on: the service singleton (\<open>initialized\<close>, the
  signer's address), the ledger it talks to, the entries written by \<open>logger.audit\<close>
  and the wall clock in milliseconds.
\<close>

record server =
  initialized :: bool
  signer :: string
  chain :: ledger
  audit_log :: "audit_entry list"
  clock :: nat

record project =
  pr_id :: nat
  pr_producer :: string
  pr_name :: string
  pr_description :: string
  pr_totalSubsidyAmount :: rat
  pr_disbursedAmount :: rat
  pr_createdAt :: nat
  pr_status :: string

record milestone =
  ms_id :: nat
  ms_projectId :: nat
  ms_description :: string
  ms_subsidyAmount :: rat
  ms_targetValue :: nat
  ms_actualValue :: nat
  ms_verificationSource :: string
  ms_deadline :: nat
  ms_status :: string
  ms_verifiedAt :: "nat option"
  ms_verifiedBy :: "string option"
  ms_paid :: bool

text \<open>
  \<open>BigNumber.toNumber()\<close> throws when the value does not fit 53 bits;
  \<open>ethers.formatEther\<close> prints wei as a decimal number of ether, kept here as the
  number it denotes.
\<close>

definition toNumber :: "nat \<Rightarrow> js_error + nat" where
  "toNumber n = (if n < 2 ^ 53 then Inr n else Inl (Error ''overflow''))"

definition formatEther :: "nat \<Rightarrow> rat" where
  "formatEther wei = of_nat wei / 10 ^ 18"

definition AddressZero :: string where
  "AddressZero = ''0x0000000000000000000000000000000000000000''"

definition getProjectStatusName :: "nat \<Rightarrow> string" where
  "getProjectStatusName status =
     (let statuses = [''Pending'', ''Active'', ''Completed'', ''Suspended'', ''Cancelled''] in
      if status < length statuses \<and> statuses ! status \<noteq> [] then statuses ! status
      else ''Unknown'')"

definition getMilestoneStatusName :: "nat \<Rightarrow> string" where
  "getMilestoneStatusName status =
     (let statuses = [''Pending'', ''Verified'', ''Failed'', ''Disputed''] in
      if status < length statuses \<and> statuses ! status \<noteq> [] then statuses ! status
      else ''Unknown'')"

definition getProject :: "server \<Rightarrow> nat \<Rightarrow> js_error + project" where
  "getProject s projectId =
     (if \<not> initialized s then Inl (Error ''Service not initialized'')
      else case
        bindE (contract_getProject (chain s) projectId) (\<lambda>p.
        bindE (toNumber (rp_id p)) (\<lambda>i.
        bindE (toNumber (rp_createdAt p)) (\<lambda>createdAt.
          Inr \<lparr>pr_id = i, pr_producer = rp_producer p, pr_name = rp_name p,
               pr_description = rp_description p,
               pr_totalSubsidyAmount = formatEther (rp_totalSubsidyAmount p),
               pr_disbursedAmount = formatEther (rp_disbursedAmount p),
               pr_createdAt = createdAt * 1000,
               pr_status = getProjectStatusName (rp_status p)\<rparr>)))
      of Inl error \<Rightarrow> Inl (Error (''Failed to get project: '' @ message error))
       | Inr p \<Rightarrow> Inr p)"

definition getMilestone :: "server \<Rightarrow> nat \<Rightarrow> js_error + milestone" where
  "getMilestone s milestoneId =
     (if \<not> initialized s then Inl (Error ''Service not initialized'')
      else case
        bindE (contract_getMilestone (chain s) milestoneId) (\<lambda>m.
        bindE (toNumber (rm_id m)) (\<lambda>i.
        bindE (toNumber (rm_projectId m)) (\<lambda>projectId.
        bindE (toNumber (rm_targetValue m)) (\<lambda>targetValue.
        bindE (toNumber (rm_actualValue m)) (\<lambda>actualValue.
        bindE (toNumber (rm_deadline m)) (\<lambda>deadline.
        bindE (toNumber (rm_verifiedAt m)) (\<lambda>verifiedAt.
          Inr \<lparr>ms_id = i, ms_projectId = projectId,
               ms_description = rm_description m,
               ms_subsidyAmount = formatEther (rm_subsidyAmount m),
               ms_targetValue = targetValue, ms_actualValue = actualValue,
               ms_verificationSource = rm_verificationSource m,
               ms_deadline = deadline * 1000,
               ms_status = getMilestoneStatusName (rm_status m),
               ms_verifiedAt = (if verifiedAt > 0 then Some (verifiedAt * 1000) else None),
               ms_verifiedBy =
                 (if rm_verifiedBy m \<noteq> AddressZero then Some (rm_verifiedBy m) else None),
               ms_paid = rm_paid m\<rparr>)))))))
      of Inl error \<Rightarrow> Inl (Error (''Failed to get milestone: '' @ message error))
       | Inr m \<Rightarrow> Inr m)"

text \<open>
  A receipt is reduced to the events it lists: transaction hashes and block numbers
  are passed through to the replies and the logs and decide nothing.
\<close>

definition verifyMilestone ::
    "server \<Rightarrow> nat \<Rightarrow> nat \<Rightarrow> bool \<Rightarrow> js_error + (string list \<times> server)" where
  "verifyMilestone s milestoneId actualValue success =
     (if \<not> initialized s then Inl (Error ''Service not initialized'')
      else case contract_verifyMilestone (chain s) (signer s) milestoneId actualValue success of
             Inl error \<Rightarrow> Inl (Error (''Failed to verify milestone: '' @ message error))
           | Inr (events, l) \<Rightarrow> Inr (events, s\<lparr>chain := l\<rparr>))"

text \<open>
  \<open>ethers.parseEther(subsidyAmount.toString())\<close>: the amount in wei. The amount is
  the decimal number that \<open>toString\<close> prints. \<open>toString\<close> switches to exponent
  notation below \<open>1e-6\<close> and from \<open>1e21\<close> on, which \<open>parseEther\<close> does not read; it
  also fails on more than 18 decimals, and a negative amount fails when it is encoded
  as \<open>uint256\<close>.
\<close>

definition parseEther :: "rat \<Rightarrow> js_error + nat" where
  "parseEther amount =
     (let wei = amount * 10 ^ 18 in
      if amount \<noteq> 0 \<and> (\<bar>amount\<bar> < 1 / 10 ^ 6 \<or> 10 ^ 21 \<le> \<bar>amount\<bar>)
      then Inl (Error ''invalid decimal value'')
      else if 0 \<le> wei \<and> wei = of_int \<lfloor>wei\<rfloor> then Inr (nat \<lfloor>wei\<rfloor>)
      else Inl (Error ''invalid decimal value''))"

definition addMilestone ::
    "server \<Rightarrow> nat \<Rightarrow> string \<Rightarrow> rat option \<Rightarrow> nat \<Rightarrow> string \<Rightarrow> nat
       \<Rightarrow> js_error + (nat \<times> server)" where
  "addMilestone s projectId description subsidyAmount targetValue verificationSource deadline =
     (if \<not> initialized s then Inl (Error ''Service not initialized'')
      else case
        bindE (case subsidyAmount of
                 None \<Rightarrow> Inl (TypeError ''Cannot read properties of undefined'')
               | Some a \<Rightarrow> parseEther a) (\<lambda>wei.
        bindE (contract_addMilestone (chain s) projectId description wei targetValue
                 verificationSource (deadline div 1000)) (\<lambda>(milestoneId, l).
        bindE (toNumber milestoneId) (\<lambda>i. Inr (i, s\<lparr>chain := l\<rparr>))))
      of Inl error \<Rightarrow> Inl (Error (''Failed to add milestone: '' @ message error))
       | Inr r \<Rightarrow> Inr r)"

record aggregate =
  totalValue :: nat
  dataPointCount :: nat

definition getAggregateValue ::
    "server \<Rightarrow> string \<Rightarrow> nat \<Rightarrow> nat \<Rightarrow> js_error + aggregate" where
  "getAggregateValue s source fromTimestamp toTimestamp =
     (if \<not> initialized s then Inl (Error ''Service not initialized'')
      else case
        bindE (contract_getAggregateValue (chain s) source
                 (fromTimestamp div 1000) (toTimestamp div 1000)) (\<lambda>(total, cnt).
        bindE (toNumber total) (\<lambda>t.
        bindE (toNumber cnt) (\<lambda>c. Inr \<lparr>totalValue = t, dataPointCount = c\<rparr>)))
      of Inl error \<Rightarrow> Inl (Error (''Failed to get aggregate value: '' @ message error))
       | Inr r \<Rightarrow> Inr r)"

section \<open>\<open>middleware/auth.js\<close>\<close>

definition GOVERNMENT :: string where "GOVERNMENT = ''government''"
definition PRODUCER :: string where "PRODUCER = ''producer''"
definition AUDITOR :: string where "AUDITOR = ''auditor''"
definition ORACLE :: string where "ORACLE = ''oracle''"

record user =
  u_id :: nat
  u_email :: string
  u_role :: string
  u_walletAddress :: string
  u_name :: string

text \<open>
  What a middleware or handler does with a request: \<open>Json\<close> is
  \<open>res.status(n).json(body)\<close> with the body's fields flattened, \<open>Send\<close> a plain-text
  reply, \<open>Thrown\<close> an error passed on to the error handler by \<open>asyncHandler\<close>.
\<close>

datatype reply =
    Json nat "(string \<times> jsval) list"
  | Send nat string
  | Thrown js_error

text \<open>A middleware returns \<open>None\<close> when it calls \<open>next()\<close>.\<close>

definition authorize :: "string list \<Rightarrow> user option \<Rightarrow> reply option" where
  "authorize roles u =
     (case u of
        None \<Rightarrow> Some (Json 401 [(''error'', JStr ''Authentication required'')])
      | Some usr \<Rightarrow>
          if u_role usr \<notin> set roles
          then Some (Json 403 [(''error'', JStr ''Insufficient permissions''),
                               (''required'', JStrs roles),
                               (''current'', JStr (u_role usr))])
          else None)"

text \<open>
  \<open>sensitiveOperationLimiter\<close> keeps its own counters per address; \<open>limited\<close> is its
  verdict on the request at hand.
\<close>

definition sensitiveOperationLimiter :: "bool \<Rightarrow> reply option" where
  "sensitiveOperationLimiter limited =
     (if limited then Some (Send 429 ''Too many sensitive operations, please try again later'')
      else None)"

text \<open>
  \<open>validateRequest\<close> runs every validation and answers 400 when one of them failed;
  its argument lists the messages of the validations that failed.
\<close>

definition validateRequest :: "string list \<Rightarrow> reply option" where
  "validateRequest errors =
     (if errors \<noteq> [] then Some (Json 400 [(''error'', JStr ''Validation failed''),
                                            (''details'', JStrs errors)])
      else None)"

definition check :: "bool \<Rightarrow> string \<Rightarrow> string list" where
  "check ok msg = (if ok then [] else [msg])"

text \<open>
  The \<open>trim\<close> sanitizer strips the characters of the JavaScript class \<open>\s\<close>. A
  character here is a code unit below 256; of the class these are tab, line feed,
  vertical tab, form feed, carriage return, space and no-break space.
\<close>

definition is_space :: "char \<Rightarrow> bool" where
  "is_space c = (c = CHR 0x09 \<or> c = CHR 0x0A \<or> c = CHR 0x0B \<or> c = CHR 0x0C
     \<or> c = CHR 0x0D \<or> c = CHR '' '' \<or> c = CHR 0xA0)"

definition trim :: "string \<Rightarrow> string" where
  "trim s = rev (dropWhile is_space (rev (dropWhile is_space s)))"

definition isInt_min :: "int \<Rightarrow> int option \<Rightarrow> bool" where
  "isInt_min lo v = (case v of None \<Rightarrow> False | Some i \<Rightarrow> lo \<le> i)"

definition isLength :: "nat \<Rightarrow> nat \<Rightarrow> string option \<Rightarrow> bool" where
  "isLength lo hi v =
     (let n = (case v of None \<Rightarrow> 0 | Some x \<Rightarrow> length (trim x)) in lo \<le> n \<and> n \<le> hi)"

section \<open>\<open>routes/milestones.js\<close>\<close>

text \<open>
  A request as the middleware chain sees it: \<open>req.user\<close> (absent when no token was
  verified), the limiter's verdict, and each parameter or body field parsed to the
  type its validator asks for (\<open>None\<close>: absent or not of that type). Dates are
  milliseconds since the epoch. After \<open>validateRequest\<close> has passed, the validated
  fields are present, so the handlers read them with \<open>the\<close>. Of the logger only
  \<open>logger.audit\<close> is kept, as the audit trail; the other log lines change nothing.
\<close>

record create_request =
  cr_user :: "user option"
  cr_limited :: bool
  cr_projectId :: "int option"
  cr_description :: "string option"
  cr_amount :: "rat option"
  cr_subsidyAmount :: "rat option"
  cr_targetValue :: "int option"
  cr_verificationSource :: "string option"
  cr_deadline :: "nat option"

record verify_request =
  vr_user :: "user option"
  vr_limited :: bool
  vr_id :: "int option"
  vr_actualValue :: "int option"
  vr_success :: "bool option"
  vr_verificationNotes :: "string option"

record dispute_request =
  dr_user :: "user option"
  dr_id :: "int option"
  dr_reason :: "string option"

record autoverify_request =
  ar_user :: "user option"
  ar_limited :: bool
  ar_id :: "int option"
  ar_fromDate :: "nat option"
  ar_toDate :: "nat option"

definition audit :: "string \<Rightarrow> nat \<Rightarrow> (string \<times> jsval) list \<Rightarrow> server \<Rightarrow> server" where
  "audit action userId details s =
     s\<lparr>audit_log := audit_log s @
         [\<lparr>au_action = action, au_userId = Some userId, au_details = details\<rparr>]\<rparr>"

definition jnat :: "nat \<Rightarrow> jsval" where
  "jnat n = JNum (of_nat n)"

text \<open>\<open>POST /api/milestones\<close> (lines 21-82).\<close>

definition create_validation :: "create_request \<Rightarrow> nat \<Rightarrow> string list" where
  "create_validation req now =
     check (isInt_min 1 (cr_projectId req)) ''Project ID must be a positive integer''
   @ check (isLength 10 1000 (cr_description req)) ''Description must be 10-1000 characters''
   @ check (case cr_amount req of None \<Rightarrow> False | Some a \<Rightarrow> 1 / 100 \<le> a)
       ''Amount must be greater than 0.01''
   @ check (isInt_min 1 (cr_targetValue req)) ''Target value must be a positive integer''
   @ check (isLength 1 100 (cr_verificationSource req))
       ''Verification source must be 1-100 characters''
   @ check (cr_deadline req \<noteq> None) ''Invalid value''
   @ check (case cr_deadline req of None \<Rightarrow> False | Some d \<Rightarrow> \<not> d \<le> now)
       ''Deadline must be in the future''"

definition create_handler :: "create_request \<Rightarrow> server \<Rightarrow> reply \<times> server" where
  "create_handler req s =
     (let projectId = nat (the (cr_projectId req));
          description = trim (the (cr_description req));
          targetValue = nat (the (cr_targetValue req));
          verificationSource = trim (the (cr_verificationSource req));
          deadline = the (cr_deadline req)
      in case getProject s projectId of
           Inl error \<Rightarrow> (Thrown error, s)
         | Inr project \<Rightarrow>
             (case addMilestone s projectId description (cr_subsidyAmount req) targetValue
                     verificationSource deadline of
                Inl error \<Rightarrow> (Thrown error, s)
              | Inr (milestoneId, s1) \<Rightarrow>
                  (Json 201 [(''message'', JStr ''Milestone added successfully''),
                             (''milestone.id'', jnat milestoneId),
                             (''milestone.projectId'', jnat projectId)],
                   audit ''MILESTONE_ADDED'' (u_id (the (cr_user req)))
                     [(''projectId'', jnat projectId), (''milestoneId'', jnat milestoneId),
                      (''description'', JStr description),
                      (''subsidyAmount'',
                         (case cr_subsidyAmount req of None \<Rightarrow> JUndefined | Some a \<Rightarrow> JNum a)),
                      (''targetValue'', jnat targetValue)] s1)))"

definition createMilestone :: "create_request \<Rightarrow> server \<Rightarrow> reply \<times> server" where
  "createMilestone req s =
     (case authorize [GOVERNMENT] (cr_user req) of
        Some r \<Rightarrow> (r, s)
      | None \<Rightarrow>
         (case sensitiveOperationLimiter (cr_limited req) of
            Some r \<Rightarrow> (r, s)
          | None \<Rightarrow>
             (case validateRequest (create_validation req (clock s)) of
                Some r \<Rightarrow> (r, s)
              | None \<Rightarrow> create_handler req s)))"

text \<open>
  The \<open>catch\<close> block shared by the handlers of \<open>/:id/verify\<close>, \<open>/:id/dispute\<close> and
  \<open>/:id/auto-verify\<close>: every error thrown inside \<open>try\<close> ends here.
\<close>

definition milestone_catch :: "js_error \<Rightarrow> reply" where
  "milestone_catch error =
     (if str_includes (message error) ''does not exist''
      then Thrown (NotFoundError ''Milestone not found'')
      else Thrown error)"

text \<open>\<open>POST /api/milestones/:id/verify\<close> (lines 136-203).\<close>

definition verify_validation :: "verify_request \<Rightarrow> string list" where
  "verify_validation req =
     check (isInt_min 1 (vr_id req)) ''Milestone ID must be a positive integer''
   @ check (isInt_min 0 (vr_actualValue req)) ''Actual value must be non-negative integer''
   @ check (vr_success req \<noteq> None) ''Success must be boolean''
   @ check (vr_verificationNotes req = None \<or> isLength 0 500 (vr_verificationNotes req))
       ''Verification notes max 500 characters''"

definition verify_handler :: "verify_request \<Rightarrow> server \<Rightarrow> reply \<times> server" where
  "verify_handler req s =
     (let milestoneId = nat (the (vr_id req));
          actualValue = nat (the (vr_actualValue req));
          success = the (vr_success req)
      in case getMilestone s milestoneId of
           Inl error \<Rightarrow> (milestone_catch error, s)
         | Inr milestone \<Rightarrow>
             (case verifyMilestone s milestoneId actualValue success of
                Inl error \<Rightarrow> (milestone_catch error, s)
              | Inr (events, s1) \<Rightarrow>
                  (Json 200 [(''message'', JStr ''Milestone verified successfully''),
                             (''milestone.id'', jnat milestoneId),
                             (''milestone.actualValue'', jnat actualValue),
                             (''milestone.success'', JBool success),
                             (''events'', JStrs events)],
                   audit ''MILESTONE_VERIFIED'' (u_id (the (vr_user req)))
                     [(''milestoneId'', jnat milestoneId),
                      (''projectId'', jnat (ms_projectId milestone)),
                      (''actualValue'', jnat actualValue),
                      (''success'', JBool success),
                      (''verificationNotes'',
                         (case vr_verificationNotes req of
                            None \<Rightarrow> JUndefined | Some n \<Rightarrow> JStr (trim n)))] s1)))"

definition verify :: "verify_request \<Rightarrow> server \<Rightarrow> reply \<times> server" where
  "verify req s =
     (case authorize [ORACLE, AUDITOR] (vr_user req) of
        Some r \<Rightarrow> (r, s)
      | None \<Rightarrow>
         (case sensitiveOperationLimiter (vr_limited req) of
            Some r \<Rightarrow> (r, s)
          | None \<Rightarrow>
             (case validateRequest (verify_validation req) of
                Some r \<Rightarrow> (r, s)
              | None \<Rightarrow> verify_handler req s)))"

text \<open>\<open>POST /api/milestones/:id/dispute\<close> (lines 210-266).\<close>

definition dispute_validation :: "dispute_request \<Rightarrow> string list" where
  "dispute_validation req =
     check (isInt_min 1 (dr_id req)) ''Milestone ID must be a positive integer''
   @ check (isLength 10 500 (dr_reason req)) ''Dispute reason must be 10-500 characters''"

definition dispute_handler :: "dispute_request \<Rightarrow> server \<Rightarrow> reply \<times> server" where
  "dispute_handler req s =
     (let milestoneId = nat (the (dr_id req));
          reason = trim (the (dr_reason req));
          usr = the (dr_user req)
      in case getMilestone s milestoneId of
           Inl error \<Rightarrow> (milestone_catch error, s)
         | Inr milestone \<Rightarrow>
             (case getProject s (ms_projectId milestone) of
                Inl error \<Rightarrow> (milestone_catch error, s)
              | Inr project \<Rightarrow>
                  if u_role usr = PRODUCER \<and> pr_producer project \<noteq> u_walletAddress usr
                  then (milestone_catch
                          (ForbiddenError ''You can only dispute milestones for your own projects''), s)
                  else if ms_status milestone \<notin> set [''Verified'', ''Failed'']
                  then (Json 400 [(''error'',
                          JStr ''Only verified or failed milestones can be disputed'')], s)
                  else
                    (Json 200 [(''message'', JStr ''Milestone dispute submitted successfully''),
                               (''dispute.milestoneId'', jnat milestoneId),
                               (''dispute.reason'', JStr reason),
                               (''dispute.submittedBy'', jnat (u_id usr)),
                               (''dispute.submittedAt'', jnat (clock s))],
                     audit ''MILESTONE_DISPUTED'' (u_id usr)
                       [(''milestoneId'', jnat milestoneId),
                        (''projectId'', jnat (ms_projectId milestone)),
                        (''reason'', JStr reason),
                        (''originalStatus'', JStr (ms_status milestone))] s)))"

definition dispute :: "dispute_request \<Rightarrow> server \<Rightarrow> reply \<times> server" where
  "dispute req s =
     (case authorize [PRODUCER, GOVERNMENT] (dr_user req) of
        Some r \<Rightarrow> (r, s)
      | None \<Rightarrow>
         (case validateRequest (dispute_validation req) of
            Some r \<Rightarrow> (r, s)
          | None \<Rightarrow> dispute_handler req s))"

text \<open>\<open>POST /api/milestones/:id/auto-verify\<close> (lines 535-603).\<close>

definition autoVerify_validation :: "autoverify_request \<Rightarrow> string list" where
  "autoVerify_validation req =
     check (isInt_min 1 (ar_id req)) ''Milestone ID must be a positive integer''
   @ check (ar_fromDate req \<noteq> None) ''Valid from date required''
   @ check (ar_toDate req \<noteq> None) ''Valid to date required''"

definition autoVerify_handler :: "autoverify_request \<Rightarrow> server \<Rightarrow> reply \<times> server" where
  "autoVerify_handler req s =
     (let milestoneId = nat (the (ar_id req));
          fromDate = the (ar_fromDate req);
          toDate = the (ar_toDate req)
      in case getMilestone s milestoneId of
           Inl error \<Rightarrow> (milestone_catch error, s)
         | Inr milestone \<Rightarrow>
             if ms_status milestone \<noteq> ''Pending''
             then (Json 400 [(''error'', JStr ''Milestone is not in pending status'')], s)
             else
               (case getAggregateValue s (ms_verificationSource milestone) fromDate toDate of
                  Inl error \<Rightarrow> (milestone_catch error, s)
                | Inr aggregateData \<Rightarrow>
                    (let success = (totalValue aggregateData \<ge> ms_targetValue milestone)
                     in case verifyMilestone s milestoneId (totalValue aggregateData) success of
                          Inl error \<Rightarrow> (milestone_catch error, s)
                        | Inr (events, s1) \<Rightarrow>
                            (Json 200
                               [(''message'', JStr ''Milestone auto-verified successfully''),
                                (''verification.milestoneId'', jnat milestoneId),
                                (''verification.targetValue'', jnat (ms_targetValue milestone)),
                                (''verification.actualValue'', jnat (totalValue aggregateData)),
                                (''verification.dataPointCount'',
                                   jnat (dataPointCount aggregateData)),
                                (''verification.success'', JBool success)],
                             audit ''MILESTONE_AUTO_VERIFIED'' (u_id (the (ar_user req)))
                               [(''milestoneId'', jnat milestoneId),
                                (''projectId'', jnat (ms_projectId milestone)),
                                (''targetValue'', jnat (ms_targetValue milestone)),
                                (''actualValue'', jnat (totalValue aggregateData)),
                                (''dataPointCount'', jnat (dataPointCount aggregateData)),
                                (''success'', JBool success)] s1))))"

definition autoVerify :: "autoverify_request \<Rightarrow> server \<Rightarrow> reply \<times> server" where
  "autoVerify req s =
     (case authorize [ORACLE] (ar_user req) of
        Some r \<Rightarrow> (r, s)
      | None \<Rightarrow>
         (case sensitiveOperationLimiter (ar_limited req) of
            Some r \<Rightarrow> (r, s)
          | None \<Rightarrow>
             (case validateRequest (autoVerify_validation req) of
                Some r \<Rightarrow> (r, s)
              | None \<Rightarrow> autoVerify_handler req s)))"

text \<open>
  The vocabulary of the claim about disputes: the parent project of the milestone
  lists the user's wallet as its producer.
\<close>

definition lists_as_producer :: "server \<Rightarrow> nat \<Rightarrow> user \<Rightarrow> bool" where
  "lists_as_producer s milestoneId usr =
     (case getMilestone s milestoneId of
        Inl e \<Rightarrow> False
      | Inr m \<Rightarrow>
          (case getProject s (ms_projectId m) of
             Inl e \<Rightarrow> False
           | Inr p \<Rightarrow> pr_producer p = u_walletAddress usr))"

text \<open>The HTTP status a reply carries; a thrown error has none yet.\<close>

fun reply_status :: "reply \<Rightarrow> nat option" where
  "reply_status (Json n body) = Some n"
| "reply_status (Send n t) = Some n"
| "reply_status (Thrown e) = None"

section \<open>\<open>services/bankingService.js\<close>: \<open>_makeRequest\<close>\<close>

text \<open>
  The remote end of an HTTP client is an oracle: the outcome of the \<open>n\<close>-th request
  since the start. What the client itself does is recorded: the URLs it requested and
  the delays it waited with \<open>setTimeout\<close>, in milliseconds, both in order.
\<close>

record net_world =
  requests :: "string list"
  timers :: "nat list"

text \<open>An axios error: the status of the response, if one arrived, and the message.\<close>

datatype axios_error = AxiosError "nat option" string

fun response_status :: "axios_error \<Rightarrow> nat option" where
  "response_status (AxiosError st m) = st"

record banking_service =
  bs_baseURL :: string
  bs_timeout :: nat
  bs_retryAttempts :: nat

definition BankingService :: banking_service where
  "BankingService = \<lparr>bs_baseURL = ''https://api.bank.gov'', bs_timeout = 30000,
                      bs_retryAttempts = 3\<rparr>"

definition client_error :: "axios_error \<Rightarrow> bool" where
  "client_error error =
     (case response_status error of None \<Rightarrow> False | Some st \<Rightarrow> st \<ge> 400 \<and> st < 500)"

text \<open>
  The \<open>for\<close> loop of \<open>_makeRequest\<close> (lines 290-310), from \<open>attempt\<close> on; the value
  thrown after the loop is \<open>lastError\<close>, \<open>None\<close> while it is still undefined.
\<close>

function makeRequest_loop ::
    "banking_service \<Rightarrow> (nat \<Rightarrow> axios_error + 'r) \<Rightarrow> string \<Rightarrow> nat \<Rightarrow> axios_error option
       \<Rightarrow> net_world \<Rightarrow> (axios_error option + 'r) \<times> net_world" where
  "makeRequest_loop svc axios url attempt lastError w =
     (if attempt \<le> bs_retryAttempts svc then
        (let w1 = w\<lparr>requests := requests w @ [url]\<rparr> in
         case axios (length (requests w)) of
           Inr response \<Rightarrow> (Inr response, w1)
         | Inl error \<Rightarrow>
             if client_error error then (Inl (Some error), w1)
             else makeRequest_loop svc axios url (attempt + 1) (Some error)
                    (if attempt < bs_retryAttempts svc
                     then w1\<lparr>timers := timers w1 @ [2 ^ attempt * 1000]\<rparr> else w1))
      else (Inl lastError, w))"
  by pat_completeness auto
termination
  by (relation "measure (\<lambda>(svc, axios, url, attempt, lastError, w).
        bs_retryAttempts svc + 1 - attempt)") auto

declare makeRequest_loop.simps [simp del]

text \<open>
  \<open>_makeRequest(method, endpoint, data)\<close>; the request is logged as method and URL,
  and its body, which the loop never reads, is left out.
\<close>

definition makeRequest ::
    "banking_service \<Rightarrow> (nat \<Rightarrow> axios_error + 'r) \<Rightarrow> string \<Rightarrow> string \<Rightarrow> net_world
       \<Rightarrow> (axios_error option + 'r) \<times> net_world" where
  "makeRequest svc axios method endpoint w =
     makeRequest_loop svc axios (method @ '' '' @ bs_baseURL svc @ endpoint) 1 None w"

section \<open>\<open>services/dataIntegrationService.js\<close>: \<open>getAggregatedProductionData\<close>\<close>

text \<open>
  The numbers of a response are kept as the decimals written there, rationals;
  \<open>None\<close> is \<open>undefined\<close>. This first reading of \<open>getAggregatedProductionData\<close>
  computes with them exactly. It serves for what does not depend on rounding: which
  sources are fetched, kept and counted, that the call returns, and how the count
  compares with the number of sources. The reading in double precision, which rounds
  every operation as the code does, follows it.
\<close>

record source =
  src_type :: string
  src_id :: string
  src_projectId :: "string option"

record iot_summary =
  totalProduction :: "rat option"
  averageQuality :: "rat option"
  dataPoints :: nat
  deviceUptime :: "rat option"

record gov_summary =
  totalRenewableEnergy :: "rat option"
  averageRenewablePercentage :: "rat option"
  totalCarbonSaved :: "rat option"
  complianceScore :: "rat option"

text \<open>
  The object a source's promise resolves to: the result of one of the three adapters,
  or \<open>{ error, sourceId }\<close> when the adapter threw.
\<close>

datatype source_data =
    IoTData string iot_summary
  | GovernmentData string gov_summary
  | ThirdPartyData string "string option" "string option"
  | SourceError string string

text \<open>
  The three remote platforms: what each answers for an id (and a window). \<open>Inl\<close> is
  the message of the error the request or the reading of the response ends with.
\<close>

record platforms =
  iot :: "string \<Rightarrow> nat \<Rightarrow> nat \<Rightarrow> string + iot_summary"
  government :: "string \<Rightarrow> nat \<Rightarrow> nat \<Rightarrow> string + gov_summary"
  thirdParty :: "string \<Rightarrow> string + string option"

definition getIoTProductionData ::
    "platforms \<Rightarrow> string \<Rightarrow> nat \<Rightarrow> nat \<Rightarrow> js_error + source_data" where
  "getIoTProductionData env deviceId fromDate toDate =
     (case iot env deviceId fromDate toDate of
        Inl m \<Rightarrow> Inl (Error (''IoT data retrieval failed: '' @ m))
      | Inr summary \<Rightarrow> Inr (IoTData deviceId summary))"

definition getGovernmentEnergyData ::
    "platforms \<Rightarrow> string \<Rightarrow> nat \<Rightarrow> nat \<Rightarrow> js_error + source_data" where
  "getGovernmentEnergyData env facilityId fromDate toDate =
     (case government env facilityId fromDate toDate of
        Inl m \<Rightarrow> Inl (Error (''Government data retrieval failed: '' @ m))
      | Inr summary \<Rightarrow> Inr (GovernmentData facilityId summary))"

definition getThirdPartyVerification ::
    "platforms \<Rightarrow> string \<Rightarrow> string option \<Rightarrow> js_error + source_data" where
  "getThirdPartyVerification env verificationId projectId =
     (case thirdParty env verificationId of
        Inl m \<Rightarrow> Inl (Error (''Third-party verification failed: '' @ m))
      | Inr status \<Rightarrow> Inr (ThirdPartyData verificationId projectId status))"

text \<open>The callback of \<open>sources.map\<close> (lines 382-402): the adapter's result, or the error object.\<close>

definition fetch_source ::
    "platforms \<Rightarrow> nat \<Rightarrow> nat \<Rightarrow> source \<Rightarrow> js_error + source_data" where
  "fetch_source env fromDate toDate src =
     (if src_type src = ''iot'' then getIoTProductionData env (src_id src) fromDate toDate
      else if src_type src = ''government''
        then getGovernmentEnergyData env (src_id src) fromDate toDate
      else if src_type src = ''third_party''
        then getThirdPartyVerification env (src_id src) (src_projectId src)
      else Inl (Error (''Unsupported source type: '' @ src_type src)))"

definition source_promise :: "platforms \<Rightarrow> nat \<Rightarrow> nat \<Rightarrow> source \<Rightarrow> source_data" where
  "source_promise env fromDate toDate src =
     (case fetch_source env fromDate toDate src of
        Inl error \<Rightarrow> SourceError (message error) (src_id src)
      | Inr v \<Rightarrow> v)"

text \<open>\<open>!r.value.error\<close>: only the error object has an \<open>error\<close> property, and the empty string is falsy.\<close>

fun no_error :: "source_data \<Rightarrow> bool" where
  "no_error (SourceError m i) = (m = [])"
| "no_error v = True"

text \<open>\<open>result.summary && result.summary.totalProduction\<close>, and the same for \<open>averageQuality\<close>.\<close>

fun summary_totalProduction :: "source_data \<Rightarrow> rat option" where
  "summary_totalProduction (IoTData i sm) = totalProduction sm"
| "summary_totalProduction v = None"

fun summary_averageQuality :: "source_data \<Rightarrow> rat option" where
  "summary_averageQuality (IoTData i sm) = averageQuality sm"
| "summary_averageQuality v = None"

definition truthy :: "rat option \<Rightarrow> bool" where
  "truthy x = (case x of None \<Rightarrow> False | Some v \<Rightarrow> v \<noteq> 0)"

text \<open>\<open>dataReliability\<close> is a number or, for an empty list of sources, \<open>NaN\<close> (\<open>None\<close>).\<close>

record aggregated =
  ag_sources :: "source_data list"
  ag_totalProduction :: rat
  ag_averageQuality :: rat
  ag_sourcesUsed :: nat
  ag_dataReliability :: "rat option"

definition getAggregatedProductionData ::
    "platforms \<Rightarrow> source list \<Rightarrow> nat \<Rightarrow> nat \<Rightarrow> js_error + aggregated" where
  "getAggregatedProductionData env sources fromDate toDate =
     (let results = map (source_promise env fromDate toDate) sources;
          validResults = filter no_error results;
          totalProduction = foldl (\<lambda>sum result.
              if truthy (summary_totalProduction result)
              then sum + the (summary_totalProduction result) else sum) 0 validResults;
          averageQuality = foldl (\<lambda>sum result.
              if truthy (summary_averageQuality result)
              then sum + the (summary_averageQuality result) / of_nat (length validResults)
              else sum) 0 validResults
      in Inr \<lparr>ag_sources = results,
              ag_totalProduction = totalProduction,
              ag_averageQuality = averageQuality,
              ag_sourcesUsed = length validResults,
              ag_dataReliability =
                (if sources = [] then None
                 else Some (of_nat (length validResults) / of_nat (length sources) * 100))\<rparr>)"

text \<open>
  The vocabulary of the claims about aggregation: a source succeeds when its adapter
  returns, and the total it reports is the \<open>summary.totalProduction\<close> of what the
  adapter returned (nothing when the result carries none).
\<close>

definition succeeds :: "platforms \<Rightarrow> nat \<Rightarrow> nat \<Rightarrow> source \<Rightarrow> bool" where
  "succeeds env fromDate toDate src =
     (case fetch_source env fromDate toDate src of Inl e \<Rightarrow> False | Inr v \<Rightarrow> True)"

definition reported_total :: "platforms \<Rightarrow> nat \<Rightarrow> nat \<Rightarrow> source \<Rightarrow> rat" where
  "reported_total env fromDate toDate src =
     (case fetch_source env fromDate toDate src of
        Inl e \<Rightarrow> 0
      | Inr v \<Rightarrow> (case summary_totalProduction v of None \<Rightarrow> 0 | Some x \<Rightarrow> x))"

section \<open>JavaScript numbers in double precision\<close>

text \<open>
  A JavaScript number is an IEEE 754 double: a rational with a significand of 53 bits
  and an exponent between \<open>-1022\<close> and \<open>1023\<close> (or a subnormal, a multiple of
  \<open>2 ^ -1074\<close>), an infinity, or \<open>NaN\<close>. The two zeros are identified: they are
  told apart by nothing that is computed here. Every arithmetic operation returns the
  double nearest to the exact result, the one with the even significand when two are
  equally near, and an infinity when the rounded result does not fit: when its
  exponent, after a carry out of the significand, exceeds \<open>1023\<close>.
\<close>

datatype jsnumber = Finite rat | Infinity | NegInfinity | NaN

fun bits :: "nat \<Rightarrow> nat" where
  "bits n = (if n = 0 then 0 else Suc (bits (n div 2)))"

declare bits.simps [simp del]

definition pow2 :: "int \<Rightarrow> rat" where
  "pow2 e = (if 0 \<le> e then 2 ^ nat e else 1 / 2 ^ nat (- e))"

text \<open>The binary exponent of a positive rational \<open>a\<close>: \<open>2 ^ e \<le> a < 2 ^ (e + 1)\<close>.\<close>

definition exponent :: "rat \<Rightarrow> int" where
  "exponent a =
     (if 1 \<le> a then int (bits (nat \<lfloor>a\<rfloor>)) - 1
      else - int (bits (nat (\<lceil>1 / a\<rceil> - 1))))"

definition round_half_even :: "rat \<Rightarrow> int" where
  "round_half_even q =
     (let f = \<lfloor>q\<rfloor>; d = q - of_int f
      in if d < 1 / 2 then f
         else if 1 / 2 < d then f + 1
         else if even f then f else f + 1)"

definition nearest_double :: "rat \<Rightarrow> jsnumber" where
  "nearest_double x =
     (if x = 0 then Finite 0
      else
        let a = \<bar>x\<bar>;
            e = max (exponent a) (- 1022);
            ulp = pow2 (e - 52);
            m = round_half_even (a / ulp);
            y = of_int m * ulp
        in if 1024 \<le> e \<or> (e = 1023 \<and> m = 2 ^ 53)
           then (if 0 < x then Infinity else NegInfinity)
           else Finite (if 0 < x then y else - y))"

text \<open>The operators \<open>+\<close>, \<open>/\<close> and \<open>*\<close> on numbers.\<close>

fun js_add :: "jsnumber \<Rightarrow> jsnumber \<Rightarrow> jsnumber" where
  "js_add (Finite a) (Finite b) = nearest_double (a + b)"
| "js_add NaN y = NaN"
| "js_add x NaN = NaN"
| "js_add Infinity NegInfinity = NaN"
| "js_add NegInfinity Infinity = NaN"
| "js_add Infinity y = Infinity"
| "js_add NegInfinity y = NegInfinity"
| "js_add (Finite a) y = y"

fun js_negative :: "jsnumber \<Rightarrow> bool" where
  "js_negative (Finite a) = (a < 0)"
| "js_negative NegInfinity = True"
| "js_negative x = False"

fun js_div :: "jsnumber \<Rightarrow> jsnumber \<Rightarrow> jsnumber" where
  "js_div (Finite a) (Finite b) =
     (if b = 0 then (if a = 0 then NaN else if 0 < a then Infinity else NegInfinity)
      else nearest_double (a / b))"
| "js_div NaN y = NaN"
| "js_div x NaN = NaN"
| "js_div (Finite a) y = Finite 0"
| "js_div x (Finite b) = (if js_negative x = (b < 0) then Infinity else NegInfinity)"
| "js_div x y = NaN"

fun js_mul :: "jsnumber \<Rightarrow> jsnumber \<Rightarrow> jsnumber" where
  "js_mul (Finite a) (Finite b) = nearest_double (a * b)"
| "js_mul NaN y = NaN"
| "js_mul x NaN = NaN"
| "js_mul (Finite a) y =
     (if a = 0 then NaN else if js_negative y = (a < 0) then Infinity else NegInfinity)"
| "js_mul x (Finite b) =
     (if b = 0 then NaN else if js_negative x = (b < 0) then Infinity else NegInfinity)"
| "js_mul x y = (if js_negative x = js_negative y then Infinity else NegInfinity)"

text \<open>
  Truthiness of a property that holds a number or is missing: \<open>undefined\<close>, \<open>0\<close> and
  \<open>NaN\<close> are falsy.
\<close>

fun js_truthy :: "jsnumber option \<Rightarrow> bool" where
  "js_truthy None = False"
| "js_truthy (Some (Finite a)) = (a \<noteq> 0)"
| "js_truthy (Some NaN) = False"
| "js_truthy (Some x) = True"

text \<open>
  The \<open>length\<close> of an array as a number. An array has fewer than \<open>2 ^ 32\<close> elements,
  so its length is a double.
\<close>

definition length_number :: "'a list \<Rightarrow> jsnumber" where
  "length_number xs = Finite (of_nat (length xs))"

section \<open>\<open>getAggregatedProductionData\<close> in double precision\<close>

text \<open>
  The same function with every number a double, as the code computes it. A number of a
  response is the double nearest to the decimal written there, which is what
  \<open>JSON.parse\<close> returns; the sums start from \<open>0\<close> and are rounded after every
  addition, in the order of the array; the quotient of the two lengths is rounded, and
  so is its product with \<open>100\<close>. For an empty list of sources the quotient is \<open>0 / 0\<close>,
  which is \<open>NaN\<close>.
\<close>

definition number_totalProduction :: "source_data \<Rightarrow> jsnumber option" where
  "number_totalProduction result = map_option nearest_double (summary_totalProduction result)"

definition number_averageQuality :: "source_data \<Rightarrow> jsnumber option" where
  "number_averageQuality result = map_option nearest_double (summary_averageQuality result)"

record aggregated_binary64 =
  b64_sources :: "source_data list"
  b64_totalProduction :: jsnumber
  b64_averageQuality :: jsnumber
  b64_sourcesUsed :: nat
  b64_dataReliability :: jsnumber

definition getAggregatedProductionData_binary64 ::
    "platforms \<Rightarrow> source list \<Rightarrow> nat \<Rightarrow> nat \<Rightarrow> js_error + aggregated_binary64" where
  "getAggregatedProductionData_binary64 env sources fromDate toDate =
     (let results = map (source_promise env fromDate toDate) sources;
          validResults = filter no_error results;
          totalProduction = foldl (\<lambda>sum result.
              if js_truthy (number_totalProduction result)
              then js_add sum (the (number_totalProduction result)) else sum)
            (Finite 0) validResults;
          averageQuality = foldl (\<lambda>sum result.
              if js_truthy (number_averageQuality result)
              then js_add sum (js_div (the (number_averageQuality result))
                                      (length_number validResults))
              else sum)
            (Finite 0) validResults
      in Inr \<lparr>b64_sources = results,
              b64_totalProduction = totalProduction,
              b64_averageQuality = averageQuality,
              b64_sourcesUsed = length validResults,
              b64_dataReliability =
                js_mul (js_div (length_number validResults) (length_number sources))
                       (Finite 100)\<rparr>)"

text \<open>
  The vocabulary of the claim about the totals, in double precision: the totals that
  are added up are the doubles of the totals reported by the succeeding sources, in
  the order of the list, those that are \<open>0\<close> left out; and the percentage of \<open>k\<close> out
  of \<open>n\<close> is the rounded quotient times \<open>100\<close>, rounded.
\<close>

definition counted_totals :: "platforms \<Rightarrow> nat \<Rightarrow> nat \<Rightarrow> source list \<Rightarrow> jsnumber list" where
  "counted_totals env fromDate toDate sources =
     filter (\<lambda>x. js_truthy (Some x))
       (map (\<lambda>src. nearest_double (reported_total env fromDate toDate src))
          (filter (succeeds env fromDate toDate) sources))"

definition percentage :: "nat \<Rightarrow> nat \<Rightarrow> jsnumber" where
  "percentage k n = js_mul (js_div (Finite (of_nat k)) (Finite (of_nat n))) (Finite 100)"

section \<open>The payment gateway service\<close>

record retry_config =
  maxAttempts :: nat
  baseDelay :: nat
  maxDelay :: nat

definition retryConfig :: retry_config where
  "retryConfig = \<lparr>maxAttempts = 3, baseDelay = 1000, maxDelay = 30000\<rparr>"

text \<open>The configured gateways: base URL and timeout of each payment method.\<close>

definition gateways :: "string \<Rightarrow> (string \<times> nat) option" where
  "gateways method =
     (if method = ''stripe'' then Some (''https://api.stripe.com/v1'', 30000)
      else if method = ''paypal'' then Some (''https://api-m.paypal.com/v1'', 30000)
      else if method = ''ach'' then Some (''https://api.ach.com/v1'', 45000)
      else if method = ''wire'' then Some (''https://api.wire.com/v1'', 60000)
      else if method = ''crypto'' then Some (''https://api.crypto.com/v1'', 30000)
      else None)"

text \<open>
  \<open>this.gateways[method]\<close> is truthy for the five configured names and also for the
  property names every object inherits from \<open>Object.prototype\<close>.
\<close>

definition inherited_names :: "string list" where
  "inherited_names =
     [''constructor'', ''__defineGetter__'', ''__defineSetter__'', ''hasOwnProperty'',
      ''__lookupGetter__'', ''__lookupSetter__'', ''isPrototypeOf'',
      ''propertyIsEnumerable'', ''toString'', ''valueOf'', ''__proto__'',
      ''toLocaleString'']"

definition has_gateway :: "string \<Rightarrow> bool" where
  "has_gateway method = (gateways method \<noteq> None \<or> method \<in> set inherited_names)"

record payment_data =
  pd_amount :: rat
  pd_currency :: "string option"
  pd_method :: "string option"
  pd_beneficiaryAccount :: string
  pd_reference :: string
  pd_milestoneId :: "nat option"
  pd_projectId :: "nat option"
  pd_retryOnFailure :: "bool option"

text \<open>The fields of \<open>response.data\<close> that the five gateway functions read.\<close>

record response_data =
  rd_id :: "string option"
  rd_fees :: "rat option"
  rd_transfer_id :: "string option"
  rd_wire_id :: "string option"
  rd_transaction_hash :: "string option"
  rd_network_fee :: "rat option"
  rd_access_token :: "string option"
  rd_batch_header :: "string option option"

record gateway_result =
  gr_gatewayReference :: "string option"
  gr_estimatedCompletion :: nat
  gr_fees :: rat

record payment_status =
  ps_status :: string
  ps_method :: string
  ps_amount :: rat
  ps_currency :: string
  ps_timestamp :: nat
  ps_gatewayReference :: "string option"
  ps_fees :: "rat option"
  ps_error :: "string option"

record scheduled_payment =
  sp_paymentData :: payment_data
  sp_retryTime :: nat
  sp_attempts :: nat

text \<open>
  The state of the service and of its surroundings: the requests sent and the timers
  waited for, the clock read by \<open>Date.now()\<close> (a timer of \<open>d\<close> milliseconds moves it by
  \<open>d\<close>), the number of draws made from \<open>Math.random()\<close>, the lines of \<open>logger.warn\<close>
  (attempt and delay) and of \<open>logger.audit\<close>, and the two maps of the service.
\<close>

record pay_world = net_world +
  now_ms :: nat
  draws :: nat
  warnings :: "(nat \<times> nat) list"
  payment_audit :: "audit_entry list"
  paymentStatuses :: "string \<rightharpoonup> payment_status"
  scheduledPayments :: "string \<rightharpoonup> scheduled_payment"

text \<open>
  The outside of the service: the gateway's answer to the \<open>n\<close>-th request, and the
  nine base-36 digits the \<open>n\<close>-th draw of \<open>Math.random()\<close> yields.
\<close>

record outside =
  post :: "nat \<Rightarrow> js_error + response_data"
  random :: "nat \<Rightarrow> string"

definition axios_post ::
    "outside \<Rightarrow> string \<Rightarrow> pay_world \<Rightarrow> (js_error + response_data) \<times> pay_world" where
  "axios_post env url w = (post env (length (requests w)), w\<lparr>requests := requests w @ [url]\<rparr>)"

definition or_default :: "rat option \<Rightarrow> rat \<Rightarrow> rat" where
  "or_default x d = (case x of None \<Rightarrow> d | Some v \<Rightarrow> if v \<noteq> 0 then v else d)"

definition days :: "nat \<Rightarrow> nat" where
  "days n = n * 24 * 60 * 60 * 1000"

definition processStripePayment ::
    "outside \<Rightarrow> string \<Rightarrow> payment_data \<Rightarrow> pay_world \<Rightarrow> (js_error + gateway_result) \<times> pay_world" where
  "processStripePayment env baseURL paymentData w =
     (case pd_currency paymentData of
        None \<Rightarrow> (Inl (TypeError ''Cannot read properties of undefined''), w)
      | Some currency \<Rightarrow>
          (case axios_post env (baseURL @ ''/transfers'') w of
             (Inl error, w1) \<Rightarrow> (Inl error, w1)
           | (Inr d, w1) \<Rightarrow>
               (Inr \<lparr>gr_gatewayReference = rd_id d,
                     gr_estimatedCompletion = now_ms w1 + days 2,
                     gr_fees = or_default (rd_fees d) 0\<rparr>, w1)))"

definition processPayPalPayment ::
    "outside \<Rightarrow> string \<Rightarrow> payment_data \<Rightarrow> pay_world \<Rightarrow> (js_error + gateway_result) \<times> pay_world" where
  "processPayPalPayment env baseURL paymentData w =
     (case axios_post env (baseURL @ ''/oauth2/token'') w of
        (Inl error, w1) \<Rightarrow> (Inl error, w1)
      | (Inr authData, w1) \<Rightarrow>
          (case axios_post env (baseURL @ ''/payments/payouts'') w1 of
             (Inl error, w2) \<Rightarrow> (Inl error, w2)
           | (Inr d, w2) \<Rightarrow>
               (case rd_batch_header d of
                  None \<Rightarrow> (Inl (TypeError ''Cannot read properties of undefined''), w2)
                | Some payout_batch_id \<Rightarrow>
                    (Inr \<lparr>gr_gatewayReference = payout_batch_id,
                          gr_estimatedCompletion = now_ms w2 + days 3,
                          gr_fees = 0\<rparr>, w2))))"

definition processACHPayment ::
    "outside \<Rightarrow> string \<Rightarrow> payment_data \<Rightarrow> pay_world \<Rightarrow> (js_error + gateway_result) \<times> pay_world" where
  "processACHPayment env baseURL paymentData w =
     (case axios_post env (baseURL @ ''/transfers/ach'') w of
        (Inl error, w1) \<Rightarrow> (Inl error, w1)
      | (Inr d, w1) \<Rightarrow>
          (Inr \<lparr>gr_gatewayReference = rd_transfer_id d,
                gr_estimatedCompletion = now_ms w1 + days 1,
                gr_fees = or_default (rd_fees d) (1 / 4)\<rparr>, w1))"

definition processWirePayment ::
    "outside \<Rightarrow> string \<Rightarrow> payment_data \<Rightarrow> pay_world \<Rightarrow> (js_error + gateway_result) \<times> pay_world" where
  "processWirePayment env baseURL paymentData w =
     (case axios_post env (baseURL @ ''/transfers/wire'') w of
        (Inl error, w1) \<Rightarrow> (Inl error, w1)
      | (Inr d, w1) \<Rightarrow>
          (Inr \<lparr>gr_gatewayReference = rd_wire_id d,
                gr_estimatedCompletion = now_ms w1 + days 2,
                gr_fees = or_default (rd_fees d) 25\<rparr>, w1))"

definition processCryptoPayment ::
    "outside \<Rightarrow> string \<Rightarrow> payment_data \<Rightarrow> pay_world \<Rightarrow> (js_error + gateway_result) \<times> pay_world" where
  "processCryptoPayment env baseURL paymentData w =
     (case axios_post env (baseURL @ ''/transfers/crypto'') w of
        (Inl error, w1) \<Rightarrow> (Inl error, w1)
      | (Inr d, w1) \<Rightarrow>
          (Inr \<lparr>gr_gatewayReference = rd_transaction_hash d,
                gr_estimatedCompletion = now_ms w1 + 10 * 60 * 1000,
                gr_fees = or_default (rd_network_fee d) (1 / 1000)\<rparr>, w1))"

definition executePayment ::
    "outside \<Rightarrow> string \<Rightarrow> payment_data \<Rightarrow> pay_world \<Rightarrow> (js_error + gateway_result) \<times> pay_world" where
  "executePayment env method paymentData w =
     (let baseURL = (case gateways method of None \<Rightarrow> [] | Some g \<Rightarrow> fst g) in
      if method = ''stripe'' then processStripePayment env baseURL paymentData w
      else if method = ''paypal'' then processPayPalPayment env baseURL paymentData w
      else if method = ''ach'' then processACHPayment env baseURL paymentData w
      else if method = ''wire'' then processWirePayment env baseURL paymentData w
      else if method = ''crypto'' then processCryptoPayment env baseURL paymentData w
      else (Inl (Error (''Unsupported payment method: '' @ method)), w))"

text \<open>
  \<open>processWithRetry(operation, paymentId, attempt = 1)\<close> (lines 382-403); \<open>attempt\<close>
  counts from 1. The recursion is on the attempts left, \<open>maxAttempts - attempt\<close>.
  At attempt 0, which no caller passes, \<open>Math.pow(2, attempt - 1)\<close> is one half; the
  half of an odd base delay is rounded down here.
\<close>

definition retry_delay :: "retry_config \<Rightarrow> nat \<Rightarrow> nat" where
  "retry_delay cfg attempt =
     (if attempt = 0 then min (baseDelay cfg div 2) (maxDelay cfg)
      else min (baseDelay cfg * 2 ^ (attempt - 1)) (maxDelay cfg))"

definition wait_for :: "nat \<Rightarrow> nat \<Rightarrow> pay_world \<Rightarrow> pay_world" where
  "wait_for attempt delay w =
     w\<lparr>warnings := warnings w @ [(attempt, delay)],
       timers := timers w @ [delay],
       now_ms := now_ms w + delay\<rparr>"

function processWithRetry ::
    "retry_config \<Rightarrow> (pay_world \<Rightarrow> (js_error + 'a) \<times> pay_world) \<Rightarrow> string \<Rightarrow> nat
       \<Rightarrow> pay_world \<Rightarrow> (js_error + 'a) \<times> pay_world" where
  "processWithRetry cfg operation paymentId attempt w =
     (case operation w of
        (Inr r, w1) \<Rightarrow> (Inr r, w1)
      | (Inl error, w1) \<Rightarrow>
          if attempt \<ge> maxAttempts cfg then (Inl error, w1)
          else processWithRetry cfg operation paymentId (attempt + 1)
                 (wait_for attempt (retry_delay cfg attempt) w1))"
  by pat_completeness auto
termination
  by (relation "measure (\<lambda>(cfg, operation, paymentId, attempt, w). maxAttempts cfg - attempt)")
     auto

declare processWithRetry.simps [simp del]

definition show_id :: "nat option \<Rightarrow> string" where
  "show_id i = (case i of None \<Rightarrow> ''undefined'' | Some n \<Rightarrow> string_of_nat n)"

definition generatePaymentId ::
    "outside \<Rightarrow> nat option \<Rightarrow> nat option \<Rightarrow> pay_world \<Rightarrow> string \<times> pay_world" where
  "generatePaymentId env milestoneId projectId w =
     (''PAY_'' @ show_id projectId @ ''_'' @ show_id milestoneId @ ''_''
        @ string_of_nat (now_ms w) @ ''_'' @ random env (draws w),
      w\<lparr>draws := draws w + 1\<rparr>)"

definition scheduleRetry :: "string \<Rightarrow> payment_data \<Rightarrow> pay_world \<Rightarrow> pay_world" where
  "scheduleRetry paymentId paymentData w =
     w\<lparr>scheduledPayments := (scheduledPayments w)(paymentId \<mapsto>
          \<lparr>sp_paymentData = paymentData, sp_retryTime = now_ms w + 5 * 60 * 1000,
           sp_attempts = 1\<rparr>)\<rparr>"

record payment_record =
  pay_success :: bool
  pay_paymentId :: string
  pay_status :: string
  pay_gatewayReference :: "string option"
  pay_estimatedCompletion :: nat
  pay_fees :: rat

definition processPayment ::
    "outside \<Rightarrow> payment_data \<Rightarrow> pay_world \<Rightarrow> (js_error + payment_record) \<times> pay_world" where
  "processPayment env paymentData w =
     (let currency = (case pd_currency paymentData of None \<Rightarrow> ''USD'' | Some c \<Rightarrow> c);
          method = (case pd_method paymentData of None \<Rightarrow> ''ach'' | Some m \<Rightarrow> m);
          retryOnFailure = (case pd_retryOnFailure paymentData of None \<Rightarrow> True | Some b \<Rightarrow> b);
          (paymentId, w0) =
             generatePaymentId env (pd_milestoneId paymentData) (pd_projectId paymentData) w
      in case (if \<not> has_gateway method
               then (Inl (Error (''Unsupported payment method: '' @ method)), w0)
               else processWithRetry retryConfig (executePayment env method paymentData)
                      paymentId 1 w0) of
           (Inr result, w1) \<Rightarrow>
             (Inr \<lparr>pay_success = True, pay_paymentId = paymentId,
                   pay_status = ''completed'',
                   pay_gatewayReference = gr_gatewayReference result,
                   pay_estimatedCompletion = gr_estimatedCompletion result,
                   pay_fees = gr_fees result\<rparr>,
              w1\<lparr>paymentStatuses := (paymentStatuses w1)(paymentId \<mapsto>
                    \<lparr>ps_status = ''completed'', ps_method = method,
                     ps_amount = pd_amount paymentData, ps_currency = currency,
                     ps_timestamp = now_ms w1,
                     ps_gatewayReference = gr_gatewayReference result,
                     ps_fees = Some (gr_fees result), ps_error = None\<rparr>),
                 payment_audit := payment_audit w1 @
                   [\<lparr>au_action = ''PAYMENT_COMPLETED'', au_userId = None,
                     au_details = [(''paymentId'', JStr paymentId),
                                   (''milestoneId'', JStr (show_id (pd_milestoneId paymentData))),
                                   (''projectId'', JStr (show_id (pd_projectId paymentData))),
                                   (''amount'', JNum (pd_amount paymentData)),
                                   (''method'', JStr method),
                                   (''gatewayReference'',
                                      (case gr_gatewayReference result of
                                         None \<Rightarrow> JUndefined | Some g \<Rightarrow> JStr g))]\<rparr>]\<rparr>)
         | (Inl error, w1) \<Rightarrow>
             (let w2 = w1\<lparr>paymentStatuses := (paymentStatuses w1)(paymentId \<mapsto>
                    \<lparr>ps_status = ''failed'', ps_method = method,
                     ps_amount = pd_amount paymentData, ps_currency = currency,
                     ps_timestamp = now_ms w1, ps_gatewayReference = None,
                     ps_fees = None, ps_error = Some (message error)\<rparr>)\<rparr>
              in (Inl error, if retryOnFailure then scheduleRetry paymentId paymentData w2 else w2)))"

text \<open>
  The vocabulary of the claim about repeated payments: the method a payment is sent
  with, and the field of a gateway's response that the gateway function of that
  method returns as \<open>gatewayReference\<close>.
\<close>

definition payment_method :: "payment_data \<Rightarrow> string" where
  "payment_method paymentData =
     (case pd_method paymentData of None \<Rightarrow> ''ach'' | Some m \<Rightarrow> m)"

definition gateway_reference :: "string \<Rightarrow> response_data \<Rightarrow> string option" where
  "gateway_reference method d =
     (if method = ''stripe'' then rd_id d
      else if method = ''paypal''
        then (case rd_batch_header d of None \<Rightarrow> None | Some payout_batch_id \<Rightarrow> payout_batch_id)
      else if method = ''ach'' then rd_transfer_id d
      else if method = ''wire'' then rd_wire_id d
      else if method = ''crypto'' then rd_transaction_hash d
      else None)"

section \<open>Example data\<close>

text \<open>
  The project and the milestone of the repository's API tests (target 500, source
  \<open>test-meter-001\<close>), a second milestone that has been verified, and the users of the
  four roles.
\<close>

definition producer_wallet :: string where
  "producer_wallet = ''0xabcdefabcdefabcdefabcdefabcdefabcdefabcd''"

definition oracle_wallet :: string where
  "oracle_wallet = ''0x1111111111111111111111111111111111111111''"

definition demo_project :: raw_project where
  "demo_project = \<lparr>rp_id = 1, rp_producer = producer_wallet,
     rp_name = ''Test Green Hydrogen Project'',
     rp_description = ''Test project for API integration testing'',
     rp_totalSubsidyAmount = 10 ^ 18, rp_disbursedAmount = 0,
     rp_createdAt = 1700000000, rp_status = 1\<rparr>"

definition pending_milestone :: raw_milestone where
  "pending_milestone = \<lparr>rm_id = 1, rm_projectId = 1,
     rm_description = ''Produce 500kg of green hydrogen for testing'',
     rm_subsidyAmount = 5 * 10 ^ 17, rm_targetValue = 500, rm_actualValue = 0,
     rm_verificationSource = ''test-meter-001'', rm_deadline = 1700086400,
     rm_status = 0, rm_verifiedAt = 0, rm_verifiedBy = AddressZero, rm_paid = False\<rparr>"

definition verified_milestone :: raw_milestone where
  "verified_milestone = \<lparr>rm_id = 2, rm_projectId = 1,
     rm_description = ''Produce 300kg of green hydrogen for testing'',
     rm_subsidyAmount = 3 * 10 ^ 17, rm_targetValue = 300, rm_actualValue = 320,
     rm_verificationSource = ''test-meter-001'', rm_deadline = 1700086400,
     rm_status = 1, rm_verifiedAt = 1700003600, rm_verifiedBy = oracle_wallet,
     rm_paid = False\<rparr>"

definition demo_ledger :: ledger where
  "demo_ledger = \<lparr>projects = [1 \<mapsto> demo_project],
     milestones = [1 \<mapsto> pending_milestone, 2 \<mapsto> verified_milestone],
     milestoneCount = 2,
     readings = [(''test-meter-001'', 1700001000, 200), (''test-meter-001'', 1700002000, 300),
                 (''other-meter'', 1700002000, 900)],
     block_time = 1700010000, reachable = True\<rparr>"

definition demo_server :: server where
  "demo_server = \<lparr>initialized = True, signer = oracle_wallet, chain = demo_ledger,
     audit_log = [], clock = 1700010000000\<rparr>"

definition producer_user :: user where
  "producer_user = \<lparr>u_id = 2, u_email = ''producer@example.com'', u_role = PRODUCER,
     u_walletAddress = producer_wallet, u_name = ''Producer''\<rparr>"

definition other_producer :: user where
  "other_producer = \<lparr>u_id = 5, u_email = ''other@example.com'', u_role = PRODUCER,
     u_walletAddress = ''0x2222222222222222222222222222222222222222'', u_name = ''Other''\<rparr>"

definition oracle_user :: user where
  "oracle_user = \<lparr>u_id = 4, u_email = ''oracle@example.com'', u_role = ORACLE,
     u_walletAddress = oracle_wallet, u_name = ''Oracle''\<rparr>"

text \<open>
  A banking API that answers 503 to the first request, 404 to the second and succeeds
  afterwards.
\<close>

definition demo_axios :: "nat \<Rightarrow> axios_error + string" where
  "demo_axios n =
     (if n = 0 then Inl (AxiosError (Some 503) ''Request failed with status code 503'')
      else if n = 1 then Inl (AxiosError (Some 404) ''Request failed with status code 404'')
      else Inr ''healthy'')"

text \<open>
  A gateway that accepts every transfer and numbers its references, two draws of
  \<open>Math.random()\<close>, and a payment for milestone 1 of project 1 sent from a fresh
  service.
\<close>

definition demo_outside :: outside where
  "demo_outside = \<lparr>
     post = (\<lambda>n. Inr \<lparr>rd_id = None, rd_fees = None,
                        rd_transfer_id = Some (''ach_'' @ string_of_nat n),
                        rd_wire_id = None, rd_transaction_hash = None,
                        rd_network_fee = None, rd_access_token = None,
                        rd_batch_header = None\<rparr>),
     random = (\<lambda>n. if n = 0 then ''4fzzzxjyl'' else ''9x2k1m7qa'')\<rparr>"

definition demo_payment :: payment_data where
  "demo_payment = \<lparr>pd_amount = 1 / 2, pd_currency = Some ''USD'', pd_method = Some ''ach'',
     pd_beneficiaryAccount = ''123456789'', pd_reference = ''milestone-1'',
     pd_milestoneId = Some 1, pd_projectId = Some 1, pd_retryOnFailure = None\<rparr>"

definition fresh_world :: pay_world where
  "fresh_world = \<lparr>requests = [], timers = [], now_ms = 1700010000000, draws = 0,
     warnings = [], payment_audit = [], paymentStatuses = Map.empty,
     scheduledPayments = Map.empty\<rparr>"

definition first_call :: "(js_error + payment_record) \<times> pay_world" where
  "first_call = processPayment demo_outside demo_payment fresh_world"

definition second_call :: "(js_error + payment_record) \<times> pay_world" where
  "second_call = processPayment demo_outside demo_payment (snd first_call)"

text \<open>
  A gateway that answers every transfer with the same reference, and a random suffix
  that repeats.
\<close>

definition repeating_outside :: outside where
  "repeating_outside = \<lparr>
     post = (\<lambda>n. Inr \<lparr>rd_id = None, rd_fees = None,
                        rd_transfer_id = Some ''ach_0'',
                        rd_wire_id = None, rd_transaction_hash = None,
                        rd_network_fee = None, rd_access_token = None,
                        rd_batch_header = None\<rparr>),
     random = (\<lambda>n. ''4fzzzxjyl'')\<rparr>"

text \<open>
  Three platforms: the meter \<open>dev-1\<close> and the facility \<open>fac-1\<close> answer, every other
  request fails.
\<close>

definition demo_platforms :: platforms where
  "demo_platforms = \<lparr>
     iot = (\<lambda>deviceId fromDate toDate.
        if deviceId = ''dev-1''
        then Inr \<lparr>totalProduction = Some 300, averageQuality = Some (19 / 20),
                  dataPoints = 24, deviceUptime = Some 99\<rparr>
        else Inl ''timeout of 15000ms exceeded''),
     government = (\<lambda>facilityId fromDate toDate.
        if facilityId = ''fac-1''
        then Inr \<lparr>totalRenewableEnergy = Some 500, averageRenewablePercentage = Some 80,
                  totalCarbonSaved = Some 40, complianceScore = Some 9\<rparr>
        else Inl ''Request failed with status code 503''),
     thirdParty = (\<lambda>verificationId. Inl ''Network Error'')\<rparr>"

definition demo_sources :: "source list" where
  "demo_sources =
     [\<lparr>src_type = ''iot'', src_id = ''dev-1'', src_projectId = None\<rparr>,
      \<lparr>src_type = ''government'', src_id = ''fac-1'', src_projectId = None\<rparr>,
      \<lparr>src_type = ''iot'', src_id = ''dev-2'', src_projectId = None\<rparr>]"

definition failing_sources :: "source list" where
  "failing_sources =
     [\<lparr>src_type = ''iot'', src_id = ''dev-2'', src_projectId = None\<rparr>,
      \<lparr>src_type = ''third_party'', src_id = ''ver-7'', src_projectId = Some ''1''\<rparr>]"

text \<open>
  The meter \<open>dev-1\<close> asked twice, beside the facility and the meter that fails; and
  three meters that report 0.1, 0.2 and 0.3 kWh.
\<close>

definition metered_sources :: "source list" where
  "metered_sources =
     [\<lparr>src_type = ''iot'', src_id = ''dev-1'', src_projectId = None\<rparr>,
      \<lparr>src_type = ''government'', src_id = ''fac-1'', src_projectId = None\<rparr>,
      \<lparr>src_type = ''iot'', src_id = ''dev-1'', src_projectId = None\<rparr>,
      \<lparr>src_type = ''iot'', src_id = ''dev-2'', src_projectId = None\<rparr>]"

definition decimal_platforms :: platforms where
  "decimal_platforms = \<lparr>
     iot = (\<lambda>deviceId fromDate toDate.
        Inr \<lparr>totalProduction =
                Some (if deviceId = ''m-1'' then 1 / 10
                      else if deviceId = ''m-2'' then 2 / 10 else 3 / 10),
              averageQuality = None, dataPoints = 1, deviceUptime = None\<rparr>),
     government = (\<lambda>facilityId fromDate toDate. Inl ''Request failed with status code 503''),
     thirdParty = (\<lambda>verificationId. Inl ''Network Error'')\<rparr>"

definition decimal_sources :: "source list" where
  "decimal_sources =
     [\<lparr>src_type = ''iot'', src_id = ''m-1'', src_projectId = None\<rparr>,
      \<lparr>src_type = ''iot'', src_id = ''m-2'', src_projectId = None\<rparr>,
      \<lparr>src_type = ''iot'', src_id = ''m-3'', src_projectId = None\<rparr>]"

text \<open>
  Requests against the example server: a producer creating a milestone; the producer
  of project 1 and another producer disputing the verified milestone 2; the oracle
  verifying milestone 2 again; and the oracle auto-verifying the pending milestone 1
  over a window that holds the readings 200 and 300, over a window whose end lies
  after the server's clock, and over a window whose start lies after its end.
\<close>

definition producer_create :: create_request where
  "producer_create = \<lparr>cr_user = Some producer_user, cr_limited = False,
     cr_projectId = Some 1,
     cr_description = Some ''Produce 500kg of green hydrogen for testing'',
     cr_amount = Some (1 / 2), cr_subsidyAmount = Some (1 / 2), cr_targetValue = Some 500,
     cr_verificationSource = Some ''test-meter-001'', cr_deadline = Some 1700096400000\<rparr>"

definition own_dispute :: dispute_request where
  "own_dispute = \<lparr>dr_user = Some producer_user, dr_id = Some 2,
     dr_reason = Some ''Meter readings were incomplete''\<rparr>"

definition foreign_dispute :: dispute_request where
  "foreign_dispute = \<lparr>dr_user = Some other_producer, dr_id = Some 2,
     dr_reason = Some ''Meter readings were incomplete''\<rparr>"

definition repeated_verify :: verify_request where
  "repeated_verify = \<lparr>vr_user = Some oracle_user, vr_limited = False, vr_id = Some 2,
     vr_actualValue = Some 100, vr_success = Some False, vr_verificationNotes = None\<rparr>"

definition window_request :: autoverify_request where
  "window_request = \<lparr>ar_user = Some oracle_user, ar_limited = False, ar_id = Some 1,
     ar_fromDate = Some 1700000000000, ar_toDate = Some 1700003000000\<rparr>"

definition future_request :: autoverify_request where
  "future_request = \<lparr>ar_user = Some oracle_user, ar_limited = False, ar_id = Some 1,
     ar_fromDate = Some 1700000000000, ar_toDate = Some 1800000000000\<rparr>"

definition reversed_request :: autoverify_request where
  "reversed_request = \<lparr>ar_user = Some oracle_user, ar_limited = False, ar_id = Some 1,
     ar_fromDate = Some 1700003000000, ar_toDate = Some 1700000000000\<rparr>"

text \<open>The oracle auto-verifying milestone 1 without a \<open>toDate\<close>.\<close>

definition undated_request :: autoverify_request where
  "undated_request = \<lparr>ar_user = Some oracle_user, ar_limited = False, ar_id = Some 1,
     ar_fromDate = Some 1700000000000, ar_toDate = None\<rparr>"

text \<open>A gateway that cannot be reached: every request ends with a network error.\<close>

definition unreachable_outside :: outside where
  "unreachable_outside = \<lparr>post = (\<lambda>n. Inl (Error ''connect ECONNREFUSED'')),
     random = (\<lambda>n. ''4fzzzxjyl'')\<rparr>"

section \<open>Decoding a milestone\<close>

lemma bindE_Inr: "bindE m f = Inr y \<Longrightarrow> \<exists>x. m = Inr x \<and> f x = Inr y"
  by (cases m) (simp_all add: bindE_def)

lemma toNumber_Inr: "toNumber n = Inr k \<Longrightarrow> k = n"
  by (simp add: toNumber_def split: if_splits)

lemma getMilestone_decoded:
  assumes "getMilestone s milestoneId = Inr m"
  shows "\<exists>raw. contract_getMilestone (chain s) milestoneId = Inr raw
     \<and> ms_status m = getMilestoneStatusName (rm_status raw)
     \<and> ms_projectId m = rm_projectId raw
     \<and> ms_targetValue m = rm_targetValue raw
     \<and> ms_verificationSource m = rm_verificationSource raw
     \<and> ms_verifiedAt m = (if rm_verifiedAt raw > 0 then Some (rm_verifiedAt raw * 1000) else None)
     \<and> ms_verifiedBy m = (if rm_verifiedBy raw \<noteq> AddressZero then Some (rm_verifiedBy raw) else None)"
proof -
  from assms obtain body where
    body: "bindE (contract_getMilestone (chain s) milestoneId) body = Inr m"
    and body_def: "body = (\<lambda>m.
        bindE (toNumber (rm_id m)) (\<lambda>i.
        bindE (toNumber (rm_projectId m)) (\<lambda>projectId.
        bindE (toNumber (rm_targetValue m)) (\<lambda>targetValue.
        bindE (toNumber (rm_actualValue m)) (\<lambda>actualValue.
        bindE (toNumber (rm_deadline m)) (\<lambda>deadline.
        bindE (toNumber (rm_verifiedAt m)) (\<lambda>verifiedAt.
          Inr \<lparr>ms_id = i, ms_projectId = projectId,
               ms_description = rm_description m,
               ms_subsidyAmount = formatEther (rm_subsidyAmount m),
               ms_targetValue = targetValue, ms_actualValue = actualValue,
               ms_verificationSource = rm_verificationSource m,
               ms_deadline = deadline * 1000,
               ms_status = getMilestoneStatusName (rm_status m),
               ms_verifiedAt = (if verifiedAt > 0 then Some (verifiedAt * 1000) else None),
               ms_verifiedBy =
                 (if rm_verifiedBy m \<noteq> AddressZero then Some (rm_verifiedBy m) else None),
               ms_paid = rm_paid m\<rparr>)))))))"
    by (auto simp: getMilestone_def split: if_splits sum.splits)
  from bindE_Inr [OF body] obtain raw where
    raw: "contract_getMilestone (chain s) milestoneId = Inr raw" and b: "body raw = Inr m"
    by blast
  from b have "ms_status m = getMilestoneStatusName (rm_status raw)
     \<and> ms_projectId m = rm_projectId raw
     \<and> ms_targetValue m = rm_targetValue raw
     \<and> ms_verificationSource m = rm_verificationSource raw
     \<and> ms_verifiedAt m = (if rm_verifiedAt raw > 0 then Some (rm_verifiedAt raw * 1000) else None)
     \<and> ms_verifiedBy m = (if rm_verifiedBy raw \<noteq> AddressZero then Some (rm_verifiedBy raw) else None)"
    unfolding body_def
    by (auto dest!: bindE_Inr toNumber_Inr)
  with raw show ?thesis by blast
qed

lemma getMilestone_returns:
  assumes "initialized s" "contract_getMilestone (chain s) i = Inr raw"
    and "rm_id raw < 2 ^ 53" "rm_projectId raw < 2 ^ 53" "rm_targetValue raw < 2 ^ 53"
    and "rm_actualValue raw < 2 ^ 53" "rm_deadline raw < 2 ^ 53" "rm_verifiedAt raw < 2 ^ 53"
  shows "getMilestone s i = Inr \<lparr>ms_id = rm_id raw, ms_projectId = rm_projectId raw,
       ms_description = rm_description raw,
       ms_subsidyAmount = formatEther (rm_subsidyAmount raw),
       ms_targetValue = rm_targetValue raw, ms_actualValue = rm_actualValue raw,
       ms_verificationSource = rm_verificationSource raw,
       ms_deadline = rm_deadline raw * 1000,
       ms_status = getMilestoneStatusName (rm_status raw),
       ms_verifiedAt = (if rm_verifiedAt raw = 0 then None
                        else Some (rm_verifiedAt raw * 1000)),
       ms_verifiedBy = (if rm_verifiedBy raw = AddressZero then None
                        else Some (rm_verifiedBy raw)),
       ms_paid = rm_paid raw\<rparr>"
  using assms by (simp add: getMilestone_def bindE_def toNumber_def)

text \<open>
  C10. Decoding a milestone read from the ledger is total on the status code and
  normalises the sentinels: the status name is Pending, Verified, Failed or Disputed
  for the codes 0 to 3 and \<open>Unknown\<close> for every other code; whenever \<open>getMilestone\<close>
  returns a milestone, its \<open>verifiedAt\<close> is null exactly when the raw timestamp is 0
  and its \<open>verifiedBy\<close> is null exactly when the raw address is the zero address.
  And it does return: when the service is initialised, the ledger hands out the raw
  milestone and its numbers fit 53 bits, \<open>getMilestone\<close> returns the decoded milestone,
  with null for a raw timestamp 0 and null for the zero address.
\<close>

theorem milestone_decoding:
  "getMilestoneStatusName c =
     (if c = 0 then ''Pending'' else if c = 1 then ''Verified''
      else if c = 2 then ''Failed'' else if c = 3 then ''Disputed'' else ''Unknown'')
   \<and> (getMilestone s i = Inr m \<longrightarrow>
        (\<exists>raw. contract_getMilestone (chain s) i = Inr raw
           \<and> (ms_verifiedAt m = None \<longleftrightarrow> rm_verifiedAt raw = 0)
           \<and> (ms_verifiedBy m = None \<longleftrightarrow> rm_verifiedBy raw = AddressZero)))
   \<and> (initialized s \<and> contract_getMilestone (chain s) i = Inr r
        \<and> rm_id r < 2 ^ 53 \<and> rm_projectId r < 2 ^ 53 \<and> rm_targetValue r < 2 ^ 53
        \<and> rm_actualValue r < 2 ^ 53 \<and> rm_deadline r < 2 ^ 53 \<and> rm_verifiedAt r < 2 ^ 53
      \<longrightarrow> getMilestone s i = Inr \<lparr>ms_id = rm_id r, ms_projectId = rm_projectId r,
             ms_description = rm_description r,
             ms_subsidyAmount = formatEther (rm_subsidyAmount r),
             ms_targetValue = rm_targetValue r, ms_actualValue = rm_actualValue r,
             ms_verificationSource = rm_verificationSource r,
             ms_deadline = rm_deadline r * 1000,
             ms_status = getMilestoneStatusName (rm_status r),
             ms_verifiedAt = (if rm_verifiedAt r = 0 then None
                              else Some (rm_verifiedAt r * 1000)),
             ms_verifiedBy = (if rm_verifiedBy r = AddressZero then None
                              else Some (rm_verifiedBy r)),
             ms_paid = rm_paid r\<rparr>)"
proof -
  have "c = 0 \<or> c = 1 \<or> c = 2 \<or> c = 3 \<or> 4 \<le> c" by arith
  then have names: "getMilestoneStatusName c =
     (if c = 0 then ''Pending'' else if c = 1 then ''Verified''
      else if c = 2 then ''Failed'' else if c = 3 then ''Disputed'' else ''Unknown'')"
    by (auto simp: getMilestoneStatusName_def)
  have sentinels: "\<exists>raw. contract_getMilestone (chain s) i = Inr raw
           \<and> (ms_verifiedAt m = None \<longleftrightarrow> rm_verifiedAt raw = 0)
           \<and> (ms_verifiedBy m = None \<longleftrightarrow> rm_verifiedBy raw = AddressZero)"
    if "getMilestone s i = Inr m"
  proof -
    from getMilestone_decoded [OF that] obtain raw where
      "contract_getMilestone (chain s) i = Inr raw"
      "ms_verifiedAt m = (if rm_verifiedAt raw > 0 then Some (rm_verifiedAt raw * 1000) else None)"
      "ms_verifiedBy m = (if rm_verifiedBy raw \<noteq> AddressZero then Some (rm_verifiedBy raw) else None)"
      by blast
    then show ?thesis
      by (intro exI [of _ raw]) auto
  qed
  from names sentinels getMilestone_returns [of s i r] show ?thesis
    by blast
qed

lemma getMilestone_demo_2:
  "getMilestone demo_server 2 = Inr \<lparr>ms_id = 2, ms_projectId = 1,
     ms_description = ''Produce 300kg of green hydrogen for testing'',
     ms_subsidyAmount = 3 / 10, ms_targetValue = 300, ms_actualValue = 320,
     ms_verificationSource = ''test-meter-001'', ms_deadline = 1700086400000,
     ms_status = ''Verified'', ms_verifiedAt = Some 1700003600000,
     ms_verifiedBy = Some oracle_wallet, ms_paid = False\<rparr>"
  by (simp add: getMilestone_def demo_server_def demo_ledger_def contract_getMilestone_def
      verified_milestone_def bindE_def toNumber_def formatEther_def
      getMilestoneStatusName_def AddressZero_def oracle_wallet_def)

theorem milestone_decoding_witness:
  "initialized demo_server
   \<and> contract_getMilestone (chain demo_server) 1 = Inr pending_milestone
   \<and> rm_verifiedAt pending_milestone = 0 \<and> rm_verifiedBy pending_milestone = AddressZero
   \<and> getMilestone demo_server 1 = Inr \<lparr>ms_id = 1, ms_projectId = 1,
        ms_description = ''Produce 500kg of green hydrogen for testing'',
        ms_subsidyAmount = 1 / 2, ms_targetValue = 500, ms_actualValue = 0,
        ms_verificationSource = ''test-meter-001'', ms_deadline = 1700086400000,
        ms_status = ''Pending'', ms_verifiedAt = None, ms_verifiedBy = None,
        ms_paid = False\<rparr>
   \<and> getMilestone demo_server 2 = Inr \<lparr>ms_id = 2, ms_projectId = 1,
        ms_description = ''Produce 300kg of green hydrogen for testing'',
        ms_subsidyAmount = 3 / 10, ms_targetValue = 300, ms_actualValue = 320,
        ms_verificationSource = ''test-meter-001'', ms_deadline = 1700086400000,
        ms_status = ''Verified'', ms_verifiedAt = Some 1700003600000,
        ms_verifiedBy = Some oracle_wallet, ms_paid = False\<rparr>
   \<and> (\<exists>raw. contract_getMilestone (chain demo_server) 2 = Inr raw
         \<and> rm_verifiedAt raw \<noteq> 0 \<and> rm_verifiedBy raw \<noteq> AddressZero)
   \<and> getMilestoneStatusName 7 = ''Unknown''"
proof -
  have ready: "initialized demo_server"
    and raw: "contract_getMilestone (chain demo_server) 1 = Inr pending_milestone"
    by (simp_all add: demo_server_def demo_ledger_def contract_getMilestone_def)
  have fits: "rm_id pending_milestone < 2 ^ 53" "rm_projectId pending_milestone < 2 ^ 53"
      "rm_targetValue pending_milestone < 2 ^ 53" "rm_actualValue pending_milestone < 2 ^ 53"
      "rm_deadline pending_milestone < 2 ^ 53" "rm_verifiedAt pending_milestone < 2 ^ 53"
    and zero: "rm_verifiedAt pending_milestone = 0"
      "rm_verifiedBy pending_milestone = AddressZero"
    by (simp_all add: pending_milestone_def)
  note pending = milestone_decoding [where s = demo_server and i = 1 and r = pending_milestone
      and c = 7]
  note verified = milestone_decoding [where s = demo_server and i = 2 and c = 7
      and m = "\<lparr>ms_id = 2, ms_projectId = 1,
        ms_description = ''Produce 300kg of green hydrogen for testing'',
        ms_subsidyAmount = 3 / 10, ms_targetValue = 300, ms_actualValue = 320,
        ms_verificationSource = ''test-meter-001'', ms_deadline = 1700086400000,
        ms_status = ''Verified'', ms_verifiedAt = Some 1700003600000,
        ms_verifiedBy = Some oracle_wallet, ms_paid = False\<rparr>"]
  from pending ready raw fits have
    "getMilestone demo_server 1 = Inr \<lparr>ms_id = rm_id pending_milestone,
        ms_projectId = rm_projectId pending_milestone,
        ms_description = rm_description pending_milestone,
        ms_subsidyAmount = formatEther (rm_subsidyAmount pending_milestone),
        ms_targetValue = rm_targetValue pending_milestone,
        ms_actualValue = rm_actualValue pending_milestone,
        ms_verificationSource = rm_verificationSource pending_milestone,
        ms_deadline = rm_deadline pending_milestone * 1000,
        ms_status = getMilestoneStatusName (rm_status pending_milestone),
        ms_verifiedAt = (if rm_verifiedAt pending_milestone = 0 then None
                         else Some (rm_verifiedAt pending_milestone * 1000)),
        ms_verifiedBy = (if rm_verifiedBy pending_milestone = AddressZero then None
                         else Some (rm_verifiedBy pending_milestone)),
        ms_paid = rm_paid pending_milestone\<rparr>"
    by blast
  then have one: "getMilestone demo_server 1 = Inr \<lparr>ms_id = 1, ms_projectId = 1,
        ms_description = ''Produce 500kg of green hydrogen for testing'',
        ms_subsidyAmount = 1 / 2, ms_targetValue = 500, ms_actualValue = 0,
        ms_verificationSource = ''test-meter-001'', ms_deadline = 1700086400000,
        ms_status = ''Pending'', ms_verifiedAt = None, ms_verifiedBy = None,
        ms_paid = False\<rparr>"
    by (simp add: pending_milestone_def formatEther_def getMilestoneStatusName_def)
  from verified getMilestone_demo_2 have two:
    "\<exists>raw. contract_getMilestone (chain demo_server) 2 = Inr raw
         \<and> rm_verifiedAt raw \<noteq> 0 \<and> rm_verifiedBy raw \<noteq> AddressZero"
    by auto
  from pending have seven: "getMilestoneStatusName 7 = ''Unknown''"
    by simp
  from ready raw zero one getMilestone_demo_2 two seven show ?thesis
    by blast
qed

section \<open>Retrying a banking request\<close>

lemma makeRequest_unrolled:
  "makeRequest BankingService axios method endpoint w =
     (let url = method @ '' '' @ bs_baseURL BankingService @ endpoint; k = length (requests w) in
      case axios k of
        Inr x \<Rightarrow> (Inr x, w\<lparr>requests := requests w @ [url]\<rparr>)
      | Inl e1 \<Rightarrow>
          if client_error e1 then (Inl (Some e1), w\<lparr>requests := requests w @ [url]\<rparr>)
          else (case axios (k + 1) of
            Inr x \<Rightarrow> (Inr x, w\<lparr>requests := requests w @ [url, url], timers := timers w @ [2000]\<rparr>)
          | Inl e2 \<Rightarrow>
              if client_error e2
              then (Inl (Some e2), w\<lparr>requests := requests w @ [url, url], timers := timers w @ [2000]\<rparr>)
              else (case axios (k + 2) of
                Inr x \<Rightarrow> (Inr x, w\<lparr>requests := requests w @ [url, url, url],
                                    timers := timers w @ [2000, 4000]\<rparr>)
              | Inl e3 \<Rightarrow> (Inl (Some e3), w\<lparr>requests := requests w @ [url, url, url],
                                    timers := timers w @ [2000, 4000]\<rparr>))))"
  unfolding makeRequest_def
  apply (subst makeRequest_loop.simps)
  apply (subst makeRequest_loop.simps)
  apply (subst makeRequest_loop.simps)
  apply (subst makeRequest_loop.simps)
  apply (simp add: BankingService_def Let_def split: sum.splits)
  done

text \<open>
  C9. A banking request never retries a client error. The call sends between one and
  three requests; every request before the last one failed with an error that is not
  a response status in [400, 500) (no response at all, or any other status); the
  result is the outcome of the last request; the call stops before the third request
  only on a success or on a 4xx response, which is thrown as it is; and before the
  retry that follows attempt \<open>a\<close> it waits \<open>2 ^ a\<close> seconds.
\<close>

theorem makeRequest_retry_policy:
  "makeRequest BankingService axios method endpoint w = (r, w') \<Longrightarrow>
   \<exists>n. 1 \<le> n \<and> n \<le> 3
     \<and> requests w' = requests w @ replicate n (method @ '' '' @ bs_baseURL BankingService @ endpoint)
     \<and> (\<forall>i<n - 1. \<exists>e. axios (length (requests w) + i) = Inl e \<and> \<not> client_error e)
     \<and> r = (case axios (length (requests w) + (n - 1)) of Inl e \<Rightarrow> Inl (Some e) | Inr x \<Rightarrow> Inr x)
     \<and> (n < 3 \<longrightarrow> (case axios (length (requests w) + (n - 1)) of
                       Inl e \<Rightarrow> client_error e | Inr x \<Rightarrow> True))
     \<and> timers w' = timers w @ map (\<lambda>attempt. 2 ^ attempt * 1000) [1..<n]"
proof -
  assume run: "makeRequest BankingService axios method endpoint w = (r, w')"
  let ?k = "length (requests w)"
  let ?P = "\<lambda>n. 1 \<le> n \<and> n \<le> 3
     \<and> requests w' = requests w @ replicate n (method @ '' '' @ bs_baseURL BankingService @ endpoint)
     \<and> (\<forall>i<n - 1. \<exists>e. axios (?k + i) = Inl e \<and> \<not> client_error e)
     \<and> r = (case axios (?k + (n - 1)) of Inl e \<Rightarrow> Inl (Some e) | Inr x \<Rightarrow> Inr x)
     \<and> (n < 3 \<longrightarrow> (case axios (?k + (n - 1)) of
                       Inl e \<Rightarrow> client_error e | Inr x \<Rightarrow> True))
     \<and> timers w' = timers w @ map (\<lambda>attempt. 2 ^ attempt * 1000) [1..<n]"
  have two: "[1..<2] = [1::nat]" and three: "[1..<3] = [1::nat, 2]"
    by (simp_all add: upt_rec)
  consider (first) "(\<exists>x. axios ?k = Inr x) \<or> (\<exists>e. axios ?k = Inl e \<and> client_error e)"
    | (second) e1 where "axios ?k = Inl e1" "\<not> client_error e1"
        "(\<exists>x. axios (?k + 1) = Inr x) \<or> (\<exists>e. axios (?k + 1) = Inl e \<and> client_error e)"
    | (third) e1 e2 where "axios ?k = Inl e1" "\<not> client_error e1"
        "axios (?k + 1) = Inl e2" "\<not> client_error e2"
    by (cases "axios ?k"; cases "axios (?k + 1)") auto
  then show ?thesis
  proof cases
    case first
    with run have "?P 1"
      by (auto simp: makeRequest_unrolled Let_def)
    then show ?thesis by blast
  next
    case second
    with run have "?P 2"
      by (auto simp: makeRequest_unrolled Let_def two numeral_2_eq_2)
    then show ?thesis by blast
  next
    case third
    with run have "?P 3"
      by (cases "axios (?k + 2)")
         (auto simp: makeRequest_unrolled Let_def three less_Suc_eq numeral_3_eq_3)
    then show ?thesis by blast
  qed
qed

lemma makeRequest_demo_run:
  "makeRequest BankingService demo_axios ''GET'' ''/health'' \<lparr>requests = [], timers = []\<rparr>
     = (Inl (Some (AxiosError (Some 404) ''Request failed with status code 404'')),
        \<lparr>requests = [''GET https://api.bank.gov/health'', ''GET https://api.bank.gov/health''],
         timers = [2000]\<rparr>)"
proof -
  have "bs_baseURL BankingService = ''https://api.bank.gov''"
    by (simp add: BankingService_def)
  then show ?thesis
    by (simp add: makeRequest_unrolled demo_axios_def client_error_def Let_def)
qed

theorem makeRequest_retry_policy_witness:
  "makeRequest BankingService demo_axios ''GET'' ''/health'' \<lparr>requests = [], timers = []\<rparr>
     = (Inl (Some (AxiosError (Some 404) ''Request failed with status code 404'')),
        \<lparr>requests = [''GET https://api.bank.gov/health'', ''GET https://api.bank.gov/health''],
         timers = [2000]\<rparr>)
   \<and> (\<exists>n. 1 \<le> n \<and> n \<le> 3
        \<and> [''GET https://api.bank.gov/health'', ''GET https://api.bank.gov/health'']
            = replicate n ''GET https://api.bank.gov/health''
        \<and> (\<forall>i<n - 1. \<exists>e. demo_axios i = Inl e \<and> \<not> client_error e)
        \<and> Inl (Some (AxiosError (Some 404) ''Request failed with status code 404''))
            = (case demo_axios (n - 1) of Inl e \<Rightarrow> Inl (Some e) | Inr x \<Rightarrow> Inr x)
        \<and> (n < 3 \<longrightarrow> (case demo_axios (n - 1) of Inl e \<Rightarrow> client_error e | Inr x \<Rightarrow> True))
        \<and> [2000::nat] = map (\<lambda>attempt. 2 ^ attempt * 1000) [1..<n])"
proof (rule conjI)
  have url: "bs_baseURL BankingService = ''https://api.bank.gov''"
    by (simp add: BankingService_def)
  show "\<exists>n. 1 \<le> n \<and> n \<le> 3
        \<and> [''GET https://api.bank.gov/health'', ''GET https://api.bank.gov/health'']
            = replicate n ''GET https://api.bank.gov/health''
        \<and> (\<forall>i<n - 1. \<exists>e. demo_axios i = Inl e \<and> \<not> client_error e)
        \<and> Inl (Some (AxiosError (Some 404) ''Request failed with status code 404''))
            = (case demo_axios (n - 1) of Inl e \<Rightarrow> Inl (Some e) | Inr x \<Rightarrow> Inr x)
        \<and> (n < 3 \<longrightarrow> (case demo_axios (n - 1) of Inl e \<Rightarrow> client_error e | Inr x \<Rightarrow> True))
        \<and> [2000::nat] = map (\<lambda>attempt. 2 ^ attempt * 1000) [1..<n]"
    using makeRequest_retry_policy [OF makeRequest_demo_run]
    by (simp only: net_world.simps list.size add_0 url append.simps)
qed (rule makeRequest_demo_run)

section \<open>Retrying a payment\<close>

lemma processWithRetry_step:
  "attempt < maxAttempts cfg \<Longrightarrow> following = attempt + 1 \<Longrightarrow>
   processWithRetry cfg operation paymentId attempt v =
     (case operation v of
        (Inr r, v1) \<Rightarrow> (Inr r, v1)
      | (Inl e, v1) \<Rightarrow> processWithRetry cfg operation paymentId following
                         (wait_for attempt (retry_delay cfg attempt) v1))"
  by (subst processWithRetry.simps) (simp split: prod.splits sum.splits)

lemma processWithRetry_last:
  "maxAttempts cfg \<le> attempt \<Longrightarrow>
   processWithRetry cfg operation paymentId attempt v =
     (case operation v of (Inr r, v1) \<Rightarrow> (Inr r, v1) | (Inl e, v1) \<Rightarrow> (Inl e, v1))"
  by (subst processWithRetry.simps) (simp split: prod.splits sum.splits)

lemma processWithRetry_unrolled:
  "processWithRetry retryConfig operation paymentId 1 w =
     (case operation w of
        (Inr r, w1) \<Rightarrow> (Inr r, w1)
      | (Inl e1, w1) \<Rightarrow>
          (case operation (wait_for 1 (retry_delay retryConfig 1) w1) of
             (Inr r, w2) \<Rightarrow> (Inr r, w2)
           | (Inl e2, w2) \<Rightarrow>
               (case operation (wait_for 2 (retry_delay retryConfig 2) w2) of
                  (Inr r, w3) \<Rightarrow> (Inr r, w3)
                | (Inl e3, w3) \<Rightarrow> (Inl e3, w3))))"
proof -
  have m: "maxAttempts retryConfig = 3"
    by (simp add: retryConfig_def)
  show ?thesis
    apply (subst processWithRetry_step [where attempt = 1 and following = 2])
      apply (simp add: m)
     apply simp
    apply (subst processWithRetry_step [where attempt = 2 and following = 3])
      apply (simp add: m)
     apply simp
    apply (subst processWithRetry_last [where attempt = 3])
     apply (simp add: m)
    apply (rule refl)
    done
qed

lemma retry_delay_default: "retry_delay retryConfig 1 = 1000" "retry_delay retryConfig 2 = 2000"
  by (simp_all add: retry_delay_def retryConfig_def)

lemma retry_delay_doubles:
  "retry_delay cfg (Suc (Suc a)) = min (2 * retry_delay cfg (Suc a)) (maxDelay cfg)"
  by (simp add: retry_delay_def min_def)

lemma wait_for_timers: "timers (wait_for attempt delay w) = timers w @ [delay]"
  by (simp add: wait_for_def)

lemma processWithRetry_timers:
  assumes "\<And>v. timers (snd (operation v)) = timers v"
  shows "\<exists>k. k \<le> maxAttempts cfg - attempt
     \<and> timers (snd (processWithRetry cfg operation paymentId attempt w))
         = timers w @ map (retry_delay cfg) [attempt..<attempt + k]"
  using assms
proof (induction cfg operation paymentId attempt w rule: processWithRetry.induct)
  case (1 cfg operation paymentId attempt w)
  obtain r w1 where op: "operation w = (r, w1)" by (cases "operation w")
  with "1.prems" [of w] have w1: "timers w1 = timers w" by simp
  show ?case
  proof (cases "\<exists>e. r = Inl e \<and> attempt < maxAttempts cfg")
    case False
    then have "processWithRetry cfg operation paymentId attempt w = (r, w1)"
      using op by (subst processWithRetry.simps) (auto split: sum.splits)
    with w1 show ?thesis by (intro exI [of _ 0]) simp
  next
    case True
    then obtain e where e: "r = Inl e" and less: "attempt < maxAttempts cfg" by blast
    let ?w2 = "wait_for attempt (retry_delay cfg attempt) w1"
    from less have "\<not> maxAttempts cfg \<le> attempt" by simp
    from "1.IH" [OF op [symmetric] e this "1.prems"] obtain k where
      k: "k \<le> maxAttempts cfg - (attempt + 1)"
      and t: "timers (snd (processWithRetry cfg operation paymentId (attempt + 1) ?w2))
         = timers ?w2 @ map (retry_delay cfg) [attempt + 1..<attempt + 1 + k]"
      by blast
    have run: "processWithRetry cfg operation paymentId attempt w
        = processWithRetry cfg operation paymentId (attempt + 1) ?w2"
      using op e less by (subst processWithRetry.simps) simp
    have "[attempt..<attempt + (k + 1)] = attempt # [attempt + 1..<attempt + 1 + k]"
      by (simp add: upt_rec)
    with t w1 have "timers (snd (processWithRetry cfg operation paymentId attempt w))
         = timers w @ map (retry_delay cfg) [attempt..<attempt + (k + 1)]"
      by (simp add: run wait_for_timers)
    moreover from k less have "k + 1 \<le> maxAttempts cfg - attempt" by simp
    ultimately show ?thesis by blast
  qed
qed

lemma gateway_timers:
  "timers (snd (processStripePayment env b paymentData w)) = timers w"
  "timers (snd (processPayPalPayment env b paymentData w)) = timers w"
  "timers (snd (processACHPayment env b paymentData w)) = timers w"
  "timers (snd (processWirePayment env b paymentData w)) = timers w"
  "timers (snd (processCryptoPayment env b paymentData w)) = timers w"
  by (simp_all add: processStripePayment_def processPayPalPayment_def processACHPayment_def
      processWirePayment_def processCryptoPayment_def axios_post_def
      split: sum.splits option.splits)

lemma executePayment_timers: "timers (snd (executePayment env m paymentData w)) = timers w"
  by (simp add: executePayment_def Let_def gateway_timers)

lemma unreachable_run:
  "processWithRetry retryConfig (executePayment unreachable_outside ''ach'' demo_payment)
     ''PAY_1_1_1700010000000_4fzzzxjyl'' 1 fresh_world
   = (Inl (Error ''connect ECONNREFUSED''),
      fresh_world\<lparr>requests := [''https://api.ach.com/v1/transfers/ach'',
           ''https://api.ach.com/v1/transfers/ach'', ''https://api.ach.com/v1/transfers/ach''],
        timers := [1000, 2000], now_ms := 1700010003000,
        warnings := [(1, 1000), (2, 2000)]\<rparr>)"
  by (simp add: processWithRetry_unrolled retry_delay_default executePayment_def
      processACHPayment_def axios_post_def unreachable_outside_def gateways_def
      fresh_world_def wait_for_def Let_def del: One_nat_def)

text \<open>
  C7. Payment execution makes at most three attempts and then stops: with the
  configured retry policy, \<open>processWithRetry\<close> runs the operation, on failure waits
  the delay of attempt 1 and runs it again, on failure waits the delay of attempt 2
  and runs it a third time, and then returns whatever the third run gave, the last
  error included. The delay of attempt \<open>a\<close> is \<open>min (baseDelay * 2 ^ (a - 1)) maxDelay\<close>
  (1000 ms and 2000 ms here): it doubles from one attempt to the next and never
  exceeds \<open>maxDelay\<close>. The function is total, its recursion decreasing
  \<open>maxAttempts - attempt\<close>; and for every retry policy and every operation that sets
  no timer itself, the timers set from attempt \<open>a\<close> on are the delays of the attempts
  \<open>a\<close>, \<open>a + 1\<close>, and so on, at most \<open>maxAttempts - a\<close> of them.
\<close>

theorem processWithRetry_bounded:
  "processWithRetry retryConfig operation paymentId 1 w =
     (case operation w of
        (Inr r, w1) \<Rightarrow> (Inr r, w1)
      | (Inl e1, w1) \<Rightarrow>
          (case operation (wait_for 1 (retry_delay retryConfig 1) w1) of
             (Inr r, w2) \<Rightarrow> (Inr r, w2)
           | (Inl e2, w2) \<Rightarrow>
               (case operation (wait_for 2 (retry_delay retryConfig 2) w2) of
                  (Inr r, w3) \<Rightarrow> (Inr r, w3)
                | (Inl e3, w3) \<Rightarrow> (Inl e3, w3))))
   \<and> retry_delay retryConfig 1 = 1000 \<and> retry_delay retryConfig 2 = 2000
   \<and> retry_delay cfg (Suc a) = min (baseDelay cfg * 2 ^ a) (maxDelay cfg)
   \<and> retry_delay cfg (Suc (Suc a)) = min (2 * retry_delay cfg (Suc a)) (maxDelay cfg)
   \<and> retry_delay cfg (Suc a) \<le> maxDelay cfg
   \<and> ((\<forall>v. timers (snd (op v)) = timers v) \<longrightarrow>
        (\<exists>k. k \<le> maxAttempts cfg - attempt
           \<and> timers (snd (processWithRetry cfg op pid attempt u))
               = timers u @ map (retry_delay cfg) [attempt..<attempt + k]))"
proof (intro conjI impI)
  show "retry_delay cfg (Suc a) = min (baseDelay cfg * 2 ^ a) (maxDelay cfg)"
    by (simp add: retry_delay_def)
  show "retry_delay cfg (Suc a) \<le> maxDelay cfg"
    by (simp add: retry_delay_def)
  show "\<exists>k. k \<le> maxAttempts cfg - attempt
           \<and> timers (snd (processWithRetry cfg op pid attempt u))
               = timers u @ map (retry_delay cfg) [attempt..<attempt + k]"
    if "\<forall>v. timers (snd (op v)) = timers v"
    using that by (intro processWithRetry_timers) simp
qed (rule processWithRetry_unrolled retry_delay_default retry_delay_doubles)+

theorem processWithRetry_bounded_witness:
  "(\<forall>v. timers (snd (executePayment unreachable_outside ''ach'' demo_payment v)) = timers v)
   \<and> processWithRetry retryConfig (executePayment unreachable_outside ''ach'' demo_payment)
        ''PAY_1_1_1700010000000_4fzzzxjyl'' 1 fresh_world
      = (Inl (Error ''connect ECONNREFUSED''),
         fresh_world\<lparr>requests := [''https://api.ach.com/v1/transfers/ach'',
              ''https://api.ach.com/v1/transfers/ach'', ''https://api.ach.com/v1/transfers/ach''],
           timers := [1000, 2000], now_ms := 1700010003000,
           warnings := [(1, 1000), (2, 2000)]\<rparr>)
   \<and> (\<exists>k. k \<le> 2 \<and> [1000, 2000] = map (retry_delay retryConfig) [1..<1 + k])"
proof -
  have frame: "\<forall>v. timers (snd (executePayment unreachable_outside ''ach'' demo_payment v))
      = timers v"
    by (simp add: executePayment_timers)
  have budget: "maxAttempts retryConfig - 1 = 2" and start: "timers fresh_world = []"
    by (simp_all add: retryConfig_def fresh_world_def)
  from processWithRetry_bounded [where op = "executePayment unreachable_outside ''ach'' demo_payment"
      and cfg = retryConfig and attempt = 1 and u = fresh_world
      and pid = "''PAY_1_1_1700010000000_4fzzzxjyl''"] frame
  have "\<exists>k. k \<le> maxAttempts retryConfig - 1
      \<and> timers (snd (processWithRetry retryConfig
            (executePayment unreachable_outside ''ach'' demo_payment)
            ''PAY_1_1_1700010000000_4fzzzxjyl'' 1 fresh_world))
          = timers fresh_world @ map (retry_delay retryConfig) [1..<1 + k]"
    by blast
  then have "\<exists>k. k \<le> 2 \<and> [1000, 2000] = map (retry_delay retryConfig) [1..<1 + k]"
    unfolding budget start unreachable_run by simp
  with frame unreachable_run show ?thesis by blast
qed

section \<open>Repeated payments\<close>

lemma axios_post_requests:
  "axios_post env url w = (res, w') \<Longrightarrow> length (requests w') = length (requests w) + 1"
  by (auto simp: axios_post_def)

lemma executePayment_requests:
  assumes "executePayment env method paymentData w = (res, w')"
  shows "length (requests w) \<le> length (requests w')"
    and "res = Inr g \<Longrightarrow> length (requests w) < length (requests w')"
  using assms
  by (auto simp: executePayment_def Let_def processStripePayment_def processPayPalPayment_def
      processACHPayment_def processWirePayment_def processCryptoPayment_def
      split: if_splits option.splits prod.splits sum.splits dest!: axios_post_requests)

lemma wait_for_requests: "requests (wait_for attempt delay w) = requests w"
  by (simp add: wait_for_def)

lemma processWithRetry_executePayment_requests:
  assumes "processWithRetry retryConfig (executePayment env method paymentData) paymentId 1 w
             = (Inr g, w')"
  shows "length (requests w) < length (requests w')"
proof -
  let ?op = "executePayment env method paymentData"
  obtain r1 w1 where o1: "?op w = (r1, w1)" by (cases "?op w")
  obtain r2 w2 where o2: "?op (wait_for 1 (retry_delay retryConfig 1) w1) = (r2, w2)"
    by (cases "?op (wait_for 1 (retry_delay retryConfig 1) w1)")
  obtain r3 w3 where o3: "?op (wait_for 2 (retry_delay retryConfig 2) w2) = (r3, w3)"
    by (cases "?op (wait_for 2 (retry_delay retryConfig 2) w2)")
  note m1 = executePayment_requests [OF o1] and m2 = executePayment_requests [OF o2]
    and m3 = executePayment_requests [OF o3]
  from assms m1 m2 m3 show ?thesis
    by (auto simp add: processWithRetry_unrolled o1 o2 o3 wait_for_requests
        simp del: One_nat_def split: sum.splits)
qed

lemma gateway_success:
  "processStripePayment env b paymentData v = (Inr g, v') \<Longrightarrow>
     length (requests v) < length (requests v')
     \<and> (\<exists>d. post env (length (requests v') - 1) = Inr d
            \<and> gr_gatewayReference g = gateway_reference ''stripe'' d)"
  "processPayPalPayment env b paymentData v = (Inr g, v') \<Longrightarrow>
     length (requests v) < length (requests v')
     \<and> (\<exists>d. post env (length (requests v') - 1) = Inr d
            \<and> gr_gatewayReference g = gateway_reference ''paypal'' d)"
  "processACHPayment env b paymentData v = (Inr g, v') \<Longrightarrow>
     length (requests v) < length (requests v')
     \<and> (\<exists>d. post env (length (requests v') - 1) = Inr d
            \<and> gr_gatewayReference g = gateway_reference ''ach'' d)"
  "processWirePayment env b paymentData v = (Inr g, v') \<Longrightarrow>
     length (requests v) < length (requests v')
     \<and> (\<exists>d. post env (length (requests v') - 1) = Inr d
            \<and> gr_gatewayReference g = gateway_reference ''wire'' d)"
  "processCryptoPayment env b paymentData v = (Inr g, v') \<Longrightarrow>
     length (requests v) < length (requests v')
     \<and> (\<exists>d. post env (length (requests v') - 1) = Inr d
            \<and> gr_gatewayReference g = gateway_reference ''crypto'' d)"
  by (auto simp: processStripePayment_def processPayPalPayment_def processACHPayment_def
      processWirePayment_def processCryptoPayment_def axios_post_def gateway_reference_def
      split: sum.splits option.splits)

lemma executePayment_success:
  assumes "executePayment env m paymentData v = (Inr g, v')"
  shows "length (requests v) < length (requests v')
     \<and> (\<exists>d. post env (length (requests v') - 1) = Inr d
            \<and> gr_gatewayReference g = gateway_reference m d)"
proof -
  consider "m = ''stripe''" | "m = ''paypal''" | "m = ''ach''" | "m = ''wire''"
    | "m = ''crypto''"
    | "m \<noteq> ''stripe''" "m \<noteq> ''paypal''" "m \<noteq> ''ach''" "m \<noteq> ''wire''" "m \<noteq> ''crypto''"
    by blast
  then show ?thesis
  proof cases
    case 1 with assms show ?thesis
      by (auto simp add: executePayment_def Let_def dest!: gateway_success(1))
  next
    case 2 with assms show ?thesis
      by (auto simp add: executePayment_def Let_def dest!: gateway_success(2))
  next
    case 3 with assms show ?thesis
      by (auto simp add: executePayment_def Let_def dest!: gateway_success(3))
  next
    case 4 with assms show ?thesis
      by (auto simp add: executePayment_def Let_def dest!: gateway_success(4))
  next
    case 5 with assms show ?thesis
      by (auto simp add: executePayment_def Let_def dest!: gateway_success(5))
  next
    case 6 with assms show ?thesis
      by (simp add: executePayment_def Let_def)
  qed
qed

lemma processWithRetry_executePayment_success:
  assumes "processWithRetry retryConfig (executePayment env m paymentData) paymentId 1 w
             = (Inr g, w')"
  shows "length (requests w) < length (requests w')
     \<and> (\<exists>d. post env (length (requests w') - 1) = Inr d
            \<and> gr_gatewayReference g = gateway_reference m d)"
proof -
  let ?op = "executePayment env m paymentData"
  obtain r1 w1 where o1: "?op w = (r1, w1)" by (cases "?op w")
  obtain r2 w2 where o2: "?op (wait_for 1 (retry_delay retryConfig 1) w1) = (r2, w2)"
    by (cases "?op (wait_for 1 (retry_delay retryConfig 1) w1)")
  obtain r3 w3 where o3: "?op (wait_for 2 (retry_delay retryConfig 2) w2) = (r3, w3)"
    by (cases "?op (wait_for 2 (retry_delay retryConfig 2) w2)")
  note m1 = executePayment_requests(1) [OF o1] and m2 = executePayment_requests(1) [OF o2]
  from assms consider "r1 = Inr g" "w' = w1" | "r2 = Inr g" "w' = w2" | "r3 = Inr g" "w' = w3"
    by (auto simp add: processWithRetry_unrolled o1 o2 o3 simp del: One_nat_def
        split: sum.splits)
  then show ?thesis
  proof cases
    case 1
    with executePayment_success [of env m paymentData w g w1] o1 show ?thesis by simp
  next
    case 2
    with executePayment_success [OF o2 [unfolded 2(1)]] m1 show ?thesis
      by (auto simp: wait_for_requests)
  next
    case 3
    with executePayment_success [OF o3 [unfolded 3(1)]] m1 m2 show ?thesis
      by (auto simp: wait_for_requests)
  qed
qed

lemma processPayment_completes:
  assumes run: "processPayment env paymentData w = (Inr r, w')"
  shows "length (requests w) < length (requests w')
   \<and> pay_paymentId r =
       fst (generatePaymentId env (pd_milestoneId paymentData) (pd_projectId paymentData) w)
   \<and> (\<exists>d. post env (length (requests w') - 1) = Inr d
          \<and> pay_gatewayReference r = gateway_reference (payment_method paymentData) d)
   \<and> (\<exists>st. paymentStatuses w' (pay_paymentId r) = Some st
          \<and> ps_status st = ''completed''
          \<and> ps_gatewayReference st = pay_gatewayReference r)"
proof -
  define mth where "mth = (case pd_method paymentData of None \<Rightarrow> ''ach'' | Some m \<Rightarrow> m)"
  obtain paymentId w0 where
    gen: "generatePaymentId env (pd_milestoneId paymentData) (pd_projectId paymentData) w
            = (paymentId, w0)"
    by (cases "generatePaymentId env (pd_milestoneId paymentData) (pd_projectId paymentData) w")
  then have w0: "requests w0 = requests w"
    by (auto simp: generatePaymentId_def)
  obtain res w1 where
    retry: "processWithRetry retryConfig (executePayment env mth paymentData) paymentId 1 w0
              = (res, w1)"
    by (cases "processWithRetry retryConfig (executePayment env mth paymentData) paymentId 1 w0")
  from run gen retry obtain g where
    g: "res = Inr g" and
    r: "pay_paymentId r = paymentId" "pay_gatewayReference r = gr_gatewayReference g" and
    st: "paymentStatuses w' paymentId \<noteq> None"
        "ps_status (the (paymentStatuses w' paymentId)) = ''completed''"
        "ps_gatewayReference (the (paymentStatuses w' paymentId)) = gr_gatewayReference g" and
    w': "requests w' = requests w1"
    by (auto simp add: processPayment_def Let_def mth_def [symmetric] simp del: One_nat_def
        split: if_splits sum.splits prod.splits)
  from retry g have "length (requests w0) < length (requests w1)
     \<and> (\<exists>d. post env (length (requests w1) - 1) = Inr d
            \<and> gr_gatewayReference g = gateway_reference mth d)"
    by (intro processWithRetry_executePayment_success [of env mth paymentData paymentId w0 g w1])
       simp
  with w0 w' r st gen show ?thesis
    by (auto simp: payment_method_def mth_def)
qed

lemma first_call_eq:
  "first_call =
     (Inr \<lparr>pay_success = True, pay_paymentId = ''PAY_1_1_1700010000000_4fzzzxjyl'',
           pay_status = ''completed'', pay_gatewayReference = Some ''ach_0'',
           pay_estimatedCompletion = 1700096400000, pay_fees = 1 / 4\<rparr>,
      fresh_world\<lparr>requests := [''https://api.ach.com/v1/transfers/ach''], draws := 1,
        paymentStatuses := [''PAY_1_1_1700010000000_4fzzzxjyl'' \<mapsto>
           \<lparr>ps_status = ''completed'', ps_method = ''ach'', ps_amount = 1 / 2,
            ps_currency = ''USD'', ps_timestamp = 1700010000000,
            ps_gatewayReference = Some ''ach_0'', ps_fees = Some (1 / 4), ps_error = None\<rparr>],
        payment_audit := [\<lparr>au_action = ''PAYMENT_COMPLETED'', au_userId = None,
           au_details = [(''paymentId'', JStr ''PAY_1_1_1700010000000_4fzzzxjyl''),
                         (''milestoneId'', JStr ''1''), (''projectId'', JStr ''1''),
                         (''amount'', JNum (1 / 2)), (''method'', JStr ''ach''),
                         (''gatewayReference'', JStr ''ach_0'')]\<rparr>]\<rparr>)"
  by (simp add: first_call_def processPayment_def demo_payment_def demo_outside_def
      fresh_world_def generatePaymentId_def show_id_def string_of_nat.simps digit_def
      gateways_def has_gateway_def processWithRetry_unrolled executePayment_def processACHPayment_def
      axios_post_def or_default_def days_def Let_def del: One_nat_def)

lemma second_call_eq:
  "fst second_call =
     Inr \<lparr>pay_success = True, pay_paymentId = ''PAY_1_1_1700010000000_9x2k1m7qa'',
           pay_status = ''completed'', pay_gatewayReference = Some ''ach_1'',
           pay_estimatedCompletion = 1700096400000, pay_fees = 1 / 4\<rparr>
   \<and> requests (snd second_call)
       = [''https://api.ach.com/v1/transfers/ach'', ''https://api.ach.com/v1/transfers/ach'']"
  by (simp add: second_call_def first_call_eq processPayment_def demo_payment_def
      demo_outside_def fresh_world_def generatePaymentId_def show_id_def string_of_nat.simps
      digit_def gateways_def has_gateway_def processWithRetry_unrolled executePayment_def
      processACHPayment_def axios_post_def or_default_def days_def Let_def del: One_nat_def)

text \<open>
  C1, as stated, fails: \<open>processPayment\<close> is not idempotent on the pair (projectId,
  milestoneId). After a first call for milestone 1 of project 1 has completed, a second
  call with the same payment data returns another record, with another payment id and
  another gateway reference, and has sent a second transfer to the gateway.
\<close>

theorem processPayment_not_idempotent:
  "fst first_call =
     Inr \<lparr>pay_success = True, pay_paymentId = ''PAY_1_1_1700010000000_4fzzzxjyl'',
           pay_status = ''completed'', pay_gatewayReference = Some ''ach_0'',
           pay_estimatedCompletion = 1700096400000, pay_fees = 1 / 4\<rparr>
   \<and> fst second_call =
     Inr \<lparr>pay_success = True, pay_paymentId = ''PAY_1_1_1700010000000_9x2k1m7qa'',
           pay_status = ''completed'', pay_gatewayReference = Some ''ach_1'',
           pay_estimatedCompletion = 1700096400000, pay_fees = 1 / 4\<rparr>
   \<and> fst second_call \<noteq> fst first_call
   \<and> requests (snd first_call) = [''https://api.ach.com/v1/transfers/ach'']
   \<and> requests (snd second_call)
       = [''https://api.ach.com/v1/transfers/ach'', ''https://api.ach.com/v1/transfers/ach'']"
  by (simp add: second_call_eq) (simp add: first_call_eq)

text \<open>
  C1, amended. \<open>processPayment\<close> never looks up an earlier record. Whatever the state
  of the service, a call that completes has sent at least one new request to the
  gateway, returns the payment id generated for this call (built from projectId,
  milestoneId, the clock and a random suffix), returns as gateway reference the field
  of the response to the last request it sent, and has stored under its payment id a
  completed record with that gateway reference. So when a first call has completed and
  a second call with the same payment data completes in the state the first one left,
  the second call has sent a further request of its own (at least two requests have
  gone out since before the first call), and its record carries the id drawn for the
  second call and the reference of the second call's own response. Nothing makes the
  two records equal, and nothing makes them differ: that is left to the clock, the
  random suffix and the gateway.
\<close>

theorem processPayment_issues_transfer:
  "(processPayment env paymentData w = (Inr r, w') \<longrightarrow>
       length (requests w) < length (requests w')
     \<and> pay_paymentId r =
         fst (generatePaymentId env (pd_milestoneId paymentData) (pd_projectId paymentData) w)
     \<and> (\<exists>d. post env (length (requests w') - 1) = Inr d
            \<and> pay_gatewayReference r = gateway_reference (payment_method paymentData) d)
     \<and> (\<exists>st. paymentStatuses w' (pay_paymentId r) = Some st
            \<and> ps_status st = ''completed''
            \<and> ps_gatewayReference st = pay_gatewayReference r))
   \<and> (processPayment env paymentData w = (Inr r, w')
        \<and> processPayment env paymentData w' = (Inr r2, w2) \<longrightarrow>
       length (requests w) + 2 \<le> length (requests w2)
     \<and> length (requests w') < length (requests w2)
     \<and> pay_paymentId r2 =
         fst (generatePaymentId env (pd_milestoneId paymentData) (pd_projectId paymentData) w')
     \<and> (\<exists>d. post env (length (requests w2) - 1) = Inr d
            \<and> pay_gatewayReference r2 = gateway_reference (payment_method paymentData) d)
     \<and> (\<exists>st. paymentStatuses w2 (pay_paymentId r2) = Some st
            \<and> ps_status st = ''completed''
            \<and> ps_gatewayReference st = pay_gatewayReference r2))"
proof -
  have one: ?thesis if "processPayment env paymentData w \<noteq> (Inr r, w')"
    using that by simp
  have two: ?thesis
    if a: "processPayment env paymentData w = (Inr r, w')"
      and b: "processPayment env paymentData w' \<noteq> (Inr r2, w2)"
    using processPayment_completes [OF a] a b by blast
  have three: ?thesis
    if a: "processPayment env paymentData w = (Inr r, w')"
      and b: "processPayment env paymentData w' = (Inr r2, w2)"
  proof -
    note fa = processPayment_completes [OF a] and fb = processPayment_completes [OF b]
    from fa fb have "length (requests w) + 2 \<le> length (requests w2)"
      by linarith
    with fa fb a b show ?thesis
      by blast
  qed
  from one two three show ?thesis
    by blast
qed

theorem processPayment_issues_transfer_witness:
  "processPayment demo_outside demo_payment fresh_world
     = (Inr \<lparr>pay_success = True, pay_paymentId = ''PAY_1_1_1700010000000_4fzzzxjyl'',
             pay_status = ''completed'', pay_gatewayReference = Some ''ach_0'',
             pay_estimatedCompletion = 1700096400000, pay_fees = 1 / 4\<rparr>, snd first_call)
   \<and> processPayment demo_outside demo_payment (snd first_call)
     = (Inr \<lparr>pay_success = True, pay_paymentId = ''PAY_1_1_1700010000000_9x2k1m7qa'',
             pay_status = ''completed'', pay_gatewayReference = Some ''ach_1'',
             pay_estimatedCompletion = 1700096400000, pay_fees = 1 / 4\<rparr>, snd second_call)
   \<and> length (requests fresh_world) + 2 \<le> length (requests (snd second_call))
   \<and> length (requests (snd first_call)) < length (requests (snd second_call))
   \<and> (\<exists>d. post demo_outside (length (requests (snd second_call)) - 1) = Inr d
          \<and> Some ''ach_1'' = gateway_reference (payment_method demo_payment) d)
   \<and> (\<exists>st. paymentStatuses (snd second_call) ''PAY_1_1_1700010000000_9x2k1m7qa'' = Some st
          \<and> ps_status st = ''completed'' \<and> ps_gatewayReference st = Some ''ach_1'')"
proof -
  let ?r = "\<lparr>pay_success = True, pay_paymentId = ''PAY_1_1_1700010000000_4fzzzxjyl'',
             pay_status = ''completed'', pay_gatewayReference = Some ''ach_0'',
             pay_estimatedCompletion = 1700096400000, pay_fees = 1 / 4\<rparr>"
  let ?r2 = "\<lparr>pay_success = True, pay_paymentId = ''PAY_1_1_1700010000000_9x2k1m7qa'',
             pay_status = ''completed'', pay_gatewayReference = Some ''ach_1'',
             pay_estimatedCompletion = 1700096400000, pay_fees = 1 / 4\<rparr>"
  have "fst first_call = Inr ?r"
    by (simp add: first_call_eq)
  then have a: "processPayment demo_outside demo_payment fresh_world = (Inr ?r, snd first_call)"
    unfolding first_call_def by (metis prod.collapse)
  have "fst second_call = Inr ?r2"
    by (simp add: second_call_eq)
  then have b: "processPayment demo_outside demo_payment (snd first_call)
                  = (Inr ?r2, snd second_call)"
    unfolding second_call_def by (metis prod.collapse)
  from processPayment_issues_transfer [of demo_outside demo_payment fresh_world ?r
      "snd first_call" ?r2 "snd second_call"] a b
  have "length (requests fresh_world) + 2 \<le> length (requests (snd second_call))
   \<and> length (requests (snd first_call)) < length (requests (snd second_call))
   \<and> (\<exists>d. post demo_outside (length (requests (snd second_call)) - 1) = Inr d
          \<and> pay_gatewayReference ?r2 = gateway_reference (payment_method demo_payment) d)
   \<and> (\<exists>st. paymentStatuses (snd second_call) (pay_paymentId ?r2) = Some st
          \<and> ps_status st = ''completed''
          \<and> ps_gatewayReference st = pay_gatewayReference ?r2)"
    by blast
  with a b show ?thesis
    by simp
qed

text \<open>
  The two records can also coincide. With a gateway that answers every transfer with
  the same reference and a random suffix that repeats within the same millisecond, the
  second call returns the very record of the first, and has still sent a second
  transfer.
\<close>

lemma repeated_call_same_record:
  "fst (processPayment repeating_outside demo_payment fresh_world)
     = Inr \<lparr>pay_success = True, pay_paymentId = ''PAY_1_1_1700010000000_4fzzzxjyl'',
            pay_status = ''completed'', pay_gatewayReference = Some ''ach_0'',
            pay_estimatedCompletion = 1700096400000, pay_fees = 1 / 4\<rparr>
   \<and> fst (processPayment repeating_outside demo_payment
            (snd (processPayment repeating_outside demo_payment fresh_world)))
     = fst (processPayment repeating_outside demo_payment fresh_world)
   \<and> requests (snd (processPayment repeating_outside demo_payment
            (snd (processPayment repeating_outside demo_payment fresh_world))))
     = [''https://api.ach.com/v1/transfers/ach'', ''https://api.ach.com/v1/transfers/ach'']"
  by (simp add: processPayment_def demo_payment_def repeating_outside_def
      fresh_world_def generatePaymentId_def show_id_def string_of_nat.simps digit_def
      gateways_def has_gateway_def processWithRetry_unrolled executePayment_def
      processACHPayment_def axios_post_def or_default_def days_def Let_def del: One_nat_def)

section \<open>Rounding to the nearest double\<close>

text \<open>
  What the proofs below need of \<open>nearest_double\<close>: the exponent it computes is the
  binary exponent; the result is within half a unit in the last place; a natural
  number below \<open>2 ^ 53\<close> is a double; rounding is monotone; and how to evaluate it
  at a given rational.
\<close>

lemma bits_0: "bits 0 = 0"
  by (simp add: bits.simps)

lemma bits_pos: "0 < n \<Longrightarrow> bits n = Suc (bits (n div 2))"
  by (subst bits.simps) simp

lemma bits_bounds: "0 < n \<Longrightarrow> 2 ^ (bits n - 1) \<le> n \<and> n < 2 ^ bits n"
proof (induction n rule: bits.induct)
  case (1 n)
  show ?case
  proof (cases "n div 2 = 0")
    case True
    with 1(2) have "n = 1" by (auto simp: div_eq_0_iff)
    then show ?thesis by (simp add: bits_pos bits_0)
  next
    case False
    with 1 have ih: "2 ^ (bits (n div 2) - 1) \<le> n div 2" "n div 2 < 2 ^ bits (n div 2)"
      by auto
    from False have "0 < bits (n div 2)" by (simp add: bits_pos)
    then obtain b where b: "bits (n div 2) = Suc b" by (cases "bits (n div 2)") auto
    from ih b have "2 * 2 ^ b \<le> 2 * (n div 2)" by simp
    also have "\<dots> \<le> n" by simp
    finally have lo: "2 ^ Suc b \<le> n" by simp
    from ih(2) have "n div 2 + 1 \<le> 2 ^ bits (n div 2)" by simp
    then have "2 * (n div 2) + 2 \<le> 2 * 2 ^ bits (n div 2)" by simp
    moreover have "n < 2 * (n div 2) + 2" by presburger
    ultimately have hi: "n < 2 * 2 ^ bits (n div 2)" by linarith
    from lo hi 1(2) b show ?thesis by (simp add: bits_pos)
  qed
qed

lemma pow2_pos: "0 < pow2 e"
  by (simp add: pow2_def)

lemma pow2_powi: "pow2 e = 2 powi e"
  by (simp add: pow2_def power_int_def field_simps)

lemma pow2_add: "pow2 (a + b) = pow2 a * pow2 b"
  by (simp add: pow2_powi power_int_add)

lemma pow2_mono: "a \<le> b \<Longrightarrow> pow2 a \<le> pow2 b"
  by (simp add: pow2_powi power_int_increasing)

lemma pow2_nat: "pow2 (int n) = 2 ^ n"
  by (simp add: pow2_def)

lemma pow2_neg_nat: "pow2 (- int n) = 1 / 2 ^ n"
  by (simp add: pow2_powi power_int_minus divide_inverse)

lemma exponent_bounds:
  assumes "0 < a"
  shows "pow2 (exponent a) \<le> a" and "a < pow2 (exponent a + 1)"
proof -
  have "pow2 (exponent a) \<le> a \<and> a < pow2 (exponent a + 1)"
  proof (cases "1 \<le> a")
    case True
    define n where "n = nat \<lfloor>a\<rfloor>"
    from True have n: "0 < n" "of_nat n \<le> a" "a < of_nat n + 1"
      by (simp_all add: n_def) linarith+
    from bits_bounds [OF n(1)] have b: "2 ^ (bits n - 1) \<le> n" "n + 1 \<le> 2 ^ bits n"
      by auto
    from n(1) have bp: "0 < bits n" by (simp add: bits_pos)
    have e: "exponent a = int (bits n - 1)"
      using True bp by (simp add: exponent_def n_def)
    have "pow2 (exponent a) = of_nat (2 ^ (bits n - 1))"
      by (simp add: e pow2_nat)
    also have "\<dots> \<le> of_nat n" using b(1) by (simp only: of_nat_le_iff)
    finally have lo: "pow2 (exponent a) \<le> a" using n(2) by simp
    have "exponent a + 1 = int (bits n)" using bp by (simp add: e)
    then have "pow2 (exponent a + 1) = of_nat (2 ^ bits n)"
      by (simp add: pow2_nat)
    moreover have "(of_nat (n + 1) :: rat) \<le> of_nat (2 ^ bits n)"
      using b(2) by (simp only: of_nat_le_iff)
    ultimately have "a < pow2 (exponent a + 1)" using n(3) by simp
    with lo show ?thesis by simp
  next
    case False
    define t where "t = 1 / a"
    define k where "k = nat (\<lceil>t\<rceil> - 1)"
    from False assms have t1: "1 < t" by (simp add: t_def)
    then have c: "2 \<le> \<lceil>t\<rceil>" by linarith
    then have k: "0 < k" "of_nat k < t" "t \<le> of_nat k + 1"
      by (simp_all add: k_def) linarith+
    from bits_bounds [OF k(1)] have b: "2 ^ (bits k - 1) \<le> k" "k + 1 \<le> 2 ^ bits k"
      by auto
    from k(1) have bp: "0 < bits k" by (simp add: bits_pos)
    have e: "exponent a = - int (bits k)"
      using False by (simp add: exponent_def k_def t_def)
    have "(of_nat (k + 1) :: rat) \<le> of_nat (2 ^ bits k)"
      using b(2) by (simp only: of_nat_le_iff)
    with k(3) have "t \<le> 2 ^ bits k" by simp
    then have "1 / 2 ^ bits k \<le> a"
      using assms by (simp add: t_def field_simps)
    then have lo: "pow2 (exponent a) \<le> a"
      by (simp add: e pow2_neg_nat)
    have "(of_nat (2 ^ (bits k - 1)) :: rat) \<le> of_nat k"
      using b(1) by (simp only: of_nat_le_iff)
    then have "(2::rat) ^ (bits k - 1) \<le> of_nat k" by simp
    with k(2) have "2 ^ (bits k - 1) < t" by linarith
    then have "a < 1 / 2 ^ (bits k - 1)"
      using assms by (simp add: t_def field_simps)
    moreover have "exponent a + 1 = - int (bits k - 1)" using bp by (simp add: e)
    ultimately have "a < pow2 (exponent a + 1)"
      by (simp add: pow2_neg_nat)
    with lo show ?thesis by simp
  qed
  then show "pow2 (exponent a) \<le> a" and "a < pow2 (exponent a + 1)" by simp_all
qed

lemma round_half_even_near: "\<bar>of_int (round_half_even q) - q\<bar> \<le> 1 / 2"
proof -
  define f where "f = \<lfloor>q\<rfloor>"
  have "of_int f \<le> q" "q < of_int f + 1" unfolding f_def by linarith+
  then show ?thesis
    unfolding round_half_even_def Let_def f_def [symmetric]
    by (auto simp: abs_if)
qed

lemma round_half_even_int: "round_half_even (of_int m) = m"
  by (simp add: round_half_even_def)

lemma round_half_even_mono: "p \<le> q \<Longrightarrow> round_half_even p \<le> round_half_even q"
proof -
  assume pq: "p \<le> q"
  have fl: "\<lfloor>p\<rfloor> \<le> \<lfloor>q\<rfloor>" using pq by (rule floor_mono)
  have bp: "of_int \<lfloor>p\<rfloor> \<le> p" "p < of_int \<lfloor>p\<rfloor> + 1" by linarith+
  have bq: "of_int \<lfloor>q\<rfloor> \<le> q" "q < of_int \<lfloor>q\<rfloor> + 1" by linarith+
  show ?thesis
  proof (cases "\<lfloor>p\<rfloor> = \<lfloor>q\<rfloor>")
    case True
    with pq show ?thesis
      by (auto simp: round_half_even_def Let_def)
  next
    case False
    with fl have "\<lfloor>p\<rfloor> + 1 \<le> \<lfloor>q\<rfloor>" by simp
    moreover have "round_half_even p \<le> \<lfloor>p\<rfloor> + 1"
      by (simp add: round_half_even_def Let_def)
    moreover have "\<lfloor>q\<rfloor> \<le> round_half_even q"
      by (simp add: round_half_even_def Let_def)
    ultimately show ?thesis by linarith
  qed
qed


lemma pow2_less_imp: "pow2 a < pow2 b \<Longrightarrow> a < b"
  using pow2_mono [of b a] by (cases "a < b") auto

lemma pow2_half: "pow2 e / 2 = pow2 (e - 1)"
  using pow2_add [of "e - 1" 1] by (simp add: pow2_def [of 1])

lemma nearest_double_pos:
  assumes "0 < x"
  shows "nearest_double x =
     (if 1024 \<le> max (exponent x) (- 1022)
         \<or> (max (exponent x) (- 1022) = 1023
            \<and> round_half_even (x / pow2 (max (exponent x) (- 1022) - 52)) = 2 ^ 53)
      then Infinity
      else Finite (of_int (round_half_even (x / pow2 (max (exponent x) (- 1022) - 52)))
                   * pow2 (max (exponent x) (- 1022) - 52)))"
proof -
  from assms have "x \<noteq> 0" "\<bar>x\<bar> = x" by simp_all
  with assms show ?thesis
    unfolding nearest_double_def Let_def by (simp only: if_False if_True)
qed

lemma nearest_double_near:
  assumes "0 \<le> x" "x < pow2 E" "- 1021 \<le> E" "E \<le> 1023"
  shows "\<exists>y. nearest_double x = Finite y \<and> 0 \<le> y \<and> \<bar>y - x\<bar> \<le> pow2 (E - 54)"
proof (cases "x = 0")
  case True
  then show ?thesis
    using pow2_pos [of "E - 54"] by (simp add: nearest_double_def)
next
  case False
  with assms have pos: "0 < x" by simp
  define e where "e = max (exponent x) (- 1022)"
  define m where "m = round_half_even (x / pow2 (e - 52))"
  from exponent_bounds(1) [OF pos] assms(2) have "pow2 (exponent x) < pow2 E" by simp
  then have "exponent x < E" by (rule pow2_less_imp)
  with assms(3,4) have e: "e \<le> E - 1" "e \<le> 1022" by (simp_all add: e_def)
  have u: "0 < pow2 (e - 52)" by (rule pow2_pos)
  from pos u have "0 \<le> x / pow2 (e - 52)" by simp
  from round_half_even_mono [OF this] have m0: "0 \<le> m"
    using round_half_even_int [of 0] by (simp add: m_def)
  have "\<bar>of_int m - x / pow2 (e - 52)\<bar> \<le> 1 / 2"
    unfolding m_def by (rule round_half_even_near)
  then have "\<bar>of_int m - x / pow2 (e - 52)\<bar> * pow2 (e - 52) \<le> 1 / 2 * pow2 (e - 52)"
    using u by (simp only: mult_le_cancel_right_pos)
  moreover have "\<bar>of_int m - x / pow2 (e - 52)\<bar> * pow2 (e - 52)
      = \<bar>of_int m * pow2 (e - 52) - x\<bar>"
  proof -
    have "\<bar>of_int m - x / pow2 (e - 52)\<bar> * pow2 (e - 52)
        = \<bar>(of_int m - x / pow2 (e - 52)) * pow2 (e - 52)\<bar>"
      using u by (simp only: abs_mult abs_of_pos)
    also have "(of_int m - x / pow2 (e - 52)) * pow2 (e - 52) = of_int m * pow2 (e - 52) - x"
      using u by (simp add: left_diff_distrib)
    finally show ?thesis .
  qed
  ultimately have "\<bar>of_int m * pow2 (e - 52) - x\<bar> \<le> pow2 (e - 52) / 2" by simp
  also have "\<dots> = pow2 (e - 53)" by (simp add: pow2_half)
  also have "\<dots> \<le> pow2 (E - 54)" using e(1) by (intro pow2_mono) simp
  finally have near: "\<bar>of_int m * pow2 (e - 52) - x\<bar> \<le> pow2 (E - 54)" .
  have "nearest_double x = Finite (of_int m * pow2 (e - 52))"
    using e(2) by (simp add: nearest_double_pos [OF pos] e_def [symmetric] m_def [symmetric])
  moreover have "0 \<le> of_int m * pow2 (e - 52)" using m0 u by simp
  ultimately show ?thesis using near by simp
qed

lemma nearest_double_exact:
  assumes "0 < x" "exponent x \<le> 1023"
    and "x / pow2 (max (exponent x) (- 1022) - 52) = of_int m"
  shows "nearest_double x = Finite x"
proof -
  define e where "e = max (exponent x) (- 1022)"
  have u: "0 < pow2 (e - 52)" by (rule pow2_pos)
  from assms(3) u have x: "x = of_int m * pow2 (e - 52)"
    by (simp add: e_def field_simps)
  from assms(2) have e: "e \<le> 1023" by (simp add: e_def)
  have r: "round_half_even (x / pow2 (e - 52)) = m"
    using assms(3) by (simp add: e_def round_half_even_int)
  have no: "\<not> (e = 1023 \<and> m = 2 ^ 53)"
  proof
    assume a: "e = 1023 \<and> m = 2 ^ 53"
    then have ex: "exponent x = 1023" by (simp add: e_def max_def split: if_splits)
    from a x have "x = pow2 53 * pow2 (1023 - 52)" by (simp add: pow2_def)
    also have "\<dots> = pow2 1024" by (simp add: pow2_add [symmetric])
    finally have "x = pow2 1024" .
    moreover have "x < pow2 1024"
      using exponent_bounds(2) [OF assms(1)] by (simp only: ex) simp
    ultimately show False by simp
  qed
  have "nearest_double x =
     (if 1024 \<le> e \<or> (e = 1023 \<and> round_half_even (x / pow2 (e - 52)) = 2 ^ 53)
      then Infinity
      else Finite (of_int (round_half_even (x / pow2 (e - 52))) * pow2 (e - 52)))"
    by (simp only: nearest_double_pos [OF assms(1)] e_def)
  also have "\<dots> = Finite (of_int m * pow2 (e - 52))"
    using e no by (simp only: r) auto
  finally show ?thesis
    by (simp only: x [symmetric])
qed

lemma exponent_of_nat:
  assumes "0 < n"
  shows "0 \<le> exponent (of_nat n)" and "n < 2 ^ k \<Longrightarrow> exponent (of_nat n) < int k"
proof -
  from assms have one: "(1::rat) \<le> of_nat n" by simp
  then show "0 \<le> exponent (of_nat n)"
    using assms by (simp add: exponent_def bits_pos)
  assume "n < 2 ^ k"
  then have "(of_nat n :: rat) < of_nat (2 ^ k)" by (simp only: of_nat_less_iff)
  then have "(of_nat n :: rat) < pow2 (int k)" by (simp add: pow2_nat)
  moreover have "pow2 (exponent (of_nat n)) \<le> of_nat n"
    using assms by (intro exponent_bounds) simp
  ultimately have "pow2 (exponent (of_nat n)) < pow2 (int k)" by simp
  then show "exponent (of_nat n) < int k" by (rule pow2_less_imp)
qed

lemma nearest_double_of_nat:
  assumes "n < 2 ^ 53"
  shows "nearest_double (of_nat n) = Finite (of_nat n)"
proof (cases "n = 0")
  case True
  then show ?thesis by (simp add: nearest_double_def)
next
  case False
  then have pos: "0 < n" by simp
  define e where "e = exponent (of_nat n)"
  from exponent_of_nat(1) [OF pos] have e0: "0 \<le> e"
    by (simp add: e_def)
  from exponent_of_nat(2) [OF pos, of 53] assms have "e < 53"
    by (simp add: e_def)
  note e = e0 this
  have "pow2 (52 - e) = of_int (2 ^ nat (52 - e))"
    using e by (simp add: pow2_def)
  moreover have "1 / pow2 (e - 52) = pow2 (52 - e)"
    using pow2_add [of "e - 52" "52 - e"] pow2_pos [of "e - 52"]
    by (simp add: pow2_def [of 0] field_simps)
  ultimately have "of_nat n / pow2 (max e (- 1022) - 52)
      = (of_int (int n * 2 ^ nat (52 - e)) :: rat)"
    using e by (simp add: max_def divide_inverse)
  then show ?thesis
    using pos e by (intro nearest_double_exact [where m = "int n * 2 ^ nat (52 - e)"])
      (simp_all add: e_def)
qed




lemma exponent_mono:
  assumes "0 < x" "x \<le> y"
  shows "exponent x \<le> exponent y"
proof -
  from assms have "0 < y" by simp
  from exponent_bounds(1) [OF assms(1)] assms(2) exponent_bounds(2) [OF this]
  have "pow2 (exponent x) < pow2 (exponent y + 1)" by simp
  then have "exponent x < exponent y + 1" by (rule pow2_less_imp)
  then show ?thesis by simp
qed

lemma nearest_double_mono:
  assumes "0 \<le> x" "x \<le> y"
    and "nearest_double x = Finite p" "nearest_double y = Finite q"
  shows "p \<le> q"
proof (cases "y = 0")
  case True
  with assms show ?thesis by (simp add: nearest_double_def)
next
  case False
  with assms have ypos: "0 < y" by simp
  define ey where "ey = max (exponent y) (- 1022)"
  define my where "my = round_half_even (y / pow2 (ey - 52))"
  have uy: "0 < pow2 (ey - 52)" by (rule pow2_pos)
  have "nearest_double y =
     (if 1024 \<le> ey \<or> (ey = 1023 \<and> my = 2 ^ 53) then Infinity
      else Finite (of_int my * pow2 (ey - 52)))"
    by (simp only: nearest_double_pos [OF ypos] ey_def my_def)
  with assms(4) have q: "q = of_int my * pow2 (ey - 52)"
    by (metis jsnumber.inject jsnumber.distinct(1))
  from ypos uy have "0 \<le> y / pow2 (ey - 52)" by simp
  from round_half_even_mono [OF this] have "0 \<le> my"
    using round_half_even_int [of 0] by (simp add: my_def)
  with uy q have q0: "0 \<le> q" by simp
  show ?thesis
  proof (cases "x = 0")
    case True
    with assms(3) q0 show ?thesis by (simp add: nearest_double_def)
  next
    case False
    with assms have xpos: "0 < x" by simp
    define ex where "ex = max (exponent x) (- 1022)"
    define mx where "mx = round_half_even (x / pow2 (ex - 52))"
    have ux: "0 < pow2 (ex - 52)" by (rule pow2_pos)
    have "nearest_double x =
       (if 1024 \<le> ex \<or> (ex = 1023 \<and> mx = 2 ^ 53) then Infinity
        else Finite (of_int mx * pow2 (ex - 52)))"
      by (simp only: nearest_double_pos [OF xpos] ex_def mx_def)
    with assms(3) have p: "p = of_int mx * pow2 (ex - 52)"
      by (metis jsnumber.inject jsnumber.distinct(1))
    from exponent_mono [OF xpos assms(2)] have le: "ex \<le> ey"
      by (simp add: ex_def ey_def)
    show ?thesis
    proof (cases "ex = ey")
      case True
      from assms(2) uy have "x / pow2 (ey - 52) \<le> y / pow2 (ey - 52)"
        by (simp add: divide_right_mono)
      from round_half_even_mono [OF this] have "mx \<le> my"
        by (simp add: mx_def my_def True)
      then have "(of_int mx :: rat) \<le> of_int my" by simp
      with uy show ?thesis
        by (simp add: p q True mult_right_mono)
    next
      case False
      with le have less: "ex < ey" by simp
      then have ey: "ey = exponent y" by (simp add: ex_def ey_def max_def split: if_splits)
      have "pow2 52 * pow2 (ey - 52) = pow2 ey"
        by (simp add: pow2_add [symmetric])
      with exponent_bounds(1) [OF ypos] uy have "pow2 52 \<le> y / pow2 (ey - 52)"
        by (simp add: ey pos_le_divide_eq)
      then have "(of_int (2 ^ 52) :: rat) \<le> y / pow2 (ey - 52)"
        by (simp add: pow2_def)
      from round_half_even_mono [OF this] have "2 ^ 52 \<le> my"
        by (simp only: round_half_even_int my_def)
      then have "(of_int (2 ^ 52) :: rat) \<le> of_int my" by (simp only: of_int_le_iff)
      then have "pow2 52 \<le> of_int my" by (simp add: pow2_def)
      then have "pow2 52 * pow2 (ey - 52) \<le> of_int my * pow2 (ey - 52)"
        using uy by (simp only: mult_le_cancel_right_pos)
      then have lo: "pow2 ey \<le> q"
        by (simp add: q pow2_add [symmetric])
      have "exponent x + 1 \<le> ex + 1" by (simp add: ex_def)
      then have "pow2 (exponent x + 1) \<le> pow2 (ex + 1)" by (rule pow2_mono)
      with exponent_bounds(2) [OF xpos] have "x < pow2 (ex + 1)" by simp
      moreover have "pow2 53 * pow2 (ex - 52) = pow2 (ex + 1)"
        by (simp add: pow2_add [symmetric] add.commute)
      ultimately have "x / pow2 (ex - 52) \<le> pow2 53"
        using ux by (simp add: pos_divide_le_eq)
      then have "x / pow2 (ex - 52) \<le> of_int (2 ^ 53)"
        by (simp add: pow2_def)
      from round_half_even_mono [OF this] have "mx \<le> 2 ^ 53"
        by (simp only: round_half_even_int mx_def)
      then have "(of_int mx :: rat) \<le> of_int (2 ^ 53)" by (simp only: of_int_le_iff)
      then have "of_int mx \<le> pow2 53" by (simp add: pow2_def)
      then have "of_int mx * pow2 (ex - 52) \<le> pow2 53 * pow2 (ex - 52)"
        using ux by (simp only: mult_le_cancel_right_pos)
      then have "p \<le> pow2 (ex + 1)"
        by (simp add: p pow2_add [symmetric] add.commute)
      also have "\<dots> \<le> pow2 ey" using less by (intro pow2_mono) simp
      finally show ?thesis using lo by simp
    qed
  qed
qed

lemma percentage_near:
  assumes "k \<le> n" "0 < n"
  shows "\<exists>r. percentage k n = Finite r \<and> 0 \<le> r
           \<and> \<bar>r - of_nat k / of_nat n * 100\<bar> \<le> 1 / 2 ^ 45"
proof -
  define x :: rat where "x = of_nat k / of_nat n"
  from assms have x: "0 \<le> x" "x \<le> 1" by (simp_all add: x_def)
  then have "x < pow2 1" by (simp add: pow2_def)
  from nearest_double_near [OF x(1) this] obtain q where
    q: "nearest_double x = Finite q" "0 \<le> q" "\<bar>q - x\<bar> \<le> pow2 (- 53)"
    by auto
  from q(3) x have "q * 100 < pow2 7" by (simp add: pow2_def abs_if split: if_splits)
  moreover from q(2) have "0 \<le> q * 100" by simp
  ultimately obtain r where
    r: "nearest_double (q * 100) = Finite r" "0 \<le> r" "\<bar>r - q * 100\<bar> \<le> pow2 (- 47)"
    using nearest_double_near [of "q * 100" 7] by auto
  from q(3) r(3) have "\<bar>r - x * 100\<bar> \<le> 1 / 2 ^ 45"
    by (simp add: pow2_def abs_if split: if_splits)
  moreover have "percentage k n = Finite r"
    using assms q(1) r(1) by (simp add: percentage_def x_def)
  ultimately show ?thesis using r(2) by (auto simp: x_def)
qed

lemma exponent_unique:
  assumes "pow2 e \<le> x" "x < pow2 (e + 1)"
  shows "exponent x = e"
proof -
  from assms(1) pow2_pos [of e] have pos: "0 < x" by simp
  from exponent_bounds(1) [OF pos] assms(2) have "pow2 (exponent x) < pow2 (e + 1)" by simp
  then have "exponent x < e + 1" by (rule pow2_less_imp)
  moreover from exponent_bounds(2) [OF pos] assms(1) have "pow2 e < pow2 (exponent x + 1)"
    by simp
  then have "e < exponent x + 1" by (rule pow2_less_imp)
  ultimately show ?thesis by simp
qed

lemma round_half_even_eq:
  assumes "\<bar>q - of_int m\<bar> < 1 / 2"
  shows "round_half_even q = m"
proof -
  from round_half_even_near [of q] assms
  have "\<bar>(of_int (round_half_even q) :: rat) - of_int m\<bar> < 1" by linarith
  then have "\<bar>(of_int (round_half_even q - m) :: rat)\<bar> < of_int 1" by simp
  then have "\<bar>round_half_even q - m\<bar> < 1"
    by (simp only: of_int_abs [symmetric] of_int_less_iff)
  then show ?thesis by simp
qed

lemma round_half_even_tie:
  assumes "q = of_int f + 1 / 2"
  shows "round_half_even q = (if even f then f else f + 1)"
proof -
  from assms have "\<lfloor>q\<rfloor> = f" by (intro floor_unique) simp_all
  with assms show ?thesis by (simp add: round_half_even_def)
qed

lemma nearest_double_eval:
  assumes "pow2 e \<le> x" "x < pow2 (e + 1)" "- 1022 \<le> e" "e \<le> 1022"
    and near: "\<bar>x / pow2 (e - 52) - of_int m\<bar> < 1 / 2"
  shows "nearest_double x = Finite (of_int m * pow2 (e - 52))"
proof -
  note m = round_half_even_eq [OF near]
  from assms(1) pow2_pos [of e] have pos: "0 < x" by simp
  from exponent_unique [OF assms(1,2)] assms(3) have e: "max (exponent x) (- 1022) = e"
    by simp
  show ?thesis
    using assms(4) by (simp only: nearest_double_pos [OF pos] e m) simp
qed

lemma nearest_double_eval_tie:
  assumes "pow2 e \<le> x" "x < pow2 (e + 1)" "- 1022 \<le> e" "e \<le> 1022"
    and tie: "x / pow2 (e - 52) = of_int f + 1 / 2"
  shows "nearest_double x = Finite (of_int (if even f then f else f + 1) * pow2 (e - 52))"
proof -
  note m = round_half_even_tie [OF tie]
  from assms(1) pow2_pos [of e] have pos: "0 < x" by simp
  from exponent_unique [OF assms(1,2)] assms(3) have e: "max (exponent x) (- 1022) = e"
    by simp
  show ?thesis
    using assms(4) by (simp only: nearest_double_pos [OF pos] e m) simp
qed

lemma double_small: "nearest_double (1 / 2 ^ 32) = Finite (1 / 2 ^ 32)"
  using nearest_double_eval [of "- 32" "1 / 2 ^ 32" "2 ^ 52"]
  by (simp add: pow2_def)

lemma double_below_one: "nearest_double (1 - 1 / 2 ^ 32) = Finite (1 - 1 / 2 ^ 32)"
  using nearest_double_eval [of "- 1" "1 - 1 / 2 ^ 32" "2 ^ 53 - 2 ^ 21"]
  by (simp add: pow2_def)

lemma double_small_percentage: "nearest_double (1 / 2 ^ 26) = Finite (1 / 2 ^ 26)"
  using nearest_double_eval [of "- 26" "1 / 2 ^ 26" "2 ^ 52"]
  by (simp add: pow2_def)

lemma double_below_hundred: "nearest_double (100 - 1 / 2 ^ 26) = Finite (100 - 1 / 2 ^ 26)"
  using nearest_double_eval [of 6 "100 - 1 / 2 ^ 26" "100 * 2 ^ 46 - 2 ^ 20"]
  by (simp add: pow2_def)

lemma two_thirds_times_hundred:
  "js_mul (js_div (Finite 2) (Finite 3)) (Finite 100) = Finite (2345624805922133 / 2 ^ 45)"
proof -
  have "nearest_double (2 / 3) = Finite (6004799503160661 / 2 ^ 53)"
    using nearest_double_eval [of "- 1" "2 / 3" 6004799503160661]
    by (simp add: pow2_def)
  moreover have "nearest_double (6004799503160661 / 2 ^ 53 * 100)
      = Finite (2345624805922133 / 2 ^ 45)"
    using nearest_double_eval [of 6 "6004799503160661 / 2 ^ 53 * 100" 4691249611844266]
    by (simp add: pow2_def)
  ultimately show ?thesis by simp
qed

lemma percentage_order:
  assumes "k \<le> n" "0 < n" "n < 2 ^ 32"
  shows "\<exists>r. percentage k n = Finite r \<and> 0 \<le> r \<and> r \<le> 100
           \<and> (r = 0 \<longleftrightarrow> k = 0) \<and> (r < 100 \<longleftrightarrow> k < n)"
proof -
  consider "k = 0" | "k = n" | "0 < k" "k < n" using assms(1) by linarith
  then show ?thesis
  proof cases
    case 1
    with assms show ?thesis by (simp add: percentage_def nearest_double_def)
  next
    case 2
    have "nearest_double 1 = Finite 1" "nearest_double 100 = Finite 100"
      using nearest_double_of_nat [of 1] nearest_double_of_nat [of 100] by simp_all
    with 2 assms show ?thesis by (simp add: percentage_def)
  next
    case 3
    define x :: rat where "x = of_nat k / of_nat n"
    from 3 assms have kn: "(1::rat) \<le> of_nat k" "(of_nat k :: rat) \<le> of_nat n - 1"
      "(of_nat n :: rat) \<le> 2 ^ 32" "(0::rat) < of_nat n"
    proof -
      from 3 show "(1::rat) \<le> of_nat k" by simp
      from 3 have "k \<le> n - 1" by simp
      then have "(of_nat k :: rat) \<le> of_nat (n - 1)" by (simp only: of_nat_le_iff)
      with assms(2) show "(of_nat k :: rat) \<le> of_nat n - 1" by (simp add: of_nat_diff)
      from assms(3) have "n \<le> 2 ^ 32" by simp
      then have "(of_nat n :: rat) \<le> of_nat (2 ^ 32)" by (simp only: of_nat_le_iff)
      then show "(of_nat n :: rat) \<le> 2 ^ 32" by simp
      from assms(2) show "(0::rat) < of_nat n" by simp
    qed
    have inv: "(1::rat) / 2 ^ 32 \<le> 1 / of_nat n"
      using kn(3,4) by (intro frac_le) simp_all
    have "(1::rat) / 2 ^ 32 \<le> of_nat k / of_nat n"
      using kn by (intro frac_le) simp_all
    moreover have "(of_nat k :: rat) / of_nat n \<le> (of_nat n - 1) / of_nat n"
      using kn(2,4) by (simp add: divide_right_mono)
    moreover have "((of_nat n :: rat) - 1) / of_nat n = 1 - 1 / of_nat n"
      using kn(4) by (simp add: field_simps)
    ultimately have x: "1 / 2 ^ 32 \<le> x" "x \<le> 1 - 1 / 2 ^ 32"
      using inv unfolding x_def by linarith+
    then have x0: "0 \<le> x" "x < pow2 1" by (simp_all add: pow2_def)
    from nearest_double_near [OF this] obtain q where
      q: "nearest_double x = Finite q" "0 \<le> q" by auto
    from nearest_double_mono [OF _ x(1) double_small q(1)]
    have qlo: "1 / 2 ^ 32 \<le> q" by simp
    from nearest_double_mono [OF x0(1) x(2) q(1) double_below_one]
    have qhi: "q \<le> 1 - 1 / 2 ^ 32" .
    from qlo qhi have y: "1 / 2 ^ 26 \<le> q * 100" "q * 100 \<le> 100 - 1 / 2 ^ 26"
      by simp_all
    then have y0: "0 \<le> q * 100" "q * 100 < pow2 7" by (simp_all add: pow2_def)
    from nearest_double_near [OF this] obtain r where
      r: "nearest_double (q * 100) = Finite r" "0 \<le> r" by auto
    from nearest_double_mono [OF _ y(1) double_small_percentage r(1)]
    have rlo: "1 / 2 ^ 26 \<le> r" by simp
    from nearest_double_mono [OF y0(1) y(2) r(1) double_below_hundred]
    have rhi: "r \<le> 100 - 1 / 2 ^ 26" .
    have "percentage k n = Finite r"
      using assms q(1) r(1) by (simp add: percentage_def x_def)
    with rlo rhi 3 show ?thesis by simp
  qed
qed

section \<open>Aggregating production data\<close>

lemma fetch_source_message:
  "fetch_source env fromDate toDate src = Inl e \<Longrightarrow> message e \<noteq> []"
  by (auto simp: fetch_source_def getIoTProductionData_def getGovernmentEnergyData_def
      getThirdPartyVerification_def split: if_splits sum.splits)

lemma fetch_source_no_error:
  "fetch_source env fromDate toDate src = Inr v \<Longrightarrow> no_error v"
  by (auto simp: fetch_source_def getIoTProductionData_def getGovernmentEnergyData_def
      getThirdPartyVerification_def split: if_splits sum.splits)

lemma no_error_source_promise:
  "no_error (source_promise env fromDate toDate src) = succeeds env fromDate toDate src"
  by (cases "fetch_source env fromDate toDate src")
     (auto simp: source_promise_def succeeds_def dest: fetch_source_message fetch_source_no_error)

lemma valid_results:
  "filter no_error (map (source_promise env fromDate toDate) sources)
     = map (source_promise env fromDate toDate) (filter (succeeds env fromDate toDate) sources)"
  by (induction sources) (simp_all add: no_error_source_promise)

lemma reduce_binary64:
  "foldl (\<lambda>sum result. if P result then js_add sum (g result) else sum) acc rs
     = foldl js_add acc (map g (filter P rs))"
  by (induction rs arbitrary: acc) simp_all

lemma promise_number:
  assumes "succeeds env fromDate toDate src"
  shows "js_truthy (number_totalProduction (source_promise env fromDate toDate src))
           = js_truthy (Some (nearest_double (reported_total env fromDate toDate src)))"
    and "js_truthy (number_totalProduction (source_promise env fromDate toDate src)) \<Longrightarrow>
         the (number_totalProduction (source_promise env fromDate toDate src))
           = nearest_double (reported_total env fromDate toDate src)"
  using assms
  by (auto simp: succeeds_def source_promise_def reported_total_def number_totalProduction_def
      nearest_double_def split: sum.splits option.splits)

lemma counted_of_valid:
  "map (\<lambda>r. the (number_totalProduction r))
     (filter (\<lambda>r. js_truthy (number_totalProduction r))
        (map (source_promise env fromDate toDate)
           (filter (succeeds env fromDate toDate) sources)))
   = counted_totals env fromDate toDate sources"
  unfolding counted_totals_def
  by (induction sources) (auto simp: promise_number)

lemma aggregation_binary64:
  "\<exists>agg. getAggregatedProductionData_binary64 env sources fromDate toDate = Inr agg
     \<and> b64_totalProduction agg
         = foldl js_add (Finite 0) (counted_totals env fromDate toDate sources)
     \<and> b64_sourcesUsed agg = length (filter (succeeds env fromDate toDate) sources)
     \<and> b64_dataReliability agg
         = percentage (length (filter (succeeds env fromDate toDate) sources)) (length sources)"
  unfolding getAggregatedProductionData_binary64_def Let_def valid_results
    reduce_binary64 counted_of_valid length_number_def percentage_def
  by simp

lemma sum_of_totals_exact:
  assumes "\<forall>x \<in> set xs. \<exists>n. x = of_nat n"
    and "of_nat a + sum_list xs < 2 ^ 53"
  shows "foldl js_add (Finite (of_nat a))
           (filter (\<lambda>x. js_truthy (Some x)) (map nearest_double xs))
         = Finite (of_nat a + sum_list xs)"
  using assms
proof (induction xs arbitrary: a)
  case Nil
  then show ?case by simp
next
  case (Cons x xs)
  from Cons.prems(1) obtain n where n: "x = of_nat n" by auto
  from Cons.prems(1) have nats: "\<forall>x \<in> set xs. \<exists>n. x = of_nat n" by simp
  have rest: "0 \<le> sum_list xs"
    using nats by (intro sum_list_nonneg) auto
  from Cons.prems(2) rest have "(of_nat (a + n) :: rat) < of_nat (2 ^ 53)"
    by (simp add: n)
  then have an: "a + n < 2 ^ 53" by (simp only: of_nat_less_iff)
  then have dn: "nearest_double (of_nat n) = Finite (of_nat n)"
    by (intro nearest_double_of_nat) simp
  from an have dan: "nearest_double (of_nat (a + n)) = Finite (of_nat (a + n))"
    by (rule nearest_double_of_nat)
  from Cons.prems(2) have bound: "of_nat (a + n) + sum_list xs < 2 ^ 53"
    by (simp add: n add.assoc)
  show ?case
  proof (cases "n = 0")
    case True
    with Cons.IH [OF nats, of a] Cons.prems(2) show ?thesis
      by (simp add: n nearest_double_def)
  next
    case False
    with Cons.IH [OF nats bound] dn dan show ?thesis
      by (simp add: n add.assoc)
  qed
qed

lemma reported_total_exact:
  assumes "\<forall>src \<in> set sources. succeeds env fromDate toDate src \<longrightarrow>
             (\<exists>n. reported_total env fromDate toDate src = of_nat n)"
    and "sum_list (map (reported_total env fromDate toDate)
           (filter (succeeds env fromDate toDate) sources)) < 2 ^ 53"
  shows "foldl js_add (Finite 0) (counted_totals env fromDate toDate sources)
         = Finite (sum_list (map (reported_total env fromDate toDate)
             (filter (succeeds env fromDate toDate) sources)))"
proof -
  let ?xs = "map (reported_total env fromDate toDate)
               (filter (succeeds env fromDate toDate) sources)"
  from assms(1) have "\<forall>x \<in> set ?xs. \<exists>n. x = of_nat n" by auto
  from sum_of_totals_exact [OF this, of 0] assms(2) show ?thesis
    by (simp add: counted_totals_def o_def)
qed

text \<open>
  C4, amended. Aggregation never fails because sources fail: the call always returns a
  result, whose \<open>sourcesUsed\<close> is the number of succeeding sources. For a non-empty
  list of sources \<open>dataReliability\<close> is a percentage between 0 and 100; it is 0 exactly
  when zero sources succeed and below 100 exactly when at least one source fails.
\<close>

theorem aggregation_never_unavailable:
  "\<exists>agg. getAggregatedProductionData env sources fromDate toDate = Inr agg
     \<and> ag_sourcesUsed agg = length (filter (succeeds env fromDate toDate) sources)
     \<and> (sources \<noteq> [] \<longrightarrow> (\<exists>r. ag_dataReliability agg = Some r \<and> 0 \<le> r \<and> r \<le> 100
           \<and> (r = 0 \<longleftrightarrow> filter (succeeds env fromDate toDate) sources = [])
           \<and> (r < 100 \<longleftrightarrow> (\<exists>src \<in> set sources. \<not> succeeds env fromDate toDate src))))"
proof -
  let ?ok = "filter (succeeds env fromDate toDate) sources"
  have le: "length ?ok \<le> length sources" by simp
  show ?thesis
  proof (cases "sources = []")
    case True
    then show ?thesis
      by (simp add: getAggregatedProductionData_def Let_def valid_results)
  next
    case False
    then have pos: "0 < (of_nat (length sources) :: rat)" by simp
    have r1: "(of_nat (length ?ok) :: rat) / of_nat (length sources) * 100 \<le> 100"
      using le pos by (simp add: divide_le_eq)
    have r2: "((of_nat (length ?ok) :: rat) / of_nat (length sources) * 100 < 100)
        \<longleftrightarrow> length ?ok < length sources"
      using pos by (simp add: divide_less_eq)
    have r3: "((of_nat (length ?ok) :: rat) / of_nat (length sources) * 100 = 0) \<longleftrightarrow> ?ok = []"
      using False by simp
    have r4: "length ?ok < length sources
        \<longleftrightarrow> (\<exists>src \<in> set sources. \<not> succeeds env fromDate toDate src)"
    proof
      assume less: "length ?ok < length sources"
      show "\<exists>src \<in> set sources. \<not> succeeds env fromDate toDate src"
      proof (rule ccontr)
        assume "\<not> (\<exists>src \<in> set sources. \<not> succeeds env fromDate toDate src)"
        then have "?ok = sources" by (simp add: filter_id_conv)
        with less show False by simp
      qed
    next
      assume "\<exists>src \<in> set sources. \<not> succeeds env fromDate toDate src"
      then show "length ?ok < length sources"
        by (auto intro: length_filter_less)
    qed
    show ?thesis
      using False r1 r2 r3 r4
      by (simp add: getAggregatedProductionData_def Let_def valid_results)
  qed
qed

lemma failing_aggregation:
  "getAggregatedProductionData demo_platforms failing_sources 1700000000000 1700003600000 =
     Inr \<lparr>ag_sources =
            [SourceError ''IoT data retrieval failed: timeout of 15000ms exceeded'' ''dev-2'',
             SourceError ''Third-party verification failed: Network Error'' ''ver-7''],
          ag_totalProduction = 0, ag_averageQuality = 0, ag_sourcesUsed = 0,
          ag_dataReliability = Some 0\<rparr>"
  by (simp add: getAggregatedProductionData_def demo_platforms_def failing_sources_def
      source_promise_def fetch_source_def getIoTProductionData_def
      getThirdPartyVerification_def truthy_def Let_def)

lemma demo_succeeding:
  "filter (succeeds demo_platforms 1700000000000 1700003600000) demo_sources
     = [\<lparr>src_type = ''iot'', src_id = ''dev-1'', src_projectId = None\<rparr>,
        \<lparr>src_type = ''government'', src_id = ''fac-1'', src_projectId = None\<rparr>]"
  by (simp add: succeeds_def demo_platforms_def demo_sources_def fetch_source_def
      getIoTProductionData_def getGovernmentEnergyData_def)

lemma failing_succeeding:
  "filter (succeeds demo_platforms 1700000000000 1700003600000) failing_sources = []"
  by (simp add: succeeds_def demo_platforms_def failing_sources_def fetch_source_def
      getIoTProductionData_def getThirdPartyVerification_def)

text \<open>
  C4, as stated, fails: with two sources that both fail, zero sources succeed, and the
  call does not fail with \<open>Unavailable\<close>; it returns a result with \<open>sourcesUsed = 0\<close> and
  \<open>dataReliability = 0\<close>.
\<close>

theorem aggregation_without_sources_returns:
  "getAggregatedProductionData demo_platforms failing_sources 1700000000000 1700003600000 =
     Inr \<lparr>ag_sources =
            [SourceError ''IoT data retrieval failed: timeout of 15000ms exceeded'' ''dev-2'',
             SourceError ''Third-party verification failed: Network Error'' ''ver-7''],
          ag_totalProduction = 0, ag_averageQuality = 0, ag_sourcesUsed = 0,
          ag_dataReliability = Some 0\<rparr>
   \<and> filter (succeeds demo_platforms 1700000000000 1700003600000) failing_sources = []"
  by (simp add: failing_aggregation failing_succeeding)

theorem aggregation_never_unavailable_witness:
  "failing_sources \<noteq> []
   \<and> (\<exists>src \<in> set failing_sources. \<not> succeeds demo_platforms 1700000000000 1700003600000 src)
   \<and> (\<exists>agg. getAggregatedProductionData demo_platforms failing_sources
                1700000000000 1700003600000 = Inr agg
          \<and> ag_sourcesUsed agg = 0 \<and> ag_dataReliability agg = Some 0)"
  using aggregation_never_unavailable
      [of demo_platforms failing_sources 1700000000000 1700003600000]
  by (simp add: failing_aggregation failing_succeeding) (simp add: failing_sources_def)

text \<open>
  In double precision the reliability behaves in the same way for every array, which
  has fewer than \<open>2 ^ 32\<close> elements: the call returns, and for a non-empty array
  \<open>dataReliability\<close> is a number between 0 and 100, 0 exactly when zero sources
  succeed and below 100 exactly when at least one source fails.
\<close>

lemma aggregation_binary64_reliability:
  "\<exists>agg. getAggregatedProductionData_binary64 env sources fromDate toDate = Inr agg
     \<and> b64_sourcesUsed agg = length (filter (succeeds env fromDate toDate) sources)
     \<and> (sources \<noteq> [] \<and> length sources < 2 ^ 32 \<longrightarrow>
          (\<exists>r. b64_dataReliability agg = Finite r \<and> 0 \<le> r \<and> r \<le> 100
             \<and> (r = 0 \<longleftrightarrow> filter (succeeds env fromDate toDate) sources = [])
             \<and> (r < 100 \<longleftrightarrow> (\<exists>src \<in> set sources. \<not> succeeds env fromDate toDate src))))"
proof -
  let ?ok = "filter (succeeds env fromDate toDate) sources"
  from aggregation_binary64 [of env sources fromDate toDate] obtain agg where
    agg: "getAggregatedProductionData_binary64 env sources fromDate toDate = Inr agg"
      "b64_sourcesUsed agg = length ?ok"
      "b64_dataReliability agg = percentage (length ?ok) (length sources)"
    by blast
  have le: "length ?ok \<le> length sources" by simp
  have fails: "length ?ok < length sources
      \<longleftrightarrow> (\<exists>src \<in> set sources. \<not> succeeds env fromDate toDate src)"
  proof
    assume less: "length ?ok < length sources"
    show "\<exists>src \<in> set sources. \<not> succeeds env fromDate toDate src"
    proof (rule ccontr)
      assume "\<not> (\<exists>src \<in> set sources. \<not> succeeds env fromDate toDate src)"
      then have "?ok = sources" by (simp add: filter_id_conv)
      with less show False by simp
    qed
  next
    assume "\<exists>src \<in> set sources. \<not> succeeds env fromDate toDate src"
    then show "length ?ok < length sources"
      by (auto intro: length_filter_less)
  qed
  have "\<exists>r. b64_dataReliability agg = Finite r \<and> 0 \<le> r \<and> r \<le> 100
             \<and> (r = 0 \<longleftrightarrow> ?ok = [])
             \<and> (r < 100 \<longleftrightarrow> (\<exists>src \<in> set sources. \<not> succeeds env fromDate toDate src))"
    if "sources \<noteq> []" "length sources < 2 ^ 32"
  proof -
    from that have "0 < length sources" by simp
    from percentage_order [OF le this that(2)] fails agg(3) show ?thesis
      by simp
  qed
  with agg(1,2) show ?thesis by blast
qed

lemma metered_succeeding:
  "filter (succeeds demo_platforms 1700000000000 1700003600000) metered_sources
     = [\<lparr>src_type = ''iot'', src_id = ''dev-1'', src_projectId = None\<rparr>,
        \<lparr>src_type = ''government'', src_id = ''fac-1'', src_projectId = None\<rparr>,
        \<lparr>src_type = ''iot'', src_id = ''dev-1'', src_projectId = None\<rparr>]"
  by (simp add: succeeds_def demo_platforms_def metered_sources_def fetch_source_def
      getIoTProductionData_def getGovernmentEnergyData_def)

lemma demo_reported_totals:
  "reported_total demo_platforms 1700000000000 1700003600000
     \<lparr>src_type = ''iot'', src_id = ''dev-1'', src_projectId = None\<rparr> = 300"
  "reported_total demo_platforms 1700000000000 1700003600000
     \<lparr>src_type = ''government'', src_id = ''fac-1'', src_projectId = None\<rparr> = 0"
  by (simp_all add: reported_total_def demo_platforms_def fetch_source_def
      getIoTProductionData_def getGovernmentEnergyData_def)

lemma three_quarters_percentage: "percentage 3 4 = Finite 75"
proof -
  have "nearest_double (3 / 4) = Finite (3 / 4)"
    using nearest_double_eval [of "- 1" "3 / 4" "3 * 2 ^ 51"]
    by (simp add: pow2_def)
  moreover have "nearest_double 75 = Finite 75"
    using nearest_double_of_nat [of 75] by simp
  ultimately show ?thesis by (simp add: percentage_def)
qed

lemma no_sources_percentage: "percentage 0 0 = NaN"
  by (simp add: percentage_def)

lemma percentage_two_thirds:
  "percentage 2 3 = Finite (2345624805922133 / 2 ^ 45)"
  using two_thirds_times_hundred by (simp add: percentage_def)

lemma double_of_two_thirds: "nearest_double (2 / 3) = Finite (6004799503160661 / 2 ^ 53)"
  using nearest_double_eval [of "- 1" "2 / 3" 6004799503160661]
  by (simp add: pow2_def)

lemma decimal_succeeding:
  "filter (succeeds decimal_platforms 1700000000000 1700003600000) decimal_sources
     = decimal_sources"
  by (simp add: succeeds_def decimal_platforms_def decimal_sources_def fetch_source_def
      getIoTProductionData_def)

lemma decimal_reported:
  "reported_total decimal_platforms 1700000000000 1700003600000
     \<lparr>src_type = ''iot'', src_id = ''m-1'', src_projectId = None\<rparr> = 1 / 10"
  "reported_total decimal_platforms 1700000000000 1700003600000
     \<lparr>src_type = ''iot'', src_id = ''m-2'', src_projectId = None\<rparr> = 1 / 5"
  "reported_total decimal_platforms 1700000000000 1700003600000
     \<lparr>src_type = ''iot'', src_id = ''m-3'', src_projectId = None\<rparr> = 3 / 10"
  by (simp_all add: reported_total_def decimal_platforms_def fetch_source_def
      getIoTProductionData_def)

lemma decimal_reported_totals:
  "map (reported_total decimal_platforms 1700000000000 1700003600000) decimal_sources
     = [1 / 10, 1 / 5, 3 / 10]"
  by (simp add: reported_total_def decimal_platforms_def decimal_sources_def fetch_source_def
      getIoTProductionData_def)

lemma double_of_decimals:
  "nearest_double (1 / 10) = Finite (3602879701896397 / 2 ^ 55)"
  "nearest_double (1 / 5) = Finite (3602879701896397 / 2 ^ 54)"
  "nearest_double (3 / 10) = Finite (5404319552844595 / 2 ^ 54)"
  "nearest_double (3 / 5) = Finite (5404319552844595 / 2 ^ 53)"
  using nearest_double_eval [of "- 4" "1 / 10" 7205759403792794]
    nearest_double_eval [of "- 3" "1 / 5" 7205759403792794]
    nearest_double_eval [of "- 2" "3 / 10" 5404319552844595]
    nearest_double_eval [of "- 1" "3 / 5" 5404319552844595]
  by (simp_all add: pow2_def)

lemma sum_of_decimals:
  "foldl js_add (Finite 0)
     [Finite (3602879701896397 / 2 ^ 55), Finite (3602879701896397 / 2 ^ 54),
      Finite (5404319552844595 / 2 ^ 54)]
   = Finite (1351079888211149 / 2 ^ 51)"
proof -
  have a: "nearest_double (0 + 3602879701896397 / 2 ^ 55)
      = Finite (3602879701896397 / 2 ^ 55)"
    using nearest_double_eval [of "- 4" "3602879701896397 / 2 ^ 55" 7205759403792794]
    by (simp add: pow2_def)
  have b: "nearest_double (3602879701896397 / 2 ^ 55 + 3602879701896397 / 2 ^ 54)
      = Finite (1351079888211149 / 2 ^ 52)"
    using nearest_double_eval_tie
      [of "- 2" "3602879701896397 / 2 ^ 55 + 3602879701896397 / 2 ^ 54" 5404319552844595]
    by (simp add: pow2_def)
  have c: "nearest_double (1351079888211149 / 2 ^ 52 + 5404319552844595 / 2 ^ 54)
      = Finite (1351079888211149 / 2 ^ 51)"
    using nearest_double_eval_tie
      [of "- 1" "1351079888211149 / 2 ^ 52 + 5404319552844595 / 2 ^ 54" 5404319552844595]
    by (simp add: pow2_def)
  show ?thesis
    by (simp only: foldl.simps js_add.simps a b c)
qed

text \<open>
  C6, as stated, fails. With two of three sources succeeding, \<open>dataReliability\<close> is
  the double \<open>66.66666666666666\<close>, a percentage, and neither the quotient \<open>2 / 3\<close>
  nor the double nearest to it; the government source, which succeeds and reports 500
  kWh of renewable energy, adds nothing to \<open>totalProduction\<close>, which is the 300 of the
  meter. And with three meters that report 0.1, 0.2 and 0.3 kWh, \<open>totalProduction\<close>
  is the double \<open>0.6000000000000001\<close>, which is neither the sum \<open>3 / 5\<close> of the
  reported totals nor the double nearest to that sum.
\<close>

theorem aggregated_reliability_is_percentage:
  "(\<exists>agg. getAggregatedProductionData_binary64 demo_platforms demo_sources
              1700000000000 1700003600000 = Inr agg
        \<and> b64_sourcesUsed agg = 2
        \<and> b64_dataReliability agg = Finite (2345624805922133 / 2 ^ 45)
        \<and> b64_dataReliability agg \<noteq> Finite (2 / 3)
        \<and> b64_dataReliability agg \<noteq> nearest_double (2 / 3)
        \<and> b64_totalProduction agg = Finite 300)
   \<and> length (filter (succeeds demo_platforms 1700000000000 1700003600000) demo_sources) = 2
   \<and> length demo_sources = 3
   \<and> succeeds demo_platforms 1700000000000 1700003600000
        \<lparr>src_type = ''government'', src_id = ''fac-1'', src_projectId = None\<rparr>
   \<and> government demo_platforms ''fac-1'' 1700000000000 1700003600000
        = Inr \<lparr>totalRenewableEnergy = Some 500, averageRenewablePercentage = Some 80,
               totalCarbonSaved = Some 40, complianceScore = Some 9\<rparr>
   \<and> (\<exists>agg. getAggregatedProductionData_binary64 decimal_platforms decimal_sources
              1700000000000 1700003600000 = Inr agg
        \<and> b64_sourcesUsed agg = 3
        \<and> b64_totalProduction agg = Finite (1351079888211149 / 2 ^ 51)
        \<and> b64_totalProduction agg \<noteq> Finite (3 / 5)
        \<and> b64_totalProduction agg \<noteq> nearest_double (3 / 5))
   \<and> sum_list (map (reported_total decimal_platforms 1700000000000 1700003600000)
        (filter (succeeds decimal_platforms 1700000000000 1700003600000) decimal_sources))
      = 3 / 5"
proof -
  let ?ok = "filter (succeeds demo_platforms 1700000000000 1700003600000) demo_sources"
  have len: "length ?ok = 2" "length demo_sources = 3"
    by (simp_all add: demo_succeeding) (simp_all add: demo_sources_def)
  have counted: "counted_totals demo_platforms 1700000000000 1700003600000 demo_sources
      = [Finite 300]"
    using nearest_double_of_nat [of 300]
    by (simp add: counted_totals_def demo_succeeding demo_reported_totals nearest_double_def [of 0])
  have "foldl js_add (Finite 0) [Finite 300] = Finite 300"
    using nearest_double_of_nat [of 300] by simp
  with aggregation_binary64 [of demo_platforms demo_sources 1700000000000 1700003600000]
  have one: "\<exists>agg. getAggregatedProductionData_binary64 demo_platforms demo_sources
              1700000000000 1700003600000 = Inr agg
        \<and> b64_sourcesUsed agg = 2
        \<and> b64_dataReliability agg = Finite (2345624805922133 / 2 ^ 45)
        \<and> b64_dataReliability agg \<noteq> Finite (2 / 3)
        \<and> b64_dataReliability agg \<noteq> nearest_double (2 / 3)
        \<and> b64_totalProduction agg = Finite 300"
    by (auto simp add: len counted percentage_two_thirds double_of_two_thirds)
  have gov: "succeeds demo_platforms 1700000000000 1700003600000
        \<lparr>src_type = ''government'', src_id = ''fac-1'', src_projectId = None\<rparr>"
    "government demo_platforms ''fac-1'' 1700000000000 1700003600000
        = Inr \<lparr>totalRenewableEnergy = Some 500, averageRenewablePercentage = Some 80,
               totalCarbonSaved = Some 40, complianceScore = Some 9\<rparr>"
    by (simp_all add: succeeds_def demo_platforms_def fetch_source_def
        getGovernmentEnergyData_def)
  have dcounted: "counted_totals decimal_platforms 1700000000000 1700003600000 decimal_sources
      = [Finite (3602879701896397 / 2 ^ 55), Finite (3602879701896397 / 2 ^ 54),
         Finite (5404319552844595 / 2 ^ 54)]"
    unfolding counted_totals_def decimal_succeeding
    by (simp add: decimal_sources_def decimal_reported double_of_decimals)
  have dlen: "length (filter (succeeds decimal_platforms 1700000000000 1700003600000)
      decimal_sources) = 3"
    by (simp add: decimal_succeeding) (simp add: decimal_sources_def)
  have two: "\<exists>agg. getAggregatedProductionData_binary64 decimal_platforms decimal_sources
              1700000000000 1700003600000 = Inr agg
        \<and> b64_sourcesUsed agg = 3
        \<and> b64_totalProduction agg = Finite (1351079888211149 / 2 ^ 51)
        \<and> b64_totalProduction agg \<noteq> Finite (3 / 5)
        \<and> b64_totalProduction agg \<noteq> nearest_double (3 / 5)"
  proof -
    from aggregation_binary64
      [of decimal_platforms decimal_sources 1700000000000 1700003600000]
    obtain agg where
      agg: "getAggregatedProductionData_binary64 decimal_platforms decimal_sources
              1700000000000 1700003600000 = Inr agg"
        "b64_totalProduction agg = foldl js_add (Finite 0)
           (counted_totals decimal_platforms 1700000000000 1700003600000 decimal_sources)"
        "b64_sourcesUsed agg = 3"
      unfolding dlen by blast
    have total: "b64_totalProduction agg = Finite (1351079888211149 / 2 ^ 51)"
      by (simp only: agg(2) dcounted sum_of_decimals)
    have "b64_totalProduction agg \<noteq> Finite (3 / 5)"
      "b64_totalProduction agg \<noteq> nearest_double (3 / 5)"
      by (simp_all add: total double_of_decimals)
    with agg(1,3) total show ?thesis by blast
  qed
  have dsum: "sum_list (map (reported_total decimal_platforms 1700000000000 1700003600000)
        (filter (succeeds decimal_platforms 1700000000000 1700003600000) decimal_sources))
      = 3 / 5"
    by (simp add: decimal_succeeding decimal_reported_totals)
  from one len gov two dsum show ?thesis
    by blast
qed

text \<open>
  C6, amended. The call returns, and in the double precision of the code:
  \<open>totalProduction\<close> is what adding up gives, from 0, in the order of the list and
  with every addition rounded to the nearest double, for the \<open>summary.totalProduction\<close>
  of exactly the sources that succeed, those that are 0 or missing left out (a failed
  source adds nothing, and so does a result without a production total, as those of
  the government and third-party adapters); \<open>sourcesUsed\<close> is the number of
  succeeding sources; and \<open>dataReliability\<close> is that number divided by the number of
  requested sources, rounded, times 100, rounded: a percentage. When the totals of the
  succeeding sources are natural numbers whose sum is below \<open>2 ^ 53\<close>,
  \<open>totalProduction\<close> is exactly their sum. For a non-empty list \<open>dataReliability\<close>
  is within \<open>2 ^ -45\<close> of the exact percentage; for an empty list it is \<open>NaN\<close>.
\<close>

theorem aggregated_totals_binary64:
  "\<exists>agg. getAggregatedProductionData_binary64 env sources fromDate toDate = Inr agg
     \<and> b64_totalProduction agg
         = foldl js_add (Finite 0) (counted_totals env fromDate toDate sources)
     \<and> b64_sourcesUsed agg = length (filter (succeeds env fromDate toDate) sources)
     \<and> b64_dataReliability agg
         = percentage (length (filter (succeeds env fromDate toDate) sources)) (length sources)
     \<and> ((\<forall>src \<in> set sources. succeeds env fromDate toDate src \<longrightarrow>
             (\<exists>n. reported_total env fromDate toDate src = of_nat n))
          \<and> sum_list (map (reported_total env fromDate toDate)
                (filter (succeeds env fromDate toDate) sources)) < 2 ^ 53
        \<longrightarrow> b64_totalProduction agg
              = Finite (sum_list (map (reported_total env fromDate toDate)
                  (filter (succeeds env fromDate toDate) sources))))
     \<and> (sources \<noteq> [] \<longrightarrow>
          (\<exists>r. b64_dataReliability agg = Finite r \<and> 0 \<le> r
             \<and> \<bar>r - of_nat (length (filter (succeeds env fromDate toDate) sources))
                      / of_nat (length sources) * 100\<bar> \<le> 1 / 2 ^ 45))
     \<and> (sources = [] \<longrightarrow> b64_dataReliability agg = NaN)"
proof -
  let ?ok = "filter (succeeds env fromDate toDate) sources"
  from aggregation_binary64 [of env sources fromDate toDate] obtain agg where
    agg: "getAggregatedProductionData_binary64 env sources fromDate toDate = Inr agg"
      "b64_totalProduction agg
         = foldl js_add (Finite 0) (counted_totals env fromDate toDate sources)"
      "b64_sourcesUsed agg = length ?ok"
      "b64_dataReliability agg = percentage (length ?ok) (length sources)"
    by blast
  have exact: "b64_totalProduction agg
      = Finite (sum_list (map (reported_total env fromDate toDate) ?ok))"
    if "\<forall>src \<in> set sources. succeeds env fromDate toDate src \<longrightarrow>
             (\<exists>n. reported_total env fromDate toDate src = of_nat n)"
      and "sum_list (map (reported_total env fromDate toDate) ?ok) < 2 ^ 53"
    using reported_total_exact [OF that] agg(2) by simp
  have near: "\<exists>r. b64_dataReliability agg = Finite r \<and> 0 \<le> r
             \<and> \<bar>r - of_nat (length ?ok) / of_nat (length sources) * 100\<bar> \<le> 1 / 2 ^ 45"
    if "sources \<noteq> []"
  proof -
    have "length ?ok \<le> length sources" by simp
    moreover from that have "0 < length sources" by simp
    ultimately show ?thesis
      using percentage_near [of "length ?ok" "length sources"] agg(4) by simp
  qed
  have none: "b64_dataReliability agg = NaN" if "sources = []"
    using that agg(4) by (simp add: no_sources_percentage)
  from agg exact near none show ?thesis
    by blast
qed

theorem aggregated_totals_binary64_witness:
  "map (reported_total demo_platforms 1700000000000 1700003600000)
     (filter (succeeds demo_platforms 1700000000000 1700003600000) metered_sources)
     = [of_nat 300, of_nat 0, of_nat 300]
   \<and> sum_list (map (reported_total demo_platforms 1700000000000 1700003600000)
        (filter (succeeds demo_platforms 1700000000000 1700003600000) metered_sources)) = 600
   \<and> metered_sources \<noteq> []
   \<and> (\<exists>agg. getAggregatedProductionData_binary64 demo_platforms metered_sources
                1700000000000 1700003600000 = Inr agg
          \<and> b64_totalProduction agg = Finite 600
          \<and> b64_sourcesUsed agg = 3
          \<and> b64_dataReliability agg = Finite 75)
   \<and> (\<exists>agg. getAggregatedProductionData_binary64 demo_platforms []
                1700000000000 1700003600000 = Inr agg
          \<and> b64_totalProduction agg = Finite 0
          \<and> b64_sourcesUsed agg = 0
          \<and> b64_dataReliability agg = NaN)"
proof -
  let ?ok = "filter (succeeds demo_platforms 1700000000000 1700003600000) metered_sources"
  have total: "sum_list (map (reported_total demo_platforms 1700000000000 1700003600000) ?ok)
      = 600"
    by (simp add: metered_succeeding demo_reported_totals)
  have nats: "\<forall>src \<in> set metered_sources.
       succeeds demo_platforms 1700000000000 1700003600000 src \<longrightarrow>
       (\<exists>n. reported_total demo_platforms 1700000000000 1700003600000 src = of_nat n)"
  proof (intro ballI impI)
    fix src
    assume "src \<in> set metered_sources"
      and "succeeds demo_platforms 1700000000000 1700003600000 src"
    then have "src \<in> set ?ok" by simp
    then consider "src = \<lparr>src_type = ''iot'', src_id = ''dev-1'', src_projectId = None\<rparr>"
      | "src = \<lparr>src_type = ''government'', src_id = ''fac-1'', src_projectId = None\<rparr>"
      unfolding metered_succeeding by auto
    then show "\<exists>n. reported_total demo_platforms 1700000000000 1700003600000 src = of_nat n"
    proof cases
      case 1
      have "reported_total demo_platforms 1700000000000 1700003600000 src = of_nat 300"
        by (simp add: 1 demo_reported_totals)
      then show ?thesis ..
    next
      case 2
      have "reported_total demo_platforms 1700000000000 1700003600000 src = of_nat 0"
        by (simp add: 2 demo_reported_totals)
      then show ?thesis ..
    qed
  qed
  have bound: "sum_list (map (reported_total demo_platforms 1700000000000 1700003600000) ?ok)
      < 2 ^ 53"
    by (simp add: total)
  have len: "length ?ok = 3" "length metered_sources = 4" "metered_sources \<noteq> []"
    by (simp_all add: metered_succeeding) (simp_all add: metered_sources_def)
  from aggregated_totals_binary64
    [of demo_platforms metered_sources 1700000000000 1700003600000] nats bound
  have one: "\<exists>agg. getAggregatedProductionData_binary64 demo_platforms metered_sources
                1700000000000 1700003600000 = Inr agg
          \<and> b64_totalProduction agg = Finite 600
          \<and> b64_sourcesUsed agg = 3
          \<and> b64_dataReliability agg = Finite 75"
    by (simp only: total len three_quarters_percentage) blast
  from aggregated_totals_binary64 [of demo_platforms "[]" 1700000000000 1700003600000]
  have two: "\<exists>agg. getAggregatedProductionData_binary64 demo_platforms []
                1700000000000 1700003600000 = Inr agg
          \<and> b64_totalProduction agg = Finite 0
          \<and> b64_sourcesUsed agg = 0
          \<and> b64_dataReliability agg = NaN"
    by (auto simp: counted_totals_def)
  have totals: "map (reported_total demo_platforms 1700000000000 1700003600000) ?ok
      = [of_nat 300, of_nat 0, of_nat 300]"
    by (simp add: metered_succeeding demo_reported_totals)
  from totals total len(3) one two show ?thesis
    by blast
qed

section \<open>Verifying a milestone\<close>

lemma getMilestone_initialized: "getMilestone s i = Inr m \<Longrightarrow> initialized s"
  by (simp add: getMilestone_def split: if_splits)

lemma contract_getMilestone_Inr:
  "contract_getMilestone l i = Inr raw \<Longrightarrow> reachable l \<and> milestones l i = Some raw"
  by (simp add: contract_getMilestone_def split: if_splits option.splits)

lemma status_name_Pending: "getMilestoneStatusName c = ''Pending'' \<longleftrightarrow> c = 0"
proof -
  have "c = 0 \<or> c = 1 \<or> c = 2 \<or> c = 3 \<or> 4 \<le> c" by arith
  then show ?thesis by (auto simp: getMilestoneStatusName_def)
qed

lemma verifyMilestone_resolved:
  assumes "getMilestone s i = Inr m" "ms_status m \<noteq> ''Pending''"
  shows "verifyMilestone s i actualValue success
           = Inl (Error ''Failed to verify milestone: Conflict'')"
proof -
  from getMilestone_decoded [OF assms(1)] obtain raw where
    raw: "contract_getMilestone (chain s) i = Inr raw"
    and st: "ms_status m = getMilestoneStatusName (rm_status raw)" by blast
  from st assms(2) have "rm_status raw \<noteq> 0" by (auto simp: status_name_Pending)
  with contract_getMilestone_Inr [OF raw] getMilestone_initialized [OF assms(1)]
  show ?thesis
    by (simp add: verifyMilestone_def contract_verifyMilestone_def revert_def)
qed

lemma verifyMilestone_pending:
  assumes "getMilestone s i = Inr m" "ms_status m = ''Pending''"
  shows "\<exists>raw. milestones (chain s) i = Some raw \<and> ms_targetValue m = rm_targetValue raw \<and>
    verifyMilestone s i actualValue success
      = Inr (''MilestoneVerified'' # (if success then [''SubsidyDisbursed''] else []),
          s\<lparr>chain := (chain s)\<lparr>milestones := (milestones (chain s))(i \<mapsto>
               raw\<lparr>rm_actualValue := actualValue,
                   rm_status := (if success then 1 else 2),
                   rm_verifiedAt := block_time (chain s),
                   rm_verifiedBy := signer s\<rparr>)\<rparr>\<rparr>)"
proof -
  from getMilestone_decoded [OF assms(1)] obtain raw where
    raw: "contract_getMilestone (chain s) i = Inr raw"
    and st: "ms_status m = getMilestoneStatusName (rm_status raw)"
    and tv: "ms_targetValue m = rm_targetValue raw" by blast
  from st assms(2) have "getMilestoneStatusName (rm_status raw) = ''Pending''" by simp
  then have "rm_status raw = 0" by (simp only: status_name_Pending)
  with contract_getMilestone_Inr [OF raw] getMilestone_initialized [OF assms(1)] tv
  show ?thesis
    by (simp add: verifyMilestone_def contract_verifyMilestone_def)
qed

lemma authorize_pass: "u_role usr \<in> set roles \<Longrightarrow> authorize roles (Some usr) = None"
  by (simp add: authorize_def)

text \<open>
  C2. Verifying a milestone that is no longer Pending fails and changes nothing. For
  an Oracle or Auditor whose request passes the limiter and the validation, if the
  milestone read from the ledger has any status other than Pending, the route throws
  the error of the rejected ledger call, \<open>Failed to verify milestone: Conflict\<close>, and
  the whole state (the milestone's status, actualValue, verifiedAt and verifiedBy,
  and the audit log) is as before: neither a silent success nor an overwrite. The
  refusal itself is the ledger's, as the spec words it; the route adds no check of
  its own and passes the error on.
\<close>

theorem verify_resolved_conflict:
  assumes "vr_user req = Some usr" "u_role usr = ORACLE \<or> u_role usr = AUDITOR"
    and "\<not> vr_limited req" "verify_validation req = []"
    and "getMilestone s (nat (the (vr_id req))) = Inr m" "ms_status m \<noteq> ''Pending''"
  shows "verify req s = (Thrown (Error ''Failed to verify milestone: Conflict''), s)"
proof -
  from assms(1,2) have "authorize [ORACLE, AUDITOR] (vr_user req) = None"
    by (auto simp: authorize_pass)
  moreover from assms(5,6) have
    "verify_handler req s = (Thrown (Error ''Failed to verify milestone: Conflict''), s)"
    by (simp add: verify_handler_def Let_def verifyMilestone_resolved milestone_catch_def)
  ultimately show ?thesis
    using assms(3,4)
    by (simp add: verify_def sensitiveOperationLimiter_def validateRequest_def)
qed

lemma autoVerify_pending:
  assumes "ar_user req = Some usr" "u_role usr = ORACLE" "\<not> ar_limited req"
    and "autoVerify_validation req = []"
    and "getMilestone s (nat (the (ar_id req))) = Inr m" "ms_status m = ''Pending''"
    and "getAggregateValue s (ms_verificationSource m) (the (ar_fromDate req))
           (the (ar_toDate req)) = Inr agg"
  shows "\<exists>body s' raw. autoVerify req s = (Json 200 body, s')
     \<and> milestones (chain s) (nat (the (ar_id req))) = Some raw
     \<and> milestones (chain s') (nat (the (ar_id req)))
         = Some (raw\<lparr>rm_actualValue := totalValue agg,
                     rm_status := (if ms_targetValue m \<le> totalValue agg then 1 else 2),
                     rm_verifiedAt := block_time (chain s),
                     rm_verifiedBy := signer s\<rparr>)"
proof -
  from assms(1,2) have a: "authorize [ORACLE] (ar_user req) = None"
    by (auto simp: authorize_pass)
  from verifyMilestone_pending [OF assms(5,6), of "totalValue agg"
      "ms_targetValue m \<le> totalValue agg"]
  obtain raw where raw: "milestones (chain s) (nat (the (ar_id req))) = Some raw"
    and v: "verifyMilestone s (nat (the (ar_id req))) (totalValue agg)
              (ms_targetValue m \<le> totalValue agg)
      = Inr (''MilestoneVerified'' #
               (if ms_targetValue m \<le> totalValue agg then [''SubsidyDisbursed''] else []),
          s\<lparr>chain := (chain s)\<lparr>milestones := (milestones (chain s))(nat (the (ar_id req)) \<mapsto>
               raw\<lparr>rm_actualValue := totalValue agg,
                   rm_status := (if ms_targetValue m \<le> totalValue agg then 1 else 2),
                   rm_verifiedAt := block_time (chain s),
                   rm_verifiedBy := signer s\<rparr>)\<rparr>\<rparr>)"
    by blast
  show ?thesis
    using a assms(3,4,5,6,7) raw v
    by (simp add: autoVerify_def sensitiveOperationLimiter_def validateRequest_def
        autoVerify_handler_def Let_def audit_def)
qed

text \<open>
  C3. Auto-verification decides with \<open>totalValue >= targetValue\<close>. For an Oracle whose
  request passes the limiter and the validation, a Pending milestone and an aggregate
  returned for its verification source over the window, the route answers 200 and the
  ledger then holds the milestone with status Verified if the aggregated total is
  greater than or equal to the target (equality included), Failed if it is strictly
  less, and with actualValue set to the aggregated total.
\<close>

theorem autoVerify_inclusive:
  assumes "ar_user req = Some usr" "u_role usr = ORACLE" "\<not> ar_limited req"
    and "autoVerify_validation req = []"
    and "getMilestone s (nat (the (ar_id req))) = Inr m" "ms_status m = ''Pending''"
    and "getAggregateValue s (ms_verificationSource m) (the (ar_fromDate req))
           (the (ar_toDate req)) = Inr agg"
  shows "\<exists>body s' raw'. autoVerify req s = (Json 200 body, s')
     \<and> milestones (chain s') (nat (the (ar_id req))) = Some raw'
     \<and> getMilestoneStatusName (rm_status raw')
         = (if totalValue agg \<ge> ms_targetValue m then ''Verified'' else ''Failed'')
     \<and> rm_actualValue raw' = totalValue agg"
proof -
  from autoVerify_pending [OF assms] obtain body s' raw where
    run: "autoVerify req s = (Json 200 body, s')"
    and after: "milestones (chain s') (nat (the (ar_id req)))
         = Some (raw\<lparr>rm_actualValue := totalValue agg,
                     rm_status := (if ms_targetValue m \<le> totalValue agg then 1 else 2),
                     rm_verifiedAt := block_time (chain s),
                     rm_verifiedBy := signer s\<rparr>)"
    by blast
  show ?thesis
    by (rule exI [of _ body], rule exI [of _ s'], rule exI, intro conjI, rule run, rule after)
       (simp_all add: getMilestoneStatusName_def)
qed

lemma demo_pending:
  "getMilestone demo_server 1 = Inr \<lparr>ms_id = 1, ms_projectId = 1,
     ms_description = ''Produce 500kg of green hydrogen for testing'',
     ms_subsidyAmount = 1 / 2, ms_targetValue = 500, ms_actualValue = 0,
     ms_verificationSource = ''test-meter-001'', ms_deadline = 1700086400000,
     ms_status = ''Pending'', ms_verifiedAt = None, ms_verifiedBy = None, ms_paid = False\<rparr>"
  by (simp add: getMilestone_def demo_server_def demo_ledger_def contract_getMilestone_def
      pending_milestone_def bindE_def toNumber_def formatEther_def
      getMilestoneStatusName_def AddressZero_def)

lemma demo_window:
  "getAggregateValue demo_server ''test-meter-001'' 1700000000000 1700003000000
     = Inr \<lparr>totalValue = 500, dataPointCount = 2\<rparr>"
  by (simp add: getAggregateValue_def demo_server_def demo_ledger_def
      contract_getAggregateValue_def in_window_def bindE_def toNumber_def)

theorem autoVerify_inclusive_witness:
  "ar_user window_request = Some oracle_user \<and> u_role oracle_user = ORACLE
   \<and> \<not> ar_limited window_request \<and> autoVerify_validation window_request = []
   \<and> getAggregateValue demo_server ''test-meter-001'' 1700000000000 1700003000000
       = Inr \<lparr>totalValue = 500, dataPointCount = 2\<rparr>
   \<and> (\<exists>body s' raw'. autoVerify window_request demo_server = (Json 200 body, s')
         \<and> milestones (chain s') 1 = Some raw'
         \<and> getMilestoneStatusName (rm_status raw') = ''Verified''
         \<and> rm_actualValue raw' = 500)"
proof -
  let ?m = "\<lparr>ms_id = 1, ms_projectId = 1,
     ms_description = ''Produce 500kg of green hydrogen for testing'',
     ms_subsidyAmount = 1 / 2, ms_targetValue = 500, ms_actualValue = 0,
     ms_verificationSource = ''test-meter-001'', ms_deadline = 1700086400000,
     ms_status = ''Pending'', ms_verifiedAt = None, ms_verifiedBy = None, ms_paid = False\<rparr>"
  let ?agg = "\<lparr>totalValue = 500, dataPointCount = 2\<rparr>"
  have i: "nat (the (ar_id window_request)) = 1"
    and h1: "ar_user window_request = Some oracle_user"
    and h2: "u_role oracle_user = ORACLE"
    and h3: "\<not> ar_limited window_request"
    and h4: "autoVerify_validation window_request = []"
    by (simp_all add: window_request_def oracle_user_def autoVerify_validation_def check_def
        isInt_min_def)
  have h5: "getMilestone demo_server (nat (the (ar_id window_request))) = Inr ?m"
    unfolding i by (rule demo_pending)
  have h6: "ms_status ?m = ''Pending''" by simp
  have h7: "getAggregateValue demo_server (ms_verificationSource ?m)
      (the (ar_fromDate window_request)) (the (ar_toDate window_request)) = Inr ?agg"
    using demo_window by (simp add: window_request_def)
  from autoVerify_inclusive [OF h1 h2 h3 h4 h5 h6 h7]
  have "\<exists>body s' raw'. autoVerify window_request demo_server = (Json 200 body, s')
         \<and> milestones (chain s') 1 = Some raw'
         \<and> getMilestoneStatusName (rm_status raw') = ''Verified''
         \<and> rm_actualValue raw' = 500"
    unfolding i by simp
  with h1 h2 h3 h4 demo_window show ?thesis by blast
qed

theorem verify_resolved_conflict_witness:
  "vr_user repeated_verify = Some oracle_user \<and> u_role oracle_user = ORACLE
   \<and> \<not> vr_limited repeated_verify \<and> verify_validation repeated_verify = []
   \<and> (\<exists>m. getMilestone demo_server 2 = Inr m \<and> ms_status m = ''Verified'')
   \<and> verify repeated_verify demo_server
       = (Thrown (Error ''Failed to verify milestone: Conflict''), demo_server)"
  using verify_resolved_conflict [of repeated_verify oracle_user demo_server
      "\<lparr>ms_id = 2, ms_projectId = 1,
     ms_description = ''Produce 300kg of green hydrogen for testing'',
     ms_subsidyAmount = 3 / 10, ms_targetValue = 300, ms_actualValue = 320,
     ms_verificationSource = ''test-meter-001'', ms_deadline = 1700086400000,
     ms_status = ''Verified'', ms_verifiedAt = Some 1700003600000,
     ms_verifiedBy = Some oracle_wallet, ms_paid = False\<rparr>"]
  by (simp add: repeated_verify_def oracle_user_def verify_validation_def check_def
      isInt_min_def getMilestone_demo_2)

section \<open>The window of an auto-verification\<close>

lemma demo_future:
  "getAggregateValue demo_server ''test-meter-001'' 1700000000000 1800000000000
     = Inr \<lparr>totalValue = 500, dataPointCount = 2\<rparr>"
  by (simp add: getAggregateValue_def demo_server_def demo_ledger_def
      contract_getAggregateValue_def in_window_def bindE_def toNumber_def)

lemma demo_reversed:
  "getAggregateValue demo_server ''test-meter-001'' 1700003000000 1700000000000
     = Inr \<lparr>totalValue = 0, dataPointCount = 0\<rparr>"
  by (simp add: getAggregateValue_def demo_server_def demo_ledger_def
      contract_getAggregateValue_def in_window_def bindE_def toNumber_def)

lemma autoVerify_demo:
  assumes "req = \<lparr>ar_user = Some oracle_user, ar_limited = False, ar_id = Some 1,
                  ar_fromDate = Some fromDate, ar_toDate = Some toDate\<rparr>"
    and "getAggregateValue demo_server ''test-meter-001'' fromDate toDate = Inr agg"
  shows "reply_status (fst (autoVerify req demo_server)) = Some 200
    \<and> map_option rm_status (milestones (chain (snd (autoVerify req demo_server))) 1)
        = Some (if 500 \<le> totalValue agg then 1 else 2)"
proof -
  let ?m = "\<lparr>ms_id = 1, ms_projectId = 1,
     ms_description = ''Produce 500kg of green hydrogen for testing'',
     ms_subsidyAmount = 1 / 2, ms_targetValue = 500, ms_actualValue = 0,
     ms_verificationSource = ''test-meter-001'', ms_deadline = 1700086400000,
     ms_status = ''Pending'', ms_verifiedAt = None, ms_verifiedBy = None, ms_paid = False\<rparr>"
  have i: "nat (the (ar_id req)) = 1"
    and h1: "ar_user req = Some oracle_user"
    and h2: "u_role oracle_user = ORACLE"
    and h3: "\<not> ar_limited req"
    and h4: "autoVerify_validation req = []"
    by (simp_all add: assms(1) oracle_user_def autoVerify_validation_def check_def isInt_min_def)
  have h5: "getMilestone demo_server (nat (the (ar_id req))) = Inr ?m"
    unfolding i by (rule demo_pending)
  have h6: "ms_status ?m = ''Pending''" by simp
  have h7: "getAggregateValue demo_server (ms_verificationSource ?m)
      (the (ar_fromDate req)) (the (ar_toDate req)) = Inr agg"
    using assms(2) by (simp add: assms(1))
  from autoVerify_pending [OF h1 h2 h3 h4 h5 h6 h7] obtain body s' raw where
    "autoVerify req demo_server = (Json 200 body, s')"
    "milestones (chain s') 1
         = Some (raw\<lparr>rm_actualValue := totalValue agg,
                     rm_status := (if ms_targetValue ?m \<le> totalValue agg then 1 else 2),
                     rm_verifiedAt := block_time (chain demo_server),
                     rm_verifiedBy := signer demo_server\<rparr>)"
    unfolding i by blast
  then show ?thesis by simp
qed

text \<open>
  C5, as stated, fails: the route does not validate the window. On the example server
  an auto-verify request whose \<open>toDate\<close> lies after the current time is answered 200
  and leaves milestone 1 Verified (status 1), and a request whose \<open>fromDate\<close> lies after
  its \<open>toDate\<close> is answered 200 too and leaves the milestone Failed (status 2); neither
  fails with \<open>InvalidArgument\<close>.
\<close>

theorem autoVerify_accepts_any_window:
  "clock demo_server < 1800000000000
   \<and> ar_toDate future_request = Some 1800000000000
   \<and> reply_status (fst (autoVerify future_request demo_server)) = Some 200
   \<and> map_option rm_status (milestones (chain (snd (autoVerify future_request demo_server))) 1)
       = Some 1
   \<and> ar_fromDate reversed_request = Some 1700003000000
   \<and> ar_toDate reversed_request = Some 1700000000000
   \<and> reply_status (fst (autoVerify reversed_request demo_server)) = Some 200
   \<and> map_option rm_status (milestones (chain (snd (autoVerify reversed_request demo_server))) 1)
       = Some 2"
  using autoVerify_demo [OF future_request_def demo_future]
    autoVerify_demo [OF reversed_request_def demo_reversed]
  by (simp add: demo_server_def future_request_def reversed_request_def)

text \<open>
  C5, amended. Auto-verification checks of its window only that both dates are
  present and well-formed. For an Oracle, a valid id, a Pending milestone and any two
  dates, in any order and whatever the clock says, for which the ledger returns an
  aggregate, the route answers 200 and the milestone leaves Pending. The only 400
  answers are \<open>Validation failed\<close> (the validation asks for nothing but the id and the
  two dates) and \<open>Milestone is not in pending status\<close>, both without any state change.
  And an Oracle's request that lacks one of the two dates is answered 400
  \<open>Validation failed\<close>, without any state change.
\<close>

theorem autoVerify_window_unchecked:
  "(ar_user req = Some usr \<and> u_role usr = ORACLE \<and> \<not> ar_limited req
      \<and> isInt_min 1 (ar_id req) \<and> ar_fromDate req = Some fromDate \<and> ar_toDate req = Some toDate
      \<and> getMilestone s (nat (the (ar_id req))) = Inr m \<and> ms_status m = ''Pending''
      \<and> getAggregateValue s (ms_verificationSource m) fromDate toDate = Inr agg
    \<longrightarrow> (\<exists>body s' raw'. autoVerify req s = (Json 200 body, s')
           \<and> milestones (chain s') (nat (the (ar_id req))) = Some raw' \<and> rm_status raw' \<noteq> 0))
   \<and> (autoVerify req s = (Json 400 body, s') \<longrightarrow> s' = s
         \<and> (body = [(''error'', JStr ''Validation failed''),
                     (''details'', JStrs (autoVerify_validation req))]
            \<or> body = [(''error'', JStr ''Milestone is not in pending status'')]))
   \<and> (autoVerify_validation req = [] \<longleftrightarrow>
         isInt_min 1 (ar_id req) \<and> ar_fromDate req \<noteq> None \<and> ar_toDate req \<noteq> None)
   \<and> (ar_user req = Some usr \<and> u_role usr = ORACLE \<and> \<not> ar_limited req
        \<and> (ar_fromDate req = None \<or> ar_toDate req = None)
      \<longrightarrow> autoVerify req s
            = (Json 400 [(''error'', JStr ''Validation failed''),
                         (''details'', JStrs (autoVerify_validation req))], s))"
proof -
  have first: "\<exists>body s' raw'. autoVerify req s = (Json 200 body, s')
           \<and> milestones (chain s') (nat (the (ar_id req))) = Some raw' \<and> rm_status raw' \<noteq> 0"
    if h: "ar_user req = Some usr \<and> u_role usr = ORACLE \<and> \<not> ar_limited req
      \<and> isInt_min 1 (ar_id req) \<and> ar_fromDate req = Some fromDate \<and> ar_toDate req = Some toDate
      \<and> getMilestone s (nat (the (ar_id req))) = Inr m \<and> ms_status m = ''Pending''
      \<and> getAggregateValue s (ms_verificationSource m) fromDate toDate = Inr agg"
  proof -
    from h have v: "autoVerify_validation req = []"
      by (simp add: autoVerify_validation_def check_def)
    from h have agg: "getAggregateValue s (ms_verificationSource m) (the (ar_fromDate req))
           (the (ar_toDate req)) = Inr agg" by simp
    from h autoVerify_pending [OF _ _ _ v _ _ agg, of usr] obtain body s' raw where
      "autoVerify req s = (Json 200 body, s')"
      "milestones (chain s') (nat (the (ar_id req)))
         = Some (raw\<lparr>rm_actualValue := totalValue agg,
                     rm_status := (if ms_targetValue m \<le> totalValue agg then 1 else 2),
                     rm_verifiedAt := block_time (chain s),
                     rm_verifiedBy := signer s\<rparr>)"
      by blast
    then show ?thesis
      by (intro exI [of _ body] exI [of _ s'] exI) auto
  qed
  have second: "s' = s \<and> (body = [(''error'', JStr ''Validation failed''),
                     (''details'', JStrs (autoVerify_validation req))]
            \<or> body = [(''error'', JStr ''Milestone is not in pending status'')])"
    if "autoVerify req s = (Json 400 body, s')"
    using that
    by (auto simp: autoVerify_def authorize_def sensitiveOperationLimiter_def
        validateRequest_def autoVerify_handler_def milestone_catch_def Let_def
        split: option.splits if_splits sum.splits prod.splits)
  have third: "autoVerify_validation req = [] \<longleftrightarrow>
         isInt_min 1 (ar_id req) \<and> ar_fromDate req \<noteq> None \<and> ar_toDate req \<noteq> None"
    by (auto simp: autoVerify_validation_def check_def)
  have fourth: "autoVerify req s
            = (Json 400 [(''error'', JStr ''Validation failed''),
                         (''details'', JStrs (autoVerify_validation req))], s)"
    if h: "ar_user req = Some usr \<and> u_role usr = ORACLE \<and> \<not> ar_limited req
        \<and> (ar_fromDate req = None \<or> ar_toDate req = None)"
  proof -
    from h third have "autoVerify_validation req \<noteq> []" by blast
    with h show ?thesis
      by (simp add: autoVerify_def authorize_def sensitiveOperationLimiter_def
          validateRequest_def)
  qed
  from first second third fourth show ?thesis by blast
qed

theorem autoVerify_window_unchecked_witness:
  "ar_user reversed_request = Some oracle_user \<and> u_role oracle_user = ORACLE
   \<and> \<not> ar_limited reversed_request \<and> isInt_min 1 (ar_id reversed_request)
   \<and> ar_fromDate reversed_request = Some 1700003000000
   \<and> ar_toDate reversed_request = Some 1700000000000
   \<and> (\<exists>m. getMilestone demo_server 1 = Inr m \<and> ms_status m = ''Pending'')
   \<and> getAggregateValue demo_server ''test-meter-001'' 1700003000000 1700000000000
       = Inr \<lparr>totalValue = 0, dataPointCount = 0\<rparr>
   \<and> (\<exists>body s' raw'. autoVerify reversed_request demo_server = (Json 200 body, s')
         \<and> milestones (chain s') 1 = Some raw' \<and> rm_status raw' \<noteq> 0)
   \<and> ar_user undated_request = Some oracle_user \<and> \<not> ar_limited undated_request
   \<and> ar_toDate undated_request = None
   \<and> autoVerify undated_request demo_server
       = (Json 400 [(''error'', JStr ''Validation failed''),
                    (''details'', JStrs [''Valid to date required''])], demo_server)"
proof -
  let ?m = "\<lparr>ms_id = 1, ms_projectId = 1,
     ms_description = ''Produce 500kg of green hydrogen for testing'',
     ms_subsidyAmount = 1 / 2, ms_targetValue = 500, ms_actualValue = 0,
     ms_verificationSource = ''test-meter-001'', ms_deadline = 1700086400000,
     ms_status = ''Pending'', ms_verifiedAt = None, ms_verifiedBy = None, ms_paid = False\<rparr>"
  have i: "nat (the (ar_id reversed_request)) = 1"
    and h: "ar_user reversed_request = Some oracle_user" "u_role oracle_user = ORACLE"
      "\<not> ar_limited reversed_request" "isInt_min 1 (ar_id reversed_request)"
      "ar_fromDate reversed_request = Some 1700003000000"
      "ar_toDate reversed_request = Some 1700000000000"
    by (simp_all add: reversed_request_def oracle_user_def isInt_min_def)
  have m: "getMilestone demo_server (nat (the (ar_id reversed_request))) = Inr ?m"
    unfolding i by (rule demo_pending)
  have a: "getAggregateValue demo_server (ms_verificationSource ?m) 1700003000000 1700000000000
       = Inr \<lparr>totalValue = 0, dataPointCount = 0\<rparr>"
    using demo_reversed by simp
  from autoVerify_window_unchecked [of reversed_request oracle_user 1700003000000 1700000000000
      demo_server ?m "\<lparr>totalValue = 0, dataPointCount = 0\<rparr>"] h m a
  have "\<exists>body s' raw'. autoVerify reversed_request demo_server = (Json 200 body, s')
         \<and> milestones (chain s') 1 = Some raw' \<and> rm_status raw' \<noteq> 0"
    unfolding i by simp
  moreover have "\<exists>m. getMilestone demo_server 1 = Inr m \<and> ms_status m = ''Pending''"
    using demo_pending by simp
  moreover have u: "ar_user undated_request = Some oracle_user"
    "\<not> ar_limited undated_request" "ar_toDate undated_request = None"
    by (simp_all add: undated_request_def)
  moreover have v: "autoVerify_validation undated_request = [''Valid to date required'']"
    by (simp add: undated_request_def autoVerify_validation_def check_def isInt_min_def)
  moreover from autoVerify_window_unchecked [where req = undated_request
      and usr = oracle_user and s = demo_server] u h(2)
  have "autoVerify undated_request demo_server
       = (Json 400 [(''error'', JStr ''Validation failed''),
                    (''details'', JStrs [''Valid to date required''])], demo_server)"
    unfolding v by blast
  ultimately show ?thesis
    using h demo_reversed by blast
qed

section \<open>Role checks\<close>

lemma roles_distinct: "PRODUCER \<noteq> GOVERNMENT" "PRODUCER \<noteq> ORACLE" "PRODUCER \<noteq> AUDITOR"
  by (simp_all add: PRODUCER_def GOVERNMENT_def ORACLE_def AUDITOR_def)

lemma dispute_unchanged_unless_200:
  "dispute req s = (r, s') \<Longrightarrow> reply_status r \<noteq> Some 200 \<Longrightarrow> s' = s"
  by (auto simp: dispute_def authorize_def validateRequest_def dispute_handler_def
      milestone_catch_def Let_def
      split: option.splits if_splits sum.splits)

text \<open>
  C8. Role checks come before any change. A Producer's \<open>createMilestone\<close> is answered
  403 \<open>Insufficient permissions\<close> and the state is as before, so no milestone is
  created. A Producer's dispute is answered 200 only if the milestone's parent project
  lists that Producer's wallet as its producer; for a valid request on a readable
  milestone whose project lists another producer it fails with \<open>ForbiddenError\<close> and the
  state is as before, so no dispute is recorded; and on the Producer's own project's
  Verified or Failed milestone it is answered 200 and one \<open>MILESTONE_DISPUTED\<close> entry is
  recorded. A dispute that is not answered 200 leaves the state as it was.
\<close>

theorem producer_role_checks:
  "(cr_user creq = Some usr \<and> u_role usr = PRODUCER \<longrightarrow>
      createMilestone creq s
        = (Json 403 [(''error'', JStr ''Insufficient permissions''),
                     (''required'', JStrs [GOVERNMENT]), (''current'', JStr PRODUCER)], s))
   \<and> (dr_user dreq = Some usr \<and> u_role usr = PRODUCER
        \<and> dispute dreq s = (r, s') \<and> reply_status r = Some 200 \<longrightarrow>
      lists_as_producer s (nat (the (dr_id dreq))) usr)
   \<and> (dr_user dreq = Some usr \<and> u_role usr = PRODUCER \<and> dispute_validation dreq = []
        \<and> getMilestone s (nat (the (dr_id dreq))) = Inr m
        \<and> getProject s (ms_projectId m) = Inr p
        \<and> pr_producer p \<noteq> u_walletAddress usr \<longrightarrow>
      dispute dreq s
        = (Thrown (ForbiddenError ''You can only dispute milestones for your own projects''), s))
   \<and> (dr_user dreq = Some usr \<and> u_role usr = PRODUCER \<and> dispute_validation dreq = []
        \<and> getMilestone s (nat (the (dr_id dreq))) = Inr m
        \<and> getProject s (ms_projectId m) = Inr p
        \<and> pr_producer p = u_walletAddress usr
        \<and> (ms_status m = ''Verified'' \<or> ms_status m = ''Failed'') \<longrightarrow>
      reply_status (fst (dispute dreq s)) = Some 200
      \<and> snd (dispute dreq s)
          = audit ''MILESTONE_DISPUTED'' (u_id usr)
              [(''milestoneId'', jnat (nat (the (dr_id dreq)))),
               (''projectId'', jnat (ms_projectId m)),
               (''reason'', JStr (trim (the (dr_reason dreq)))),
               (''originalStatus'', JStr (ms_status m))] s)
   \<and> (dispute dreq s = (r, s') \<and> reply_status r \<noteq> Some 200 \<longrightarrow> s' = s)"
proof -
  have quiet: "s' = s" if "dispute dreq s = (r, s') \<and> reply_status r \<noteq> Some 200"
    using that by (blast dest: dispute_unchanged_unless_200)
  have create: "createMilestone creq s
        = (Json 403 [(''error'', JStr ''Insufficient permissions''),
                     (''required'', JStrs [GOVERNMENT]), (''current'', JStr PRODUCER)], s)"
    if "cr_user creq = Some usr \<and> u_role usr = PRODUCER"
    using that by (simp add: createMilestone_def authorize_def roles_distinct)
  have only_owner: "lists_as_producer s (nat (the (dr_id dreq))) usr"
    if "dr_user dreq = Some usr \<and> u_role usr = PRODUCER
        \<and> dispute dreq s = (r, s') \<and> reply_status r = Some 200"
    using that
    by (auto simp: dispute_def authorize_def validateRequest_def dispute_handler_def
        milestone_catch_def lists_as_producer_def Let_def
        split: option.splits if_splits sum.splits)
  have pass: "authorize [PRODUCER, GOVERNMENT] (Some usr) = None" if "u_role usr = PRODUCER"
    using that by (simp add: authorize_def)
  have forbidden: "dispute dreq s
        = (Thrown (ForbiddenError ''You can only dispute milestones for your own projects''), s)"
    if "dr_user dreq = Some usr \<and> u_role usr = PRODUCER \<and> dispute_validation dreq = []
        \<and> getMilestone s (nat (the (dr_id dreq))) = Inr m
        \<and> getProject s (ms_projectId m) = Inr p
        \<and> pr_producer p \<noteq> u_walletAddress usr"
    using that pass
    by (simp add: dispute_def validateRequest_def dispute_handler_def milestone_catch_def Let_def)
  have own: "reply_status (fst (dispute dreq s)) = Some 200
      \<and> snd (dispute dreq s)
          = audit ''MILESTONE_DISPUTED'' (u_id usr)
              [(''milestoneId'', jnat (nat (the (dr_id dreq)))),
               (''projectId'', jnat (ms_projectId m)),
               (''reason'', JStr (trim (the (dr_reason dreq)))),
               (''originalStatus'', JStr (ms_status m))] s"
    if "dr_user dreq = Some usr \<and> u_role usr = PRODUCER \<and> dispute_validation dreq = []
        \<and> getMilestone s (nat (the (dr_id dreq))) = Inr m
        \<and> getProject s (ms_projectId m) = Inr p
        \<and> pr_producer p = u_walletAddress usr
        \<and> (ms_status m = ''Verified'' \<or> ms_status m = ''Failed'')"
    using that pass
    by (auto simp: dispute_def validateRequest_def dispute_handler_def Let_def)
  from create only_owner forbidden own quiet show ?thesis by blast
qed

lemma demo_project_decoded:
  "getProject demo_server 1 = Inr \<lparr>pr_id = 1, pr_producer = producer_wallet,
     pr_name = ''Test Green Hydrogen Project'',
     pr_description = ''Test project for API integration testing'',
     pr_totalSubsidyAmount = 1, pr_disbursedAmount = 0,
     pr_createdAt = 1700000000000, pr_status = ''Active''\<rparr>"
  by (simp add: getProject_def demo_server_def demo_ledger_def contract_getProject_def
      demo_project_def bindE_def toNumber_def formatEther_def getProjectStatusName_def)

theorem producer_role_checks_witness:
  "createMilestone producer_create demo_server
     = (Json 403 [(''error'', JStr ''Insufficient permissions''),
                  (''required'', JStrs [GOVERNMENT]), (''current'', JStr PRODUCER)], demo_server)
   \<and> lists_as_producer demo_server 2 producer_user
   \<and> reply_status (fst (dispute own_dispute demo_server)) = Some 200
   \<and> audit_log (snd (dispute own_dispute demo_server))
       = [\<lparr>au_action = ''MILESTONE_DISPUTED'', au_userId = Some 2,
           au_details = [(''milestoneId'', jnat 2), (''projectId'', jnat 1),
                         (''reason'', JStr ''Meter readings were incomplete''),
                         (''originalStatus'', JStr ''Verified'')]\<rparr>]
   \<and> \<not> lists_as_producer demo_server 2 other_producer
   \<and> dispute foreign_dispute demo_server
       = (Thrown (ForbiddenError ''You can only dispute milestones for your own projects''),
          demo_server)"
proof -
  let ?m = "\<lparr>ms_id = 2, ms_projectId = 1,
     ms_description = ''Produce 300kg of green hydrogen for testing'',
     ms_subsidyAmount = 3 / 10, ms_targetValue = 300, ms_actualValue = 320,
     ms_verificationSource = ''test-meter-001'', ms_deadline = 1700086400000,
     ms_status = ''Verified'', ms_verifiedAt = Some 1700003600000,
     ms_verifiedBy = Some oracle_wallet, ms_paid = False\<rparr>"
  let ?p = "\<lparr>pr_id = 1, pr_producer = producer_wallet,
     pr_name = ''Test Green Hydrogen Project'',
     pr_description = ''Test project for API integration testing'',
     pr_totalSubsidyAmount = 1, pr_disbursedAmount = 0,
     pr_createdAt = 1700000000000, pr_status = ''Active''\<rparr>"
  have own: "dr_user own_dispute = Some producer_user" "u_role producer_user = PRODUCER"
      "dispute_validation own_dispute = []" "nat (the (dr_id own_dispute)) = 2"
      "trim (the (dr_reason own_dispute)) = ''Meter readings were incomplete''"
      "pr_producer ?p = u_walletAddress producer_user" "u_id producer_user = 2"
    by (simp_all add: own_dispute_def producer_user_def dispute_validation_def check_def
        isInt_min_def isLength_def trim_def is_space_def)
  have foreign: "dr_user foreign_dispute = Some other_producer" "u_role other_producer = PRODUCER"
      "dispute_validation foreign_dispute = []" "nat (the (dr_id foreign_dispute)) = 2"
      "pr_producer ?p \<noteq> u_walletAddress other_producer"
    by (simp_all add: foreign_dispute_def other_producer_def dispute_validation_def check_def
        isInt_min_def isLength_def trim_def is_space_def producer_wallet_def)
  have creator: "cr_user producer_create = Some producer_user"
    by (simp add: producer_create_def)
  have m: "getMilestone demo_server 2 = Inr ?m" by (rule getMilestone_demo_2)
  have p: "getProject demo_server (ms_projectId ?m) = Inr ?p"
    using demo_project_decoded by simp
  have log: "audit_log demo_server = []" by (simp add: demo_server_def)
  note mine = producer_role_checks [where creq = producer_create and usr = producer_user
      and s = demo_server and dreq = own_dispute and m = ?m and p = ?p
      and r = "fst (dispute own_dispute demo_server)"
      and s' = "snd (dispute own_dispute demo_server)"]
  note theirs = producer_role_checks [where usr = other_producer
      and s = demo_server and dreq = foreign_dispute and m = ?m and p = ?p
      and r = "fst (dispute foreign_dispute demo_server)"
      and s' = "snd (dispute foreign_dispute demo_server)"]
  from mine creator own(2) have c1: "createMilestone producer_create demo_server
     = (Json 403 [(''error'', JStr ''Insufficient permissions''),
                  (''required'', JStrs [GOVERNMENT]), (''current'', JStr PRODUCER)], demo_server)"
    by blast
  from mine own m p have c2: "reply_status (fst (dispute own_dispute demo_server)) = Some 200"
    and c3: "snd (dispute own_dispute demo_server)
          = audit ''MILESTONE_DISPUTED'' 2
              [(''milestoneId'', jnat 2), (''projectId'', jnat 1),
               (''reason'', JStr ''Meter readings were incomplete''),
               (''originalStatus'', JStr ''Verified'')] demo_server"
    by simp_all
  from mine own(1,2,4) c2 have c4: "lists_as_producer demo_server 2 producer_user"
    by simp
  from theirs foreign m p have c5: "dispute foreign_dispute demo_server
       = (Thrown (ForbiddenError ''You can only dispute milestones for your own projects''),
          demo_server)"
    by simp
  have c6: "\<not> lists_as_producer demo_server 2 other_producer"
    using m p foreign(5) by (simp add: lists_as_producer_def)
  from c1 c2 c3 c4 c5 c6 log show ?thesis
    by (simp add: audit_def)
qed

end
